theory Spec2Isabelle
  imports Main "HOL-Library.Sublist"
begin

section \<open>JavaScript values\<close>

text \<open>
  The values the pipeline handles are what \<^verbatim>\<open>JSON.parse\<close> returns, plus \<^verbatim>\<open>undefined\<close>
  (the value of a missing property). An object is the list of its own properties in the
  order \<^verbatim>\<open>Object.keys\<close> enumerates them (a parsed object has every key once). Numbers
  are modelled as integers: the code only looks at their type, at whether they are zero,
  and converts them to text.

  Every property name the program itself chooses (\<^verbatim>\<open>data.heroStats\<close>, \<^verbatim>\<open>event.title\<close>,
  the field names of the schema registry, ...) is none of the members that
  \<^verbatim>\<open>Object.prototype\<close>, \<^verbatim>\<open>Array.prototype\<close> or \<^verbatim>\<open>String.prototype\<close> define, so
  reading one of them is a lookup among the own properties. The one lookup whose key comes
  from the document, \<^verbatim>\<open>requirements.types[field]\<close>, is modelled with the inherited
  members (see \<open>types_lookup\<close>).
\<close>

datatype jsval =
    JUndefined
  | JNull
  | JBool bool
  | JNum int
  | JStr string
  | JArr "jsval list"
  | JObj "(string \<times> jsval) list"

text \<open>A thrown error object: its constructor and its \<^verbatim>\<open>message\<close>. The texts of the
  engine's own errors are V8's.\<close>

datatype error = TypeError string | SyntaxError string | Error string

fun message :: "error \<Rightarrow> string" where
  "message (TypeError m) = m"
| "message (SyntaxError m) = m"
| "message (Error m) = m"

fun typeof :: "jsval \<Rightarrow> string" where
  "typeof JUndefined = ''undefined''"
| "typeof JNull = ''object''"
| "typeof (JBool b) = ''boolean''"
| "typeof (JNum n) = ''number''"
| "typeof (JStr s) = ''string''"
| "typeof (JArr xs) = ''object''"
| "typeof (JObj kvs) = ''object''"

fun isArray :: "jsval \<Rightarrow> bool" where
  "isArray (JArr xs) = True"
| "isArray v = False"

text \<open>\<^verbatim>\<open>!v\<close> is \<open>\<not> truthy v\<close>.\<close>

fun truthy :: "jsval \<Rightarrow> bool" where
  "truthy JUndefined = False"
| "truthy JNull = False"
| "truthy (JBool b) = b"
| "truthy (JNum n) = (n \<noteq> 0)"
| "truthy (JStr s) = (s \<noteq> [])"
| "truthy (JArr xs) = True"
| "truthy (JObj kvs) = True"

definition digit :: "nat \<Rightarrow> char" where
  "digit d = ''0123456789'' ! (d mod 10)"

fun show_nat :: "nat \<Rightarrow> string" where
  "show_nat n = (if n < 10 then [digit n] else show_nat (n div 10) @ [digit (n mod 10)])"

declare show_nat.simps [simp del]

definition quoted :: "string \<Rightarrow> string" where
  "quoted s = [CHR 0x27] @ s @ [CHR 0x27]"

text \<open>\<^verbatim>\<open>v.k\<close> and \<^verbatim>\<open>v[k]\<close>: reading a property of \<^verbatim>\<open>null\<close> or \<^verbatim>\<open>undefined\<close> throws;
  an array has its elements and \<^verbatim>\<open>length\<close>, a string its \<^verbatim>\<open>length\<close> (in bytes here,
  in UTF-16 units in JavaScript: the code only compares it with 0).\<close>

fun get_prop :: "jsval \<Rightarrow> string \<Rightarrow> error + jsval" where
  "get_prop JUndefined k =
     Inl (TypeError (''Cannot read properties of undefined (reading '' @ quoted k @ '')''))"
| "get_prop JNull k =
     Inl (TypeError (''Cannot read properties of null (reading '' @ quoted k @ '')''))"
| "get_prop (JObj kvs) k = Inr (case map_of kvs k of Some v \<Rightarrow> v | None \<Rightarrow> JUndefined)"
| "get_prop (JArr xs) k =
     Inr (if k = ''length'' then JNum (int (length xs))
          else (case find (\<lambda>i. show_nat i = k) [0..<length xs] of
                  Some i \<Rightarrow> xs ! i
                | None \<Rightarrow> JUndefined))"
| "get_prop (JStr s) k = Inr (if k = ''length'' then JNum (int (length s)) else JUndefined)"
| "get_prop (JBool b) k = Inr JUndefined"
| "get_prop (JNum n) k = Inr JUndefined"

text \<open>\<^verbatim>\<open>field in item\<close>: a \<^verbatim>\<open>TypeError\<close> when \<open>item\<close> is not an object.\<close>

definition in_message :: "string \<Rightarrow> string \<Rightarrow> error" where
  "in_message field what =
     TypeError (''Cannot use '' @ quoted ''in'' @ '' operator to search for '' @ quoted field @
                '' in '' @ what)"

fun in_operator :: "string \<Rightarrow> jsval \<Rightarrow> error + bool" where
  "in_operator field (JObj kvs) = Inr (field \<in> set (map fst kvs))"
| "in_operator field (JArr xs) =
     Inr (field = ''length'' \<or> field \<in> set (map show_nat [0..<length xs]))"
| "in_operator field JNull = Inl (in_message field ''null'')"
| "in_operator field JUndefined = Inl (in_message field ''undefined'')"
| "in_operator field (JBool b) = Inl (in_message field (if b then ''true'' else ''false''))"
| "in_operator field (JNum n) = Inl (in_message field ''a number'')"
| "in_operator field (JStr s) = Inl (in_message field s)"

text \<open>\<^verbatim>\<open>Object.keys(item)\<close>.\<close>

definition keys_message :: error where
  "keys_message = TypeError ''Cannot convert undefined or null to object''"

fun object_keys :: "jsval \<Rightarrow> error + string list" where
  "object_keys (JObj kvs) = Inr (map fst kvs)"
| "object_keys (JArr xs) = Inr (map show_nat [0..<length xs])"
| "object_keys (JStr s) = Inr (map show_nat [0..<length s])"
| "object_keys JNull = Inl keys_message"
| "object_keys JUndefined = Inl keys_message"
| "object_keys (JBool b) = Inr []"
| "object_keys (JNum n) = Inr []"

fun join :: "string \<Rightarrow> string list \<Rightarrow> string" where
  "join sep [] = []"
| "join sep [x] = x"
| "join sep (x # y # ys) = x @ sep @ join sep (y # ys)"


section \<open>The schema registry and the validator (json-validator.js)\<close>

text \<open>The declared type of a field: one type name, a list of accepted type names, or
  any other value (\<^verbatim>\<open>undefined\<close>, or a member inherited from \<^verbatim>\<open>Object.prototype\<close>), given
  by the text a template literal makes of it.\<close>

datatype expected = Single string | Union "string list" | Other string

record requirements =
  required :: "string list"
  optional :: "string list"
  types :: "(string \<times> expected) list"

definition getRequiredFields :: "(string \<times> requirements) list" where
  "getRequiredFields =
    [(''heroStats'',
        \<lparr>required = [''icon'', ''title'', ''value'', ''description''],
         optional = [],
         types = [(''icon'', Single ''string''), (''title'', Single ''string''),
                  (''value'', Single ''string''), (''description'', Single ''string'')]\<rparr>),
     (''historicalEvents'',
        \<lparr>required = [''date'', ''title'', ''description''],
         optional = [''impact''],
         types = [(''date'', Single ''string''), (''title'', Single ''string''),
                  (''description'', Single ''string''), (''impact'', Single ''string'')]\<rparr>),
     (''yearlyStats'',
        \<lparr>required = [''year'', ''users'', ''penetration''],
         optional = [],
         types = [(''year'', Single ''string''), (''users'', Single ''string''),
                  (''penetration'', Single ''string'')]\<rparr>),
     (''socialMediaPlatforms'',
        \<lparr>required = [''platform'', ''users''],
         optional = [''penetration'', ''ranking'', ''note'', ''status''],
         types = [(''platform'', Single ''string''), (''users'', Single ''string''),
                  (''penetration'', Single ''string''), (''ranking'', Single ''string''),
                  (''note'', Single ''string''), (''status'', Single ''string'')]\<rparr>),
     (''companies'',
        \<lparr>required = [''name'', ''marketShare'', ''subscribers''],
         optional = [''founded'', ''keyMilestone''],
         types = [(''name'', Single ''string''), (''marketShare'', Union [''string'', ''number'']),
                  (''subscribers'', Single ''string''), (''founded'', Single ''string''),
                  (''keyMilestone'', Single ''string'')]\<rparr>),
     (''policies'',
        \<lparr>required = [''title'', ''year'', ''target'', ''achievement''],
         optional = [''description'', ''achievementStatus''],
         types = [(''title'', Single ''string''), (''year'', Union [''string'', ''number'']),
                  (''target'', Single ''string''), (''achievement'', Single ''string''),
                  (''description'', Single ''string''), (''achievementStatus'', Single ''string'')]\<rparr>),
     (''infrastructure'',
        \<lparr>required = [''name'', ''icon'', ''specifications''],
         optional = [],
         types = [(''name'', Single ''string''), (''icon'', Single ''string''),
                  (''specifications'', Single ''array'')]\<rparr>)]"

text \<open>The members every object literal inherits from \<^verbatim>\<open>Object.prototype\<close>, each with the
  text a template literal makes of it.\<close>

definition native :: "string \<Rightarrow> string" where
  "native f = ''function '' @ f @ ''() { [native code] }''"

definition object_prototype_members :: "(string \<times> string) list" where
  "object_prototype_members =
    [(''constructor'', native ''Object''),
     (''__defineGetter__'', native ''__defineGetter__''),
     (''__defineSetter__'', native ''__defineSetter__''),
     (''hasOwnProperty'', native ''hasOwnProperty''),
     (''__lookupGetter__'', native ''__lookupGetter__''),
     (''__lookupSetter__'', native ''__lookupSetter__''),
     (''isPrototypeOf'', native ''isPrototypeOf''),
     (''propertyIsEnumerable'', native ''propertyIsEnumerable''),
     (''toString'', native ''toString''),
     (''valueOf'', native ''valueOf''),
     (''__proto__'', ''[object Object]''),
     (''toLocaleString'', native ''toLocaleString'')]"

text \<open>\<^verbatim>\<open>requirements.types[field]\<close>.\<close>

definition types_lookup :: "requirements \<Rightarrow> string \<Rightarrow> expected" where
  "types_lookup requirements field =
     (case map_of (types requirements) field of
        Some t \<Rightarrow> t
      | None \<Rightarrow>
          (case map_of object_prototype_members field of
             Some text \<Rightarrow> Other text
           | None \<Rightarrow> Other ''undefined''))"

fun truthy_expected :: "expected \<Rightarrow> bool" where
  "truthy_expected (Single t) = (t \<noteq> [])"
| "truthy_expected (Union ts) = True"
| "truthy_expected (Other text) = (text \<noteq> ''undefined'')"

text \<open>
  The validator object. \<^verbatim>\<open>this.validationErrors\<close> is a reference to an array, and the
  result of a validation holds a reference to an array too, so arrays of messages live
  in a store: \<open>heap\<close> maps an address to the array's contents, \<open>nxt\<close> is the next free
  address. \<open>warnings\<close> is what \<^verbatim>\<open>console.warn\<close> has printed.
\<close>

record vstate =
  heap :: "nat \<Rightarrow> string list"
  nxt :: nat
  validationErrors :: nat
  warnings :: "string list"

text \<open>A validator method that returns nothing: the error it threw, if any, and the
  state it left.\<close>

type_synonym act = "vstate \<Rightarrow> error option \<times> vstate"

definition skip :: act where
  "skip s = (None, s)"

definition throw :: "error \<Rightarrow> act" where
  "throw e s = (Some e, s)"

definition seq :: "act \<Rightarrow> act \<Rightarrow> act" where
  "seq f g s = (case f s of (Some e, s') \<Rightarrow> (Some e, s') | (None, s') \<Rightarrow> g s')"

definition eval :: "error + 'a \<Rightarrow> ('a \<Rightarrow> act) \<Rightarrow> act" where
  "eval r f = (case r of Inl e \<Rightarrow> throw e | Inr x \<Rightarrow> f x)"

primrec forEach :: "('a \<Rightarrow> act) \<Rightarrow> 'a list \<Rightarrow> act" where
  "forEach f [] = skip"
| "forEach f (x # xs) = seq (f x) (forEach f xs)"

definition addError :: "string \<Rightarrow> act" where
  "addError e s =
     (None, s\<lparr>heap := (heap s)(validationErrors s := heap s (validationErrors s) @ [e])\<rparr>)"

definition console_warn :: "string \<Rightarrow> act" where
  "console_warn w s = (None, s\<lparr>warnings := warnings s @ [w]\<rparr>)"

definition validateFieldType :: "jsval \<Rightarrow> expected \<Rightarrow> string \<Rightarrow> act" where
  "validateFieldType v expectedType fieldPath =
     (let actualType = (if isArray v then ''array'' else typeof v) in
      seq (case expectedType of
             Union ts \<Rightarrow>
               if actualType \<notin> set ts
               then addError (fieldPath @ '' must be one of: '' @ join '', '' ts @
                              '', got: '' @ actualType)
               else skip
           | Single t \<Rightarrow>
               if actualType \<noteq> t
               then addError (fieldPath @ '' must be '' @ t @ '', got: '' @ actualType)
               else skip
           | Other text \<Rightarrow>
               addError (fieldPath @ '' must be '' @ text @ '', got: '' @ actualType))
          (if expectedType = Single ''array'' \<and> v = JArr []
           then console_warn (''Warning: '' @ fieldPath @ '' is an empty array'')
           else skip))"

definition validateItemStructure :: "jsval \<Rightarrow> string \<Rightarrow> string \<Rightarrow> act" where
  "validateItemStructure item itemType itemPath =
     (if typeof item \<noteq> ''object'' then addError (itemPath @ '' must be an object'')
      else case map_of getRequiredFields itemType of
        None \<Rightarrow> addError (''Unknown item type: '' @ itemType)
      | Some requirements \<Rightarrow>
          seq (forEach
                 (\<lambda>field. eval (in_operator field item) (\<lambda>present.
                    if \<not> present
                    then addError (itemPath @ '' missing required field: '' @ field)
                    else eval (get_prop item field) (\<lambda>v.
                           validateFieldType v (types_lookup requirements field)
                             (itemPath @ ''.'' @ field))))
                 (required requirements))
              (eval (object_keys item)
                 (forEach
                    (\<lambda>field.
                       if truthy_expected (types_lookup requirements field)
                       then eval (get_prop item field) (\<lambda>v.
                              validateFieldType v (types_lookup requirements field)
                                (itemPath @ ''.'' @ field))
                       else skip))))"

definition validateArrayItems :: "jsval \<Rightarrow> string \<Rightarrow> act" where
  "validateArrayItems items itemType =
     (case items of
        JArr xs \<Rightarrow>
          forEach
            (\<lambda>(index, item).
               validateItemStructure item itemType (itemType @ ''['' @ show_nat index @ '']''))
            (zip [0..<length xs] xs)
      | _ \<Rightarrow> addError (itemType @ '' must be an array''))"

text \<open>\<^verbatim>\<open>if (!data.key || !Array.isArray(data.key)) addError(msg); else
  validateArrayItems(data.key, itemType)\<close>, the shape of every section check.\<close>

definition array_section :: "jsval \<Rightarrow> string \<Rightarrow> string \<Rightarrow> string \<Rightarrow> act" where
  "array_section data key msg itemType =
     eval (get_prop data key) (\<lambda>v.
       if \<not> truthy v \<or> \<not> isArray v then addError msg
       else validateArrayItems v itemType)"

definition array_only :: "jsval \<Rightarrow> string \<Rightarrow> string \<Rightarrow> act" where
  "array_only data key msg =
     eval (get_prop data key) (\<lambda>v.
       if \<not> truthy v \<or> \<not> isArray v then addError msg else skip)"

definition validateFoundationEra :: "jsval \<Rightarrow> act" where
  "validateFoundationEra foundationEra =
     seq (array_section foundationEra ''events''
            ''foundationEra.events must be an array'' ''historicalEvents'')
         (array_section foundationEra ''yearlyStats''
            ''foundationEra.yearlyStats must be an array'' ''yearlyStats'')"

definition validateMobileEra :: "jsval \<Rightarrow> act" where
  "validateMobileEra mobileEra =
     seq (array_section mobileEra ''events''
            ''mobileEra.events must be an array'' ''historicalEvents'')
         (array_section mobileEra ''socialMediaGrowth''
            ''mobileEra.socialMediaGrowth must be an array'' ''socialMediaPlatforms'')"

definition validateFintechEra :: "jsval \<Rightarrow> act" where
  "validateFintechEra fintechEra =
     seq (array_section fintechEra ''events''
            ''fintechEra.events must be an array'' ''historicalEvents'')
    (seq (array_only fintechEra ''mobileBanking''
            ''fintechEra.mobileBanking must be an array'')
         (array_only fintechEra ''investmentBoom''
            ''fintechEra.investmentBoom must be an array''))"

text \<open>\<^verbatim>\<open>if (!data.key || typeof data.key !== 'object') addError(msg); else
  validateEra(data.key)\<close>.\<close>

definition object_section :: "jsval \<Rightarrow> string \<Rightarrow> string \<Rightarrow> (jsval \<Rightarrow> act) \<Rightarrow> act" where
  "object_section data key msg validateEra =
     eval (get_prop data key) (\<lambda>v.
       if \<not> truthy v \<or> typeof v \<noteq> ''object'' then addError msg
       else validateEra v)"

record vresult =
  success :: bool
  errors :: nat
  data :: "string option"

definition getValidationResult :: "vstate \<Rightarrow> vresult" where
  "getValidationResult s =
     \<lparr>success = (length (heap s (validationErrors s)) = 0),
      errors = validationErrors s,
      data = (if length (heap s (validationErrors s)) = 0 then Some ''Valid'' else None)\<rparr>"

text \<open>The result holds a new array with the one message.\<close>

definition validationFailed :: "string \<Rightarrow> vstate \<Rightarrow> vresult \<times> vstate" where
  "validationFailed msg s =
     (\<lparr>success = False, errors = nxt s, data = None\<rparr>,
      s\<lparr>heap := (heap s)(nxt s := [msg]), nxt := Suc (nxt s)\<rparr>)"

text \<open>A kind-specific check runs its body and returns \<^verbatim>\<open>this.getValidationResult()\<close>,
  unless the body threw.\<close>

definition returning :: "act \<Rightarrow> vstate \<Rightarrow> (error + vresult) \<times> vstate" where
  "returning body s =
     (case body s of
        (Some e, s') \<Rightarrow> (Inl e, s')
      | (None, s') \<Rightarrow> (Inr (getValidationResult s'), s'))"

definition validateHistoricalEvents :: "jsval \<Rightarrow> vstate \<Rightarrow> (error + vresult) \<times> vstate" where
  "validateHistoricalEvents d =
     returning
       (seq (array_section d ''heroStats'' ''heroStats must be an array'' ''heroStats'')
       (seq (object_section d ''foundationEra'' ''foundationEra must be an object''
               validateFoundationEra)
       (seq (object_section d ''mobileEra'' ''mobileEra must be an object'' validateMobileEra)
            (object_section d ''fintechEra'' ''fintechEra must be an object''
               validateFintechEra))))"

definition validateStatistics :: "jsval \<Rightarrow> vstate \<Rightarrow> (error + vresult) \<times> vstate" where
  "validateStatistics d = returning skip"

definition validateCompanies :: "jsval \<Rightarrow> vstate \<Rightarrow> (error + vresult) \<times> vstate" where
  "validateCompanies d =
     returning (array_section d ''companies'' ''companies must be an array'' ''companies'')"

definition validateSocialMedia :: "jsval \<Rightarrow> vstate \<Rightarrow> (error + vresult) \<times> vstate" where
  "validateSocialMedia d =
     returning (array_section d ''platforms'' ''platforms must be an array''
                  ''socialMediaPlatforms'')"

definition validatePolicies :: "jsval \<Rightarrow> vstate \<Rightarrow> (error + vresult) \<times> vstate" where
  "validatePolicies d =
     returning (array_section d ''policies'' ''policies must be an array'' ''policies'')"

definition validateInfrastructure :: "jsval \<Rightarrow> vstate \<Rightarrow> (error + vresult) \<times> vstate" where
  "validateInfrastructure d =
     returning (array_section d ''infrastructure'' ''infrastructure must be an array''
                  ''infrastructure'')"

text \<open>The \<^verbatim>\<open>switch\<close> of \<open>validateJSONData\<close>, inside its \<^verbatim>\<open>try\<close>.\<close>

definition dispatch :: "jsval \<Rightarrow> string \<Rightarrow> vstate \<Rightarrow> (error + vresult) \<times> vstate" where
  "dispatch jsonData dataType s =
     (if dataType = ''historical_events'' then validateHistoricalEvents jsonData s
      else if dataType = ''statistics'' then validateStatistics jsonData s
      else if dataType = ''companies'' then validateCompanies jsonData s
      else if dataType = ''social_media'' then validateSocialMedia jsonData s
      else if dataType = ''policies'' then validatePolicies jsonData s
      else if dataType = ''infrastructure'' then validateInfrastructure jsonData s
      else (case validationFailed (''Unknown data type: '' @ dataType) s of
              (r, s') \<Rightarrow> (Inr r, s')))"

definition validateJSONData :: "jsval \<Rightarrow> string \<Rightarrow> vstate \<Rightarrow> vresult \<times> vstate" where
  "validateJSONData jsonData dataType s =
     (let s0 = s\<lparr>heap := (heap s)(nxt s := []), nxt := Suc (nxt s), validationErrors := nxt s\<rparr>
      in if \<not> truthy jsonData then validationFailed ''JSON data is null or undefined'' s0
         else if typeof jsonData \<noteq> ''object''
         then validationFailed ''JSON data must be an object'' s0
         else (case dispatch jsonData dataType s0 of
                 (Inl e, s1) \<Rightarrow> validationFailed (''Validation error: '' @ message e) s1
               | (Inr r, s1) \<Rightarrow> (r, s1)))"

text \<open>What a caller reads from a result: the flag, the messages of the array it refers
  to, and the data marker.\<close>

definition contents :: "vstate \<Rightarrow> vresult \<Rightarrow> bool \<times> string list \<times> string option" where
  "contents s r = (success r, heap s (errors r), data r)"

text \<open>The validator as its constructor leaves it.\<close>

definition new_validator :: vstate where
  "new_validator = \<lparr>heap = (\<lambda>a. []), nxt = 1, validationErrors = 0, warnings = []\<rparr>"

text \<open>For the proofs: what a method adds to the accumulator and to the console, and the
  methods that add the same messages whatever the state they start from.\<close>

definition emit :: "string list \<Rightarrow> string list \<Rightarrow> vstate \<Rightarrow> vstate" where
  "emit es ws s =
     s\<lparr>heap := (heap s)(validationErrors s := heap s (validationErrors s) @ es),
       warnings := warnings s @ ws\<rparr>"

definition uniform :: "act \<Rightarrow> bool" where
  "uniform f = (\<exists>r es ws. \<forall>s. f s = (r, emit es ws s))"


text \<open>The messages pushed onto the accumulator between two states.\<close>

definition pushed :: "vstate \<Rightarrow> vstate \<Rightarrow> string list" where
  "pushed s s' = drop (length (heap s (validationErrors s))) (heap s' (validationErrors s))"

text \<open>For the proofs: a method that, from every state, ends with \<open>r\<close> (nothing, or the
  error thrown) after pushing the messages \<open>es\<close>; one that does not throw and pushes
  only messages satisfying \<open>P\<close>; one that pushes the message \<open>m\<close>.\<close>

definition outcome :: "act \<Rightarrow> error option \<Rightarrow> string list \<Rightarrow> bool" where
  "outcome f r es = (\<exists>ws. \<forall>s. f s = (r, emit es ws s))"

definition quiet :: "(string \<Rightarrow> bool) \<Rightarrow> act \<Rightarrow> bool" where
  "quiet P f = (\<exists>es. outcome f None es \<and> list_all P es)"

definition says :: "string \<Rightarrow> act \<Rightarrow> bool" where
  "says m f = (\<exists>r es. outcome f r es \<and> m \<in> set es)"

text \<open>\<^verbatim>\<open>Array.isArray(value) ? 'array' : typeof value\<close>.\<close>

definition actual :: "jsval \<Rightarrow> string" where
  "actual v = (if isArray v then ''array'' else typeof v)"

text \<open>The fields other than \<^verbatim>\<open>marketShare\<close> for which \<^verbatim>\<open>requirements.types[field]\<close>
  of the \<^verbatim>\<open>companies\<close> kind is truthy.\<close>

definition companies_fields :: "string list" where
  "companies_fields =
     [''name'', ''subscribers'', ''founded'', ''keyMilestone''] @ map fst object_prototype_members"

text \<open>For the proofs: a method that throws nothing but the \<^verbatim>\<open>TypeError\<close> of
  \<^verbatim>\<open>field in null\<close>, and one that does throw it.\<close>

definition nullish :: "act \<Rightarrow> bool" where
  "nullish f =
     (\<exists>r es. outcome f r es \<and> (r = None \<or> (\<exists>fld. r = Some (in_message fld ''null''))))"

definition nullthrow :: "act \<Rightarrow> bool" where
  "nullthrow f = (\<exists>fld es. outcome f (Some (in_message fld ''null'')) es)"

text \<open>The value at a path of property names below a document, and the places where
  each kind has an array of entities that \<open>validateArrayItems\<close> checks.\<close>

fun field_at :: "jsval \<Rightarrow> string list \<Rightarrow> jsval option" where
  "field_at v [] = Some v"
| "field_at (JObj kvs) (k # ks) = (case map_of kvs k of Some x \<Rightarrow> field_at x ks | None \<Rightarrow> None)"
| "field_at v (k # ks) = None"

definition entity_arrays :: "(string \<times> string list) list" where
  "entity_arrays =
     [(''historical_events'', [''heroStats'']),
      (''historical_events'', [''foundationEra'', ''events'']),
      (''historical_events'', [''foundationEra'', ''yearlyStats'']),
      (''historical_events'', [''mobileEra'', ''events'']),
      (''historical_events'', [''mobileEra'', ''socialMediaGrowth'']),
      (''historical_events'', [''fintechEra'', ''events'']),
      (''companies'', [''companies'']),
      (''social_media'', [''platforms'']),
      (''policies'', [''policies'']),
      (''infrastructure'', [''infrastructure''])]"



section \<open>More of JavaScript: text, comparison, array methods\<close>

text \<open>Lower case of the ASCII letters (\<^verbatim>\<open>toLowerCase\<close> also maps letters outside ASCII,
  which are left as they are here: the keywords searched for are ASCII).\<close>

definition lower_char :: "char \<Rightarrow> char" where
  "lower_char c =
     (case map_of (zip ''ABCDEFGHIJKLMNOPQRSTUVWXYZ'' ''abcdefghijklmnopqrstuvwxyz'') c of
        Some l \<Rightarrow> l
      | None \<Rightarrow> c)"

definition toLowerCase :: "string \<Rightarrow> string" where
  "toLowerCase s = map lower_char s"

text \<open>\<^verbatim>\<open>s.includes(kw)\<close>.\<close>

definition str_includes :: "string \<Rightarrow> string \<Rightarrow> bool" where
  "str_includes s kw = sublist kw s"

definition show_int :: "int \<Rightarrow> string" where
  "show_int n = (if n < 0 then ''-'' @ show_nat (nat (- n)) else show_nat (nat n))"

text \<open>The text a template literal makes of a value.\<close>

fun to_string :: "jsval \<Rightarrow> string" where
  "to_string JUndefined = ''undefined''"
| "to_string JNull = ''null''"
| "to_string (JBool b) = (if b then ''true'' else ''false'')"
| "to_string (JNum n) = show_int n"
| "to_string (JStr s) = s"
| "to_string (JArr xs) =
     join '','' (map (\<lambda>x. if x = JNull \<or> x = JUndefined then [] else to_string x) xs)"
| "to_string (JObj kvs) = ''[object Object]''"

text \<open>\<^verbatim>\<open>s.trim()\<close>. Strings are held in UTF-8, so the white space and line terminators
  of JavaScript are these byte sequences: U+0009 to U+000D, U+0020, U+00A0, U+1680,
  U+2000 to U+200A, U+2028, U+2029, U+202F, U+205F, U+3000 and U+FEFF.\<close>

definition whitespace :: "string list" where
  "whitespace =
     map (\<lambda>c. [c]) [CHR 0x09, CHR 0x0A, CHR 0x0B, CHR 0x0C, CHR 0x0D, CHR 0x20] @
     [[CHR 0xC2, CHR 0xA0], [CHR 0xE1, CHR 0x9A, CHR 0x80]] @
     map (\<lambda>c. [CHR 0xE2, CHR 0x80, c])
       [CHR 0x80, CHR 0x81, CHR 0x82, CHR 0x83, CHR 0x84, CHR 0x85, CHR 0x86, CHR 0x87,
        CHR 0x88, CHR 0x89, CHR 0x8A, CHR 0xA8, CHR 0xA9, CHR 0xAF] @
     [[CHR 0xE2, CHR 0x81, CHR 0x9F], [CHR 0xE3, CHR 0x80, CHR 0x80],
      [CHR 0xEF, CHR 0xBB, CHR 0xBF]]"

text \<open>Taking the sequences of \<open>ws\<close> off the front of a string, as long as there is one.\<close>

function strip :: "string list \<Rightarrow> string \<Rightarrow> string" where
  "strip ws s =
     (case find (\<lambda>w. w \<noteq> [] \<and> prefix w s) ws of
        None \<Rightarrow> s
      | Some w \<Rightarrow> strip ws (drop (length w) s))"
  by pat_completeness auto

termination
proof (relation "measure (\<lambda>(ws, s). length s)")
  show "wf (measure (\<lambda>(ws, s). length s))" by simp
next
  fix ws :: "string list" and s w :: string
  assume "find (\<lambda>w. w \<noteq> [] \<and> prefix w s) ws = Some w"
  then have w: "w \<noteq> []" and "prefix w s" by (auto simp: find_Some_iff)
  then have "s \<noteq> []" by auto
  with w show "((ws, drop (length w) s), (ws, s)) \<in> measure (\<lambda>(ws, s). length s)"
    by simp
qed

declare strip.simps [simp del]

definition trim :: "string \<Rightarrow> string" where
  "trim s = rev (strip (map rev whitespace) (rev (strip whitespace s)))"

text \<open>\<^verbatim>\<open>v > 0\<close>. A string is read as a number when it is a decimal numeral between
  white space (signs, fractions, exponents and the other numeral forms are not modelled,
  as numbers are integers here).\<close>

definition positive_numeral :: "string \<Rightarrow> bool" where
  "positive_numeral s =
     (let t = trim s in
      t \<noteq> [] \<and> list_all (\<lambda>c. c \<in> set ''0123456789'') t \<and> list_ex (\<lambda>c. c \<noteq> CHR ''0'') t)"

fun greater_than_zero :: "jsval \<Rightarrow> bool" where
  "greater_than_zero (JNum n) = (0 < n)"
| "greater_than_zero (JBool b) = b"
| "greater_than_zero (JStr s) = positive_numeral s"
| "greater_than_zero (JArr xs) = positive_numeral (to_string (JArr xs))"
| "greater_than_zero JNull = False"
| "greater_than_zero JUndefined = False"
| "greater_than_zero (JObj kvs) = False"

text \<open>\<^verbatim>\<open>a || b\<close>.\<close>

definition js_or :: "jsval \<Rightarrow> jsval \<Rightarrow> jsval" where
  "js_or a b = (if truthy a then a else b)"

text \<open>Calling a method of arrays (\<^verbatim>\<open>find\<close>, \<^verbatim>\<open>map\<close>) or of strings
  (\<^verbatim>\<open>toLowerCase\<close>) on a value: on \<^verbatim>\<open>null\<close> and \<^verbatim>\<open>undefined\<close> reading the method
  throws; on a value of another type the method is not a function.\<close>

definition no_method :: "jsval \<Rightarrow> string \<Rightarrow> error" where
  "no_method v name =
     (case get_prop v name of
        Inl e \<Rightarrow> e
      | Inr x \<Rightarrow> TypeError (name @ '' is not a function''))"

fun find_first :: "(jsval \<Rightarrow> error + bool) \<Rightarrow> jsval list \<Rightarrow> error + jsval" where
  "find_first pred [] = Inr JUndefined"
| "find_first pred (x # xs) =
     (case pred x of
        Inl e \<Rightarrow> Inl e
      | Inr found \<Rightarrow> if found then Inr x else find_first pred xs)"

definition array_find :: "jsval \<Rightarrow> (jsval \<Rightarrow> error + bool) \<Rightarrow> error + jsval" where
  "array_find v pred = (case v of JArr xs \<Rightarrow> find_first pred xs | _ \<Rightarrow> Inl (no_method v ''find''))"

fun map_each :: "(jsval \<Rightarrow> error + jsval) \<Rightarrow> jsval list \<Rightarrow> error + jsval list" where
  "map_each f [] = Inr []"
| "map_each f (x # xs) =
     (case f x of
        Inl e \<Rightarrow> Inl e
      | Inr y \<Rightarrow> (case map_each f xs of Inl e \<Rightarrow> Inl e | Inr ys \<Rightarrow> Inr (y # ys)))"

definition array_map :: "jsval \<Rightarrow> (jsval \<Rightarrow> error + jsval) \<Rightarrow> error + jsval" where
  "array_map v f =
     (case v of
        JArr xs \<Rightarrow> (case map_each f xs of Inl e \<Rightarrow> Inl e | Inr ys \<Rightarrow> Inr (JArr ys))
      | _ \<Rightarrow> Inl (no_method v ''map''))"

text \<open>\<^verbatim>\<open>event => event.title.toLowerCase().includes(kw1) || ...\<close>: whether the lower-cased
  title of the event contains one of the keywords.\<close>

definition title_includes :: "string list \<Rightarrow> jsval \<Rightarrow> error + bool" where
  "title_includes kws event =
     (case get_prop event ''title'' of
        Inl e \<Rightarrow> Inl e
      | Inr title \<Rightarrow>
          (case title of
             JStr s \<Rightarrow> Inr (list_ex (str_includes (toLowerCase s)) kws)
           | _ \<Rightarrow> Inl (no_method title ''toLowerCase'')))"

definition bindE :: "error + 'a \<Rightarrow> ('a \<Rightarrow> error + 'b) \<Rightarrow> error + 'b" where
  "bindE m f = (case m of Inl e \<Rightarrow> Inl e | Inr x \<Rightarrow> f x)"


section \<open>The template renderer (TemplateRenderer)\<close>

text \<open>
  A compiled template is the function Handlebars returns: it makes HTML of the data, or
  throws. The page is the part of the document the renderer touches: what
  \<^verbatim>\<open>document.querySelector\<close> answers for a selector (a \<^verbatim>\<open>SyntaxError\<close> for a selector that
  does not parse, \<^verbatim>\<open>null\<close>, or an element), the element with a given id, and the
  \<^verbatim>\<open>innerHTML\<close> of each element. \<open>console\<close> holds the lines that \<open>renderTemplate\<close> has
  printed: it prints one line for each call, which tells how the call ended. For the
  application, the page also has the loading overlay (if the element is there: whether
  it has the class \<^verbatim>\<open>hidden\<close>), the error modal (if there: its \<^verbatim>\<open>display\<close> style) and the
  error message element (if there: its text).
\<close>

type_synonym template = "jsval \<Rightarrow> error + string"

datatype selected = Invalid | Missing | Element nat

text \<open>The \<open>targetSelector\<close> argument: a selector string, an element, or \<^verbatim>\<open>null\<close>.\<close>

datatype target = Selector string | ElementRef nat | NullTarget

datatype log =
    TemplateNotFound string
  | NoData string
  | TargetNotFound target
  | Rendered string target
  | RenderError string error

record page =
  querySelector :: "string \<Rightarrow> selected"
  getElementById :: "string \<Rightarrow> nat option"
  innerHTML :: "nat \<Rightarrow> string"
  console :: "log list"
  loadingOverlay :: "bool option"
  errorModal :: "string option"
  errorMessage :: "string option"

text \<open>
  The renderer. \<^verbatim>\<open>this.compiledTemplates\<close> is an object literal: \<open>compiledTemplates\<close> holds
  its own properties, the templates compiled so far, and besides them it has the members
  every object inherits from \<^verbatim>\<open>Object.prototype\<close> (\<open>object_prototype_members\<close> names them).
  \<open>inherited own n\<close> is what calling the inherited member \<open>n\<close> as a compiled template does
  when \<open>own\<close> are the own properties: it throws (as \<^verbatim>\<open>__proto__\<close> does, which is not a
  function), or it returns a value, given by the text \<^verbatim>\<open>innerHTML\<close> makes of it. What each
  member does is the business of the JavaScript engine and is left open here.
\<close>

type_synonym prototype = "(string \<Rightarrow> template option) \<Rightarrow> string \<Rightarrow> template"

record renderer =
  compiledTemplates :: "string \<Rightarrow> template option"
  templateElements :: "string \<Rightarrow> nat option"
  inherited :: prototype

text \<open>\<^verbatim>\<open>this.compiledTemplates[templateName]\<close>: an own property, or else an inherited member,
  or else \<^verbatim>\<open>undefined\<close>.\<close>

definition template_named :: "renderer \<Rightarrow> string \<Rightarrow> template option" where
  "template_named r templateName =
     (case compiledTemplates r templateName of
        Some t \<Rightarrow> Some t
      | None \<Rightarrow>
          if templateName \<in> set (map fst object_prototype_members)
          then Some (inherited r (compiledTemplates r) templateName)
          else None)"

definition console_log :: "log \<Rightarrow> page \<Rightarrow> page" where
  "console_log l p = p\<lparr>console := console p @ [l]\<rparr>"

definition selector_error :: "string \<Rightarrow> error" where
  "selector_error s =
     SyntaxError (''Failed to execute '' @ quoted ''querySelector'' @ '' on '' @
                  quoted ''Document'' @ '': '' @ quoted s @ '' is not a valid selector.'')"

definition dq :: string where
  "dq = [CHR 0x22]"

definition newline :: string where
  "newline = [CHR 0x0A]"

definition spaces :: "nat \<Rightarrow> string" where
  "spaces n = replicate n (CHR '' '')"

text \<open>The warning sign of the placeholder, in UTF-8.\<close>

definition warning_sign :: string where
  "warning_sign = [CHR 0xE2, CHR 0x9A, CHR 0xA0, CHR 0xEF, CHR 0xB8, CHR 0x8F]"

definition placeholder :: "string \<Rightarrow> string \<Rightarrow> string" where
  "placeholder templateName msg =
     newline @ spaces 16 @ ''<div class='' @ dq @ ''render-error'' @ dq @ ''>'' @
     newline @ spaces 20 @ ''<h4>'' @ warning_sign @ '' Content Loading Error</h4>'' @
     newline @ spaces 20 @ ''<p>Unable to load '' @ templateName @ '' content.</p>'' @
     newline @ spaces 20 @ ''<small>Error: '' @ msg @ ''</small>'' @
     newline @ spaces 16 @ ''</div>'' @
     newline @ spaces 12"

text \<open>\<open>handleRenderError\<close> passes \<open>targetSelector\<close> to \<^verbatim>\<open>document.querySelector\<close> as it
  is. An element is turned into the text \<^verbatim>\<open>[object HTML...Element]\<close>, which is not a
  selector, so the query throws; \<^verbatim>\<open>null\<close> is turned into the selector \<^verbatim>\<open>null\<close>.\<close>

definition handleRenderError :: "string \<Rightarrow> target \<Rightarrow> error \<Rightarrow> page \<Rightarrow> error option \<times> page" where
  "handleRenderError templateName targetSelector err p =
     (case targetSelector of
        ElementRef el \<Rightarrow> (Some (selector_error ''[object HTMLElement]''), p)
      | _ \<Rightarrow>
        (let s = (case targetSelector of Selector s \<Rightarrow> s | _ \<Rightarrow> ''null'') in
         case querySelector p s of
           Invalid \<Rightarrow> (Some (selector_error s), p)
         | Missing \<Rightarrow> (None, p)
         | Element el \<Rightarrow>
             (None, p\<lparr>innerHTML := (innerHTML p)(el := placeholder templateName (message err))\<rparr>)))"

text \<open>The \<^verbatim>\<open>catch\<close> block of \<open>renderTemplate\<close>.\<close>

definition caught :: "string \<Rightarrow> target \<Rightarrow> error \<Rightarrow> page \<Rightarrow> (error + bool) \<times> page" where
  "caught templateName targetSelector err p =
     (case handleRenderError templateName targetSelector err
             (console_log (RenderError templateName err) p) of
        (Some e, p') \<Rightarrow> (Inl e, p')
      | (None, p') \<Rightarrow> (Inr False, p'))"

definition renderTemplate ::
    "renderer \<Rightarrow> string \<Rightarrow> jsval \<Rightarrow> target \<Rightarrow> page \<Rightarrow> (error + bool) \<times> page" where
  "renderTemplate r templateName d targetSelector p =
     (case template_named r templateName of
        None \<Rightarrow> (Inr False, console_log (TemplateNotFound templateName) p)
      | Some template \<Rightarrow>
          if \<not> truthy d then (Inr False, console_log (NoData templateName) p)
          else
            (case (case targetSelector of
                     Selector s \<Rightarrow>
                       (case querySelector p s of
                          Invalid \<Rightarrow> Inl (selector_error s)
                        | Missing \<Rightarrow> Inr None
                        | Element el \<Rightarrow> Inr (Some el))
                   | ElementRef el \<Rightarrow> Inr (Some el)
                   | NullTarget \<Rightarrow> Inr None) of
               Inl e \<Rightarrow> caught templateName targetSelector e p
             | Inr None \<Rightarrow> (Inr False, console_log (TargetNotFound targetSelector) p)
             | Inr (Some targetElement) \<Rightarrow>
                 (case template d of
                    Inl e \<Rightarrow> caught templateName targetSelector e p
                  | Inr renderedHTML \<Rightarrow>
                      (Inr True,
                       console_log (Rendered templateName targetSelector)
                         (p\<lparr>innerHTML := (innerHTML p)(targetElement := renderedHTML)\<rparr>)))))"

text \<open>\<open>compileTemplate\<close>, given what \<^verbatim>\<open>Handlebars.compile\<close> does with a source; the lines
  it prints are left out.\<close>

definition compileTemplate ::
    "(string \<Rightarrow> error + template) \<Rightarrow> page \<Rightarrow> string \<Rightarrow> string \<Rightarrow> renderer \<Rightarrow> error + renderer" where
  "compileTemplate handlebars p templateName templateId r =
     (case getElementById p templateId of
        None \<Rightarrow> Inr r
      | Some templateElement \<Rightarrow>
          if trim (innerHTML p templateElement) = [] then Inr r
          else (case handlebars (innerHTML p templateElement) of
                  Inl e \<Rightarrow> Inl e
                | Inr t \<Rightarrow>
                    Inr (r\<lparr>compiledTemplates := (compiledTemplates r)(templateName := Some t),
                           templateElements :=
                             (templateElements r)(templateName := Some templateElement)\<rparr>)))"

definition templateMappings :: "(string \<times> string) list" where
  "templateMappings =
     [(''heroStats'', ''hero-stats-template''),
      (''historicalEvents'', ''historical-events-template''),
      (''statistics'', ''statistics-template''),
      (''companies'', ''company-template''),
      (''socialMedia'', ''social-media-template''),
      (''policies'', ''policy-template''),
      (''infrastructure'', ''infrastructure-template'')]"

fun compileEach ::
    "(string \<Rightarrow> error + template) \<Rightarrow> page \<Rightarrow> (string \<times> string) list \<Rightarrow> renderer \<Rightarrow> error + renderer" where
  "compileEach handlebars p [] r = Inr r"
| "compileEach handlebars p ((key, templateId) # rest) r =
     (case compileTemplate handlebars p key templateId r of
        Inl e \<Rightarrow> Inl e
      | Inr r' \<Rightarrow> compileEach handlebars p rest r')"

definition compileAllTemplates ::
    "(string \<Rightarrow> error + template) \<Rightarrow> page \<Rightarrow> renderer \<Rightarrow> error + renderer" where
  "compileAllTemplates handlebars p r = compileEach handlebars p templateMappings r"

text \<open>The renderer as its constructor makes it, on a document that has been parsed,
  given what \<^verbatim>\<open>Handlebars.compile\<close> and the members of \<^verbatim>\<open>Object.prototype\<close> do.\<close>

definition new_renderer ::
    "(string \<Rightarrow> error + template) \<Rightarrow> prototype \<Rightarrow> page \<Rightarrow> error + renderer" where
  "new_renderer handlebars proto p =
     compileAllTemplates handlebars p
       \<lparr>compiledTemplates = (\<lambda>n. None), templateElements = (\<lambda>n. None), inherited = proto\<rparr>"

definition isReady :: "renderer \<Rightarrow> bool" where
  "isReady r =
     list_all (\<lambda>template. template_named r template \<noteq> None)
       [''heroStats'', ''historicalEvents'', ''statistics'', ''companies'', ''socialMedia'']"

text \<open>A method of the renderer that works on the page: it returns a value or throws,
  and leaves the page changed.\<close>

type_synonym 'a io = "page \<Rightarrow> (error + 'a) \<times> page"

definition pure :: "'a \<Rightarrow> 'a io" where
  "pure x p = (Inr x, p)"

definition lift :: "error + 'a \<Rightarrow> 'a io" where
  "lift m p = (m, p)"

definition bindR :: "'a io \<Rightarrow> ('a \<Rightarrow> 'b io) \<Rightarrow> 'b io" where
  "bindR m f p = (case m p of (Inl e, p') \<Rightarrow> (Inl e, p') | (Inr x, p') \<Rightarrow> f x p')"

text \<open>\<^verbatim>\<open>if (event) this.renderTemplate('historicalEvents', { events: [event] }, target)\<close>:
  the outcome of the call, if it is made.\<close>

definition render_event :: "renderer \<Rightarrow> jsval \<Rightarrow> string \<Rightarrow> bool list io" where
  "render_event r event selector =
     (if truthy event
      then bindR (renderTemplate r ''historicalEvents'' (JObj [(''events'', JArr [event])])
                    (Selector selector))
             (\<lambda>b. pure [b])
      else pure [])"

text \<open>\<^verbatim>\<open>success.every(result => result === true)\<close>.\<close>

definition every_true :: "bool list \<Rightarrow> jsval" where
  "every_true outcomes = JBool (list_all (\<lambda>result. result = True) outcomes)"

definition renderHeroStats :: "renderer \<Rightarrow> jsval \<Rightarrow> bool io" where
  "renderHeroStats r heroStatsData =
     renderTemplate r ''heroStats'' (JObj [(''heroStats'', heroStatsData)]) (Selector ''#heroStats'')"

definition renderFoundationEra :: "renderer \<Rightarrow> jsval \<Rightarrow> jsval io" where
  "renderFoundationEra r foundationData =
     bindR (lift (get_prop foundationData ''events'')) (\<lambda>events.
     bindR (if truthy events
            then bindR (lift (get_prop events ''length'')) (\<lambda>len.
                   if greater_than_zero len
                   then bindR (lift (array_find events (title_includes [''ptcl privatization''])))
                          (\<lambda>ptclEvent. render_event r ptclEvent ''#ptclPrivatization'')
                   else pure [])
            else pure []) (\<lambda>s1.
     bindR (renderTemplate r ''historicalEvents'' (JObj [(''events'', events)])
              (Selector ''#foundationMilestones'')) (\<lambda>b2.
     bindR (lift (get_prop foundationData ''yearlyStats'')) (\<lambda>yearlyStats.
     bindR (renderTemplate r ''statistics'' (JObj [(''yearlyStats'', yearlyStats)])
              (Selector ''#foundationStats'')) (\<lambda>b3.
     bindR (renderTemplate r ''historicalEvents'' (JObj [(''events'', events)])
              (Selector ''#foundationTimeline'')) (\<lambda>b4.
     pure (every_true (s1 @ [b2, b3, b4]))))))))"

text \<open>The icons, in UTF-8. (A platform name that is a member of \<^verbatim>\<open>Object.prototype\<close>
  would pick that member; such names are not modelled.)\<close>

definition icons :: "(string \<times> string) list" where
  "icons =
     [(''Facebook'', [CHR 0xF0, CHR 0x9F, CHR 0x93, CHR 0x98]),
      (''YouTube'', [CHR 0xF0, CHR 0x9F, CHR 0x93, CHR 0xB9]),
      (''WhatsApp'', [CHR 0xF0, CHR 0x9F, CHR 0x92, CHR 0xAC]),
      (''TikTok'', [CHR 0xF0, CHR 0x9F, CHR 0x8E, CHR 0xB5]),
      (''Twitter'', [CHR 0xF0, CHR 0x9F, CHR 0x90, CHR 0xA6]),
      (''Instagram'', [CHR 0xF0, CHR 0x9F, CHR 0x93, CHR 0xB7])]"

definition getSocialMediaIcon :: "jsval \<Rightarrow> jsval" where
  "getSocialMediaIcon platform =
     (case map_of icons (to_string platform) of
        Some icon \<Rightarrow> JStr icon
      | None \<Rightarrow> JStr [CHR 0xF0, CHR 0x9F, CHR 0x93, CHR 0xB1])"

text \<open>The callback of \<^verbatim>\<open>mobileData.socialMediaGrowth.map\<close>.\<close>

definition social_view :: "jsval \<Rightarrow> error + jsval" where
  "social_view platform =
     bindE (get_prop platform ''platform'') (\<lambda>name.
     bindE (get_prop platform ''users'') (\<lambda>users.
     bindE (get_prop platform ''peakUsers'') (\<lambda>peakUsers.
     bindE (get_prop platform ''penetration'') (\<lambda>penetration.
     bindE (get_prop platform ''ranking'') (\<lambda>ranking.
     bindE (get_prop platform ''note'') (\<lambda>note.
     bindE (get_prop platform ''status'') (\<lambda>status.
     Inr (JObj [(''icon'', getSocialMediaIcon name),
                (''name'', name),
                (''users'', js_or users peakUsers),
                (''penetration'', js_or penetration (JStr (to_string ranking))),
                (''note'', js_or note status)]))))))))"

definition renderMobileEra :: "renderer \<Rightarrow> jsval \<Rightarrow> jsval io" where
  "renderMobileEra r mobileData =
     bindR (lift (get_prop mobileData ''events'')) (\<lambda>events.
     bindR (lift (array_find events (title_includes [''3g/4g'', ''spectrum auction'']))) (\<lambda>launch3G4G.
     bindR (render_event r launch3G4G ''#mobile3G4G'') (\<lambda>s1.
     bindR (lift (get_prop mobileData ''socialMediaGrowth'')) (\<lambda>socialMediaGrowth.
     bindR (lift (array_map socialMediaGrowth social_view)) (\<lambda>platforms.
     bindR (renderTemplate r ''socialMedia'' (JObj [(''platforms'', platforms)])
              (Selector ''#socialMediaGrowth'')) (\<lambda>b2.
     bindR (lift (array_find events (title_includes [''digital pakistan policy'']))) (\<lambda>policyEvent.
     bindR (render_event r policyEvent ''#digitalPakistanPolicy'') (\<lambda>s3.
     pure (every_true (s1 @ [b2] @ s3))))))))))"

text \<open>The callbacks of \<^verbatim>\<open>fintechData.mobileBanking.map\<close> and
  \<^verbatim>\<open>fintechData.investmentBoom.map\<close>.\<close>

definition banking_view :: "jsval \<Rightarrow> error + jsval" where
  "banking_view service =
     bindE (get_prop service ''service'') (\<lambda>name.
     bindE (get_prop service ''users'') (\<lambda>users.
     bindE (get_prop service ''parent'') (\<lambda>parent.
     bindE (get_prop service ''description'') (\<lambda>description.
     Inr (JObj [(''name'', name),
                (''marketShare'', JStr []),
                (''subscribers'', js_or users (JStr ''Market leader'')),
                (''founded'', parent),
                (''keyMilestone'', description)])))))"

definition investment_view :: "jsval \<Rightarrow> error + jsval" where
  "investment_view company =
     bindE (get_prop company ''company'') (\<lambda>name.
     bindE (get_prop company ''funding'') (\<lambda>funding.
     bindE (get_prop company ''type'') (\<lambda>kind.
     bindE (get_prop company ''note'') (\<lambda>note.
     Inr (JObj [(''name'', name),
                (''marketShare'', JStr []),
                (''subscribers'', funding),
                (''founded'', kind),
                (''keyMilestone'', js_or note (JStr ''Fintech startup''))])))))"

definition renderFintechEra :: "renderer \<Rightarrow> jsval \<Rightarrow> jsval io" where
  "renderFintechEra r fintechData =
     bindR (lift (get_prop fintechData ''events'')) (\<lambda>events.
     bindR (lift (array_find events (title_includes [''raast'']))) (\<lambda>raastEvent.
     bindR (render_event r raastEvent ''#raastRevolution'') (\<lambda>s1.
     bindR (lift (get_prop fintechData ''mobileBanking'')) (\<lambda>mobileBanking.
     bindR (lift (array_map mobileBanking banking_view)) (\<lambda>services.
     bindR (renderTemplate r ''companies'' (JObj [(''companies'', services)])
              (Selector ''#mobileBanking'')) (\<lambda>b2.
     bindR (lift (get_prop fintechData ''investmentBoom'')) (\<lambda>investmentBoom.
     bindR (lift (array_map investmentBoom investment_view)) (\<lambda>companies.
     bindR (renderTemplate r ''companies'' (JObj [(''companies'', companies)])
              (Selector ''#investmentBoom'')) (\<lambda>b3.
     pure (every_true (s1 @ [b2, b3])))))))))))"

text \<open>The two cards \<open>renderSidebarContent\<close> builds.\<close>

definition label_value :: "string \<Rightarrow> jsval \<Rightarrow> jsval" where
  "label_value l v = JObj [(''label'', JStr l), (''value'', v)]"

definition fiveG_card :: "jsval \<Rightarrow> error + jsval" where
  "fiveG_card fiveGFuture =
     bindE (get_prop fiveGFuture ''launchTimeline'') (\<lambda>launchTimeline.
     bindE (get_prop fiveGFuture ''testSpeeds'') (\<lambda>testSpeeds.
     bindE (get_prop fiveGFuture ''regionalFirst'') (\<lambda>regionalFirst.
     Inr (JObj [(''name'', JStr ''5G Commercial Launch''),
                (''icon'', JStr [CHR 0xF0, CHR 0x9F, CHR 0x9A, CHR 0x80]),
                (''specifications'',
                 JArr [label_value ''Launch Timeline'' launchTimeline,
                       label_value ''Test Speeds'' testSpeeds,
                       label_value ''Regional First'' regionalFirst])]))))"

definition divide_card :: "jsval \<Rightarrow> error + jsval" where
  "divide_card digitalDivides =
     bindE (get_prop digitalDivides ''genderGap'') (\<lambda>genderGap.
     bindE (get_prop genderGap ''percentage'') (\<lambda>percentage.
     bindE (get_prop genderGap ''menAccess'') (\<lambda>menAccess.
     bindE (get_prop genderGap ''womenAccess'') (\<lambda>womenAccess.
     bindE (get_prop digitalDivides ''geographicGap'') (\<lambda>geographicGap.
     bindE (get_prop geographicGap ''urbanAccess'') (\<lambda>urbanAccess.
     bindE (get_prop geographicGap ''ruralAccess'') (\<lambda>ruralAccess.
     Inr (JObj [(''name'', JStr ''Digital Divide Challenges''),
                (''icon'', JStr [CHR 0xE2, CHR 0x9A, CHR 0x96, CHR 0xEF, CHR 0xB8, CHR 0x8F]),
                (''specifications'',
                 JArr [label_value ''Gender Gap''
                         (JStr (to_string percentage @ '' (World'' @ [CHR 0x27] @ ''s highest)'')),
                       label_value ''Men vs Women''
                         (JStr (to_string menAccess @ '' vs '' @ to_string womenAccess)),
                       label_value ''Urban vs Rural''
                         (JStr (to_string urbanAccess @ '' vs '' @
                                to_string ruralAccess))])]))))))))"

text \<open>\<open>renderSidebarContent\<close> keeps no outcome and has no \<^verbatim>\<open>return\<close>: it returns
  \<^verbatim>\<open>undefined\<close>.\<close>

definition renderSidebarContent :: "renderer \<Rightarrow> jsval \<Rightarrow> jsval io" where
  "renderSidebarContent r allData =
     bindR (lift (get_prop allData ''mobileEra'')) (\<lambda>mobileEra.
     bindR (if truthy mobileEra
            then bindR (lift (get_prop mobileEra ''events'')) (\<lambda>events.
                 bindR (lift (array_find events (title_includes [''covid'']))) (\<lambda>covidEvent.
                 render_event r covidEvent ''#covidImpact''))
            else pure []) (\<lambda>s1.
     bindR (lift (get_prop allData ''fiveGFuture'')) (\<lambda>fiveGFuture.
     bindR (if truthy fiveGFuture
            then bindR (lift (fiveG_card fiveGFuture)) (\<lambda>fiveGData.
                 bindR (renderTemplate r ''infrastructure''
                          (JObj [(''infrastructure'', JArr [fiveGData])])
                          (Selector ''#fiveGFuture'')) (\<lambda>b. pure [b]))
            else pure []) (\<lambda>s2.
     bindR (lift (get_prop allData ''digitalDivides'')) (\<lambda>digitalDivides.
     bindR (if truthy digitalDivides
            then bindR (lift (divide_card digitalDivides)) (\<lambda>divideData.
                 bindR (renderTemplate r ''infrastructure''
                          (JObj [(''infrastructure'', JArr [divideData])])
                          (Selector ''#digitalDivide'')) (\<lambda>b. pure [b]))
            else pure []) (\<lambda>s3.
     pure JUndefined))))))"


section \<open>The application (app.js)\<close>

text \<open>
  The environment of the application: what \<^verbatim>\<open>fetch\<close> answers for a path (given all the
  requests and delays so far), what \<^verbatim>\<open>JSON.parse\<close> makes of a text (the message of its
  \<^verbatim>\<open>SyntaxError\<close>, or the value), what \<^verbatim>\<open>Handlebars.compile\<close> makes of a template
  source, and what the members of \<^verbatim>\<open>Object.prototype\<close> do when called as templates. A request is rejected with an error, or answered with \<^verbatim>\<open>ok\<close>, \<^verbatim>\<open>status\<close>,
  \<^verbatim>\<open>statusText\<close> and the outcome of \<^verbatim>\<open>text()\<close>. \<open>trace\<close> records the requests made and the
  delays waited, in order.
\<close>

datatype response = Rejected error | Response bool nat string "error + string"

datatype io_event = Fetch string | Delay nat

record env =
  network :: "io_event list \<Rightarrow> string \<Rightarrow> response"
  JSON_parse :: "string \<Rightarrow> string + jsval"
  Handlebars_compile :: "string \<Rightarrow> error + template"
  Object_prototype :: prototype

record config =
  retryAttempts :: nat
  retryDelay :: nat

record app =
  app_data :: "string \<Rightarrow> jsval option"
  isLoading :: bool
  hasErrors :: bool
  config :: config
  validator :: vstate
  renderer :: renderer
  page :: page
  trace :: "io_event list"

text \<open>\<open>JSONValidator.validateJSONString\<close> on the text of a response: the error text, or
  the parsed data.\<close>

definition validateJSONString :: "(string \<Rightarrow> string + jsval) \<Rightarrow> string \<Rightarrow> string + jsval" where
  "validateJSONString parse jsonString =
     (if jsonString = [] then Inl ''JSON string is empty or not a string''
      else (case parse jsonString of
              Inl m \<Rightarrow> Inl (''JSON parse error: '' @ m)
            | Inr parsedData \<Rightarrow> Inr parsedData))"

text \<open>The \<^verbatim>\<open>try\<close> block of one attempt of \<open>loadJSONFile\<close>, after
  \<^verbatim>\<open>fetch(filePath)\<close> was answered.\<close>

definition attempt_body :: "env \<Rightarrow> response \<Rightarrow> error + jsval" where
  "attempt_body e resp =
     (case resp of
        Rejected err \<Rightarrow> Inl err
      | Response ok status statusText body \<Rightarrow>
          if \<not> ok then Inl (Error (''HTTP '' @ show_nat status @ '': '' @ statusText))
          else (case body of
                  Inl err \<Rightarrow> Inl err
                | Inr jsonText \<Rightarrow>
                    (case validateJSONString (JSON_parse e) jsonText of
                       Inl err \<Rightarrow> Inl (Error err)
                     | Inr parsedData \<Rightarrow> Inr parsedData)))"

text \<open>How the \<^verbatim>\<open>for\<close> loop of \<open>loadJSONFile\<close> ends: by returning the data of an
  attempt, or by running out of attempts with \<open>lastError\<close>.\<close>

datatype loop_end = Loaded jsval | Exhausted "error option"

function attempts ::
    "env \<Rightarrow> config \<Rightarrow> string \<Rightarrow> nat \<Rightarrow> error option \<Rightarrow> io_event list \<Rightarrow> loop_end \<times> io_event list" where
  "attempts e cfg filePath attempt lastError tr =
     (if attempt \<le> retryAttempts cfg
      then (case attempt_body e (network e tr filePath) of
              Inr parsedData \<Rightarrow> (Loaded parsedData, tr @ [Fetch filePath])
            | Inl err \<Rightarrow>
                attempts e cfg filePath (attempt + 1) (Some err)
                  (if attempt < retryAttempts cfg
                   then tr @ [Fetch filePath, Delay (retryDelay cfg * attempt)]
                   else tr @ [Fetch filePath]))
      else (Exhausted lastError, tr))"
  by pat_completeness auto

termination
  by (relation "measure (\<lambda>(e, cfg, filePath, attempt, lastError, tr).
                  Suc (retryAttempts cfg) - attempt)") auto

declare attempts.simps [simp del]

text \<open>\<^verbatim>\<open>lastError.message\<close>, where \<open>lastError\<close> is still \<^verbatim>\<open>null\<close> when no attempt was
  made.\<close>

definition last_message :: "error option \<Rightarrow> error + string" where
  "last_message lastError =
     (case lastError of
        None \<Rightarrow> bindE (get_prop JNull ''message'') (\<lambda>v. Inr (to_string v))
      | Some err \<Rightarrow> Inr (message err))"

definition loadJSONFile ::
    "env \<Rightarrow> config \<Rightarrow> string \<Rightarrow> io_event list \<Rightarrow> (error + jsval) \<times> io_event list" where
  "loadJSONFile e cfg filePath tr =
     (case attempts e cfg filePath 1 None tr of
        (Loaded parsedData, tr') \<Rightarrow> (Inr parsedData, tr')
      | (Exhausted lastError, tr') \<Rightarrow>
          (case last_message lastError of
             Inl err \<Rightarrow> (Inl err, tr')
           | Inr m \<Rightarrow>
               if str_includes filePath ''historical_events.json''
               then (Inl (Error (''Failed to load critical data file: '' @ filePath @
                                 ''. Last error: '' @ m)), tr')
               else (Inr JNull, tr')))"

text \<open>\<^verbatim>\<open>file.split('/')[1].replace('.json', '')\<close>.\<close>

fun split_on :: "char \<Rightarrow> string \<Rightarrow> string list" where
  "split_on c [] = [[]]"
| "split_on c (x # xs) =
     (if x = c then [] # split_on c xs
      else (case split_on c xs of
              y # ys \<Rightarrow> (x # y) # ys
            | [] \<Rightarrow> [[x]]))"

fun replace_first :: "string \<Rightarrow> string \<Rightarrow> string \<Rightarrow> string" where
  "replace_first pat rep [] = (if pat = [] then rep else [])"
| "replace_first pat rep (c # cs) =
     (if prefix pat (c # cs) then rep @ drop (length pat) (c # cs)
      else c # replace_first pat rep cs)"

definition fileName_of :: "string \<Rightarrow> error + string" where
  "fileName_of file =
     (case split_on (CHR ''/'') file of
        a # b # rest \<Rightarrow> Inr (replace_first ''.json'' [] b)
      | _ \<Rightarrow> Inl (no_method JUndefined ''replace''))"

definition optionalFiles :: "string list" where
  "optionalFiles =
     [''data/statistics.json'', ''data/companies.json'', ''data/social_media.json'',
      ''data/policies.json'', ''data/infrastructure.json'']"

text \<open>One round of the loop of \<open>loadOptionalDataFiles\<close>: whatever is thrown is caught
  and only printed.\<close>

definition load_optional :: "env \<Rightarrow> string \<Rightarrow> app \<Rightarrow> app" where
  "load_optional e file a =
     (case loadJSONFile e (config a) file (trace a) of
        (Inl err, tr') \<Rightarrow> a\<lparr>trace := tr'\<rparr>
      | (Inr d, tr') \<Rightarrow>
          if truthy d
          then (case fileName_of file of
                  Inl err \<Rightarrow> a\<lparr>trace := tr'\<rparr>
                | Inr fileName \<Rightarrow> a\<lparr>app_data := (app_data a)(fileName := Some d), trace := tr'\<rparr>)
          else a\<lparr>trace := tr'\<rparr>)"

definition loadOptionalDataFiles :: "env \<Rightarrow> app \<Rightarrow> app" where
  "loadOptionalDataFiles e a = foldl (\<lambda>a file. load_optional e file a) a optionalFiles"

text \<open>\<open>loadAllData\<close>: the error it throws, if any, and the application after it. The
  validation result only chooses between two branches that store the same data.\<close>

definition loadAllData :: "env \<Rightarrow> app \<Rightarrow> error option \<times> app" where
  "loadAllData e a =
     (case loadJSONFile e (config a) ''data/historical_events.json'' (trace a) of
        (Inl err, tr') \<Rightarrow> (Some err, a\<lparr>trace := tr'\<rparr>)
      | (Inr primaryData, tr') \<Rightarrow>
          (None,
           loadOptionalDataFiles e
             (if truthy primaryData
              then (case validateJSONData primaryData ''historical_events'' (validator a) of
                      (validationResult, vs) \<Rightarrow>
                        a\<lparr>app_data := (app_data a)(''historical_events'' := Some primaryData),
                          validator := vs, trace := tr'\<rparr>)
              else a\<lparr>trace := tr'\<rparr>)))"

text \<open>\<open>waitForTemplatesReady\<close>: nothing compiles templates while it polls, so
  \<open>isReady\<close> answers the same each time.\<close>

function polling :: "renderer \<Rightarrow> nat \<Rightarrow> io_event list \<Rightarrow> io_event list" where
  "polling r waited tr =
     (if \<not> isReady r \<and> waited < 10000 then polling r (waited + 100) (tr @ [Delay 100])
      else tr)"
  by pat_completeness auto

termination
  by (relation "measure (\<lambda>(r, waited, tr). 10000 - waited)") auto

declare polling.simps [simp del]

definition waitForTemplatesReady :: "renderer \<Rightarrow> io_event list \<Rightarrow> error option \<times> io_event list" where
  "waitForTemplatesReady r tr =
     (if \<not> isReady r
      then (Some (Error ''Templates failed to compile within timeout period''), polling r 0 tr)
      else (None, polling r 0 tr))"

text \<open>\<^verbatim>\<open>if (historicalData.key) this.renderer.render(historicalData.key)\<close>.\<close>

definition render_section :: "jsval \<Rightarrow> string \<Rightarrow> (jsval \<Rightarrow> 'a io) \<Rightarrow> unit io" where
  "render_section historicalData key render =
     bindR (lift (get_prop historicalData key)) (\<lambda>section.
       if truthy section then bindR (render section) (\<lambda>result. pure ()) else pure ())"

definition render_sections :: "renderer \<Rightarrow> jsval \<Rightarrow> unit io" where
  "render_sections r historicalData =
     bindR (render_section historicalData ''heroStats'' (renderHeroStats r)) (\<lambda>u.
     bindR (render_section historicalData ''foundationEra'' (renderFoundationEra r)) (\<lambda>u.
     bindR (render_section historicalData ''mobileEra'' (renderMobileEra r)) (\<lambda>u.
     bindR (render_section historicalData ''fintechEra'' (renderFintechEra r)) (\<lambda>u.
     bindR (renderSidebarContent r historicalData) (\<lambda>result. pure ())))))"

definition renderAllContent :: "app \<Rightarrow> error option \<times> app" where
  "renderAllContent a =
     (case waitForTemplatesReady (renderer a) (trace a) of
        (Some err, tr') \<Rightarrow> (Some err, a\<lparr>trace := tr'\<rparr>)
      | (None, tr') \<Rightarrow>
          (case app_data a ''historical_events'' of
             None \<Rightarrow> (Some (Error ''No historical data available for rendering''), a\<lparr>trace := tr'\<rparr>)
           | Some historicalData \<Rightarrow>
               if \<not> truthy historicalData
               then (Some (Error ''No historical data available for rendering''), a\<lparr>trace := tr'\<rparr>)
               else (case render_sections (renderer a) historicalData (page a) of
                       (Inl err, p') \<Rightarrow> (Some err, a\<lparr>page := p', trace := tr'\<rparr>)
                     | (Inr u, p') \<Rightarrow> (None, a\<lparr>page := p', trace := tr'\<rparr>))))"

definition showLoadingOverlay :: "app \<Rightarrow> app" where
  "showLoadingOverlay a =
     (case loadingOverlay (page a) of
        None \<Rightarrow> a
      | Some hidden \<Rightarrow> a\<lparr>isLoading := True, page := (page a)\<lparr>loadingOverlay := Some False\<rparr>\<rparr>)"

definition hideLoadingOverlay :: "app \<Rightarrow> app" where
  "hideLoadingOverlay a =
     (case loadingOverlay (page a) of
        None \<Rightarrow> a
      | Some hidden \<Rightarrow> a\<lparr>isLoading := False, page := (page a)\<lparr>loadingOverlay := Some True\<rparr>\<rparr>)"

definition showErrorModal :: "string \<Rightarrow> app \<Rightarrow> app" where
  "showErrorModal msg a =
     (if errorModal (page a) \<noteq> None \<and> errorMessage (page a) \<noteq> None
      then a\<lparr>hasErrors := True,
             page := (page a)\<lparr>errorModal := Some ''flex'', errorMessage := Some msg\<rparr>\<rparr>
      else a)"

definition closeErrorModal :: "app \<Rightarrow> app" where
  "closeErrorModal a =
     (if errorModal (page a) \<noteq> None
      then a\<lparr>hasErrors := False, page := (page a)\<lparr>errorModal := Some ''none''\<rparr>\<rparr>
      else a)"

definition userMessage :: "error \<Rightarrow> string" where
  "userMessage err =
     ''An error occurred while loading the Pakistan Internet Timeline. '' @
     (if str_includes (message err) ''Failed to load critical data''
      then ''Unable to load timeline data. Please check your internet connection and ensure the data files are available.''
      else if str_includes (message err) ''Templates failed to compile''
      then ''There was a problem with the page templates. Please refresh the page to try again.''
      else ''Please try refreshing the page or contact support if the problem persists.'')"

definition handleAppError :: "error \<Rightarrow> app \<Rightarrow> app" where
  "handleAppError err a = showErrorModal (userMessage err) (hideLoadingOverlay a)"

text \<open>\<open>loadAllData\<close>, then \<open>renderAllContent\<close>, then \<open>hideLoadingOverlay\<close>, inside the
  \<^verbatim>\<open>try\<close> whose \<^verbatim>\<open>catch\<close> calls \<open>handleAppError\<close>: the tail that \<open>startApp\<close> and
  \<open>retryDataLoad\<close> share (between the two, \<open>startApp\<close> also wires the user interactions,
  which are not modelled).\<close>

definition load_and_render :: "env \<Rightarrow> app \<Rightarrow> app" where
  "load_and_render e a =
     (case loadAllData e a of
        (Some err, a1) \<Rightarrow> handleAppError err a1
      | (None, a1) \<Rightarrow>
          (case renderAllContent a1 of
             (Some err, a2) \<Rightarrow> handleAppError err a2
           | (None, a2) \<Rightarrow> hideLoadingOverlay a2))"

definition retryDataLoad :: "env \<Rightarrow> app \<Rightarrow> app" where
  "retryDataLoad e a = load_and_render e (showLoadingOverlay (closeErrorModal a))"

text \<open>The application as the constructor and the first lines of \<open>startApp\<close> set it up,
  on a parsed document: \<^verbatim>\<open>data = {}\<close>, the default configuration, a new validator and
  a new renderer. Compiling the templates may throw, which \<open>startApp\<close> catches. (The
  scroll controller, which \<open>startApp\<close> also creates, catches what its own set-up
  throws and is left out.)\<close>

definition default_config :: config where
  "default_config = \<lparr>retryAttempts = 3, retryDelay = 1000\<rparr>"

definition startApp :: "env \<Rightarrow> page \<Rightarrow> app" where
  "startApp e p =
     (let a0 = \<lparr>app_data = (\<lambda>k. None), isLoading = False, hasErrors = False,
                config = default_config, validator = new_validator,
                renderer = \<lparr>compiledTemplates = (\<lambda>n. None), templateElements = (\<lambda>n. None),
                              inherited = Object_prototype e\<rparr>,
                page = p, trace = []\<rparr>
      in case new_renderer (Handlebars_compile e) (Object_prototype e) p of
           Inl err \<Rightarrow> handleAppError err a0
         | Inr r \<Rightarrow> load_and_render e (showLoadingOverlay (a0\<lparr>renderer := r\<rparr>)))"

text \<open>The line \<open>renderTemplate\<close> prints when it has rendered, that is, when it returns
  \<^verbatim>\<open>true\<close>.\<close>

fun is_rendered :: "log \<Rightarrow> bool" where
  "is_rendered (Rendered templateName targetSelector) = True"
| "is_rendered l = False"


text \<open>The requests and delays of a load in which every attempt from the \<open>k\<close>-th on
  fails, and the delays among events.\<close>

definition schedule :: "config \<Rightarrow> string \<Rightarrow> nat \<Rightarrow> io_event list" where
  "schedule cfg filePath k =
     concat (map (\<lambda>j. [Fetch filePath, Delay (retryDelay cfg * j)]) [k..<retryAttempts cfg]) @
     [Fetch filePath]"

fun delays :: "io_event list \<Rightarrow> nat list" where
  "delays [] = []"
| "delays (Delay ms # evs) = ms # delays evs"
| "delays (Fetch filePath # evs) = delays evs"

text \<open>The error of the attempt made after the history \<open>h\<close>, if it fails.\<close>

definition attempt_error :: "env \<Rightarrow> io_event list \<Rightarrow> string \<Rightarrow> error option" where
  "attempt_error e h filePath =
     (case attempt_body e (network e h filePath) of Inl err \<Rightarrow> Some err | Inr d \<Rightarrow> None)"

definition always_fails :: "env \<Rightarrow> string \<Rightarrow> bool" where
  "always_fails e filePath = (\<forall>h. attempt_error e h filePath \<noteq> None)"


section \<open>Example inputs\<close>

definition doc1 :: jsval where
  "doc1 = JObj [(''companies'',
                 JArr [JObj [(''name'', JStr ''Jazz''), (''marketShare'', JBool True)]])]"

definition kvs_num :: "(string \<times> jsval) list" where
  "kvs_num = [(''name'', JStr ''Jazz''), (''marketShare'', JNum 35), (''subscribers'', JStr ''70M'')]"

definition kvs_bool :: "(string \<times> jsval) list" where
  "kvs_bool = [(''name'', JStr ''Jazz''), (''marketShare'', JBool True), (''subscribers'', JStr ''70M'')]"

definition doc_null :: jsval where
  "doc_null = JObj [(''companies'', JArr [JObj [], JNull])]"

text \<open>A page with the render targets but \<^verbatim>\<open>#foundationStats\<close>, and with the template
  elements of the five templates needed for readiness; \<open>page7\<close> has all seven. The empty
  selector does not parse. \<open>handlebars1\<close> compiles every source to a template that prints
  its data.\<close>

definition targets1 :: "(string \<times> nat) list" where
  "targets1 =
     [(''#heroStats'', 0), (''#ptclPrivatization'', 1), (''#foundationMilestones'', 2),
      (''#foundationTimeline'', 4), (''#mobile3G4G'', 5), (''#socialMediaGrowth'', 6),
      (''#digitalPakistanPolicy'', 7), (''#raastRevolution'', 8), (''#mobileBanking'', 9),
      (''#investmentBoom'', 10), (''#covidImpact'', 11), (''#fiveGFuture'', 12),
      (''#digitalDivide'', 13)]"

definition template_elements1 :: "(string \<times> nat) list" where
  "template_elements1 =
     [(''hero-stats-template'', 20), (''historical-events-template'', 21),
      (''statistics-template'', 22), (''company-template'', 23),
      (''social-media-template'', 24)]"

definition page1 :: page where
  "page1 =
     \<lparr>querySelector =
        (\<lambda>s. case map_of targets1 s of
               Some el \<Rightarrow> Element el
             | None \<Rightarrow> if s = [] then Invalid else Missing),
      getElementById = map_of template_elements1,
      innerHTML = (\<lambda>el. if el < 20 then ''Loading...'' else ''{{#each items}}<li>{{this}}</li>{{/each}}''),
      console = [],
      loadingOverlay = Some False,
      errorModal = Some ''none'',
      errorMessage = Some []\<rparr>"

definition page7 :: page where
  "page7 =
     page1\<lparr>getElementById :=
             map_of (template_elements1 @
                     [(''policy-template'', 25), (''infrastructure-template'', 26)])\<rparr>"

definition handlebars1 :: "string \<Rightarrow> error + template" where
  "handlebars1 source = Inr (\<lambda>d. Inr (''<ul>'' @ to_string d @ ''</ul>''))"

text \<open>The inherited members of the examples: \<^verbatim>\<open>__proto__\<close> is not a function, and the
  others return \<^verbatim>\<open>[object Object]\<close>, as \<^verbatim>\<open>toString\<close>, \<^verbatim>\<open>toLocaleString\<close> and \<^verbatim>\<open>valueOf\<close>
  do (the examples call no other member).\<close>

definition prototype1 :: prototype where
  "prototype1 own n d =
     (if n = ''__proto__''
      then Inl (TypeError ''this.compiledTemplates[templateName] is not a function'')
      else Inr ''[object Object]'')"

definition no_renderer :: renderer where
  "no_renderer =
     \<lparr>compiledTemplates = (\<lambda>n. None), templateElements = (\<lambda>n. None), inherited = prototype1\<rparr>"

definition renderer5 :: renderer where
  "renderer5 =
     (case new_renderer handlebars1 prototype1 page1 of Inr r \<Rightarrow> r | Inl e \<Rightarrow> no_renderer)"

definition renderer7 :: renderer where
  "renderer7 =
     (case new_renderer handlebars1 prototype1 page7 of Inr r \<Rightarrow> r | Inl e \<Rightarrow> no_renderer)"

definition failing_renderer :: renderer where
  "failing_renderer =
     no_renderer\<lparr>compiledTemplates :=
       (\<lambda>n. if n = ''heroStats'' then Some (\<lambda>d. Inl (Error ''Missing helper: badge'')) else None)\<rparr>"

definition foundation1 :: jsval where
  "foundation1 =
     JObj [(''events'',
            JArr [JObj [(''date'', JStr ''2006''), (''title'', JStr ''PTCL Privatization''),
                        (''description'', JStr ''Etisalat buys 26%'')]]),
           (''yearlyStats'', JArr [])]"

definition sidebar1 :: jsval where
  "sidebar1 = JObj [(''fiveGFuture'', JObj [(''launchTimeline'', JStr ''2025'')])]"

text \<open>The application once the document \<open>sidebar1\<close> is loaded, on \<open>page1\<close>.\<close>

definition app5 :: app where
  "app5 =
     \<lparr>app_data = [''historical_events'' \<mapsto> sidebar1], isLoading = True, hasErrors = False,
      config = default_config, validator = new_validator, renderer = renderer5, page = page1,
      trace = [Fetch ''data/historical_events.json'']\<rparr>"

text \<open>A network that is down.\<close>

definition env_down :: env where
  "env_down =
     \<lparr>network = (\<lambda>h filePath. Rejected (TypeError ''Failed to fetch'')),
      JSON_parse = (\<lambda>s. Inl ''Unexpected end of JSON input''),
      Handlebars_compile = handlebars1,
      Object_prototype = prototype1\<rparr>"

text \<open>JSON texts and what \<^verbatim>\<open>JSON.parse\<close> makes of them.\<close>

definition jkey :: "string \<Rightarrow> string" where
  "jkey k = dq @ k @ dq @ '':''"

definition mobile_only_text :: string where
  "mobile_only_text = ''{'' @ jkey ''mobileEra'' @ ''{}}''"

definition stats_text :: string where
  "stats_text = ''{'' @ jkey ''users'' @ ''5}''"

definition no_events_text :: string where
  "no_events_text =
     ''{'' @ jkey ''heroStats'' @ ''[],'' @
     jkey ''foundationEra'' @ ''{'' @ jkey ''events'' @ ''[],'' @ jkey ''yearlyStats'' @ ''[]},'' @
     jkey ''mobileEra'' @ ''{'' @ jkey ''socialMediaGrowth'' @ ''[]},'' @
     jkey ''fintechEra'' @ ''{'' @ jkey ''events'' @ ''[],'' @ jkey ''mobileBanking'' @ ''[],'' @
       jkey ''investmentBoom'' @ ''[]}}''"

definition no_events_doc :: jsval where
  "no_events_doc =
     JObj [(''heroStats'', JArr []),
           (''foundationEra'', JObj [(''events'', JArr []), (''yearlyStats'', JArr [])]),
           (''mobileEra'', JObj [(''socialMediaGrowth'', JArr [])]),
           (''fintechEra'', JObj [(''events'', JArr []), (''mobileBanking'', JArr []),
                                  (''investmentBoom'', JArr [])])]"

definition foundation_no_events_text :: string where
  "foundation_no_events_text =
     ''{'' @ jkey ''heroStats'' @ ''[],'' @
     jkey ''foundationEra'' @ ''{'' @ jkey ''yearlyStats'' @ ''[]},'' @
     jkey ''mobileEra'' @ ''{'' @ jkey ''events'' @ ''[],'' @ jkey ''socialMediaGrowth'' @ ''[]},'' @
     jkey ''fintechEra'' @ ''{'' @ jkey ''events'' @ ''[],'' @ jkey ''mobileBanking'' @ ''[],'' @
       jkey ''investmentBoom'' @ ''[]}}''"

definition foundation_no_events_doc :: jsval where
  "foundation_no_events_doc =
     JObj [(''heroStats'', JArr []),
           (''foundationEra'', JObj [(''yearlyStats'', JArr [])]),
           (''mobileEra'', JObj [(''events'', JArr []), (''socialMediaGrowth'', JArr [])]),
           (''fintechEra'', JObj [(''events'', JArr []), (''mobileBanking'', JArr []),
                                  (''investmentBoom'', JArr [])])]"

definition parse1 :: "string \<Rightarrow> string + jsval" where
  "parse1 s =
     (case map_of [(''{}'', JObj []),
                   (mobile_only_text, JObj [(''mobileEra'', JObj [])]),
                   (stats_text, JObj [(''users'', JNum 5)]),
                   (no_events_text, no_events_doc),
                   (foundation_no_events_text, foundation_no_events_doc)] s of
        Some v \<Rightarrow> Inr v
      | None \<Rightarrow> Inl ''Unexpected token'')"

definition not_found :: response where
  "not_found = Response False 404 ''Not Found'' (Inr [])"

text \<open>A server that has the mandatory file only, with the given text.\<close>

definition env_only :: "string \<Rightarrow> env" where
  "env_only text =
     \<lparr>network = (\<lambda>h filePath.
                   if filePath = ''data/historical_events.json''
                   then Response True 200 ''OK'' (Inr text)
                   else not_found),
      JSON_parse = parse1,
      Handlebars_compile = handlebars1,
      Object_prototype = prototype1\<rparr>"

text \<open>A server whose mandatory file changes after the first request, and whose
  statistics file is there for the first request only.\<close>

definition env_flaky :: env where
  "env_flaky =
     \<lparr>network = (\<lambda>h filePath.
                   if filePath = ''data/historical_events.json''
                   then Response True 200 ''OK''
                          (Inr (if Fetch filePath \<in> set h then ''{}'' else mobile_only_text))
                   else if filePath = ''data/statistics.json'' \<and> Fetch filePath \<notin> set h
                   then Response True 200 ''OK'' (Inr stats_text)
                   else not_found),
      JSON_parse = parse1,
      Handlebars_compile = handlebars1,
      Object_prototype = prototype1\<rparr>"

text \<open>What the application requests and waits for on \<open>env_flaky\<close>, in \<open>startApp\<close> and then
  in \<open>retryDataLoad\<close>.\<close>

definition flaky_trace :: "io_event list" where
  "flaky_trace =
     [Fetch ''data/historical_events.json'', Fetch ''data/statistics.json'',
      Fetch ''data/companies.json'', Delay 1000,
      Fetch ''data/companies.json'', Delay 2000,
      Fetch ''data/companies.json'', Fetch ''data/social_media.json'',
      Delay 1000, Fetch ''data/social_media.json'', Delay 2000,
      Fetch ''data/social_media.json'', Fetch ''data/policies.json'',
      Delay 1000, Fetch ''data/policies.json'', Delay 2000,
      Fetch ''data/policies.json'', Fetch ''data/infrastructure.json'',
      Delay 1000, Fetch ''data/infrastructure.json'', Delay 2000,
      Fetch ''data/infrastructure.json'']"

definition flaky_retry_trace :: "io_event list" where
  "flaky_retry_trace =
     flaky_trace @
     [Fetch ''data/historical_events.json'',
      Fetch ''data/statistics.json'', Delay 1000, Fetch ''data/statistics.json'', Delay 2000,
      Fetch ''data/statistics.json'',
      Fetch ''data/companies.json'', Delay 1000, Fetch ''data/companies.json'', Delay 2000,
      Fetch ''data/companies.json'',
      Fetch ''data/social_media.json'', Delay 1000, Fetch ''data/social_media.json'', Delay 2000,
      Fetch ''data/social_media.json'',
      Fetch ''data/policies.json'', Delay 1000, Fetch ''data/policies.json'', Delay 2000,
      Fetch ''data/policies.json'',
      Fetch ''data/infrastructure.json'', Delay 1000, Fetch ''data/infrastructure.json'',
      Delay 2000, Fetch ''data/infrastructure.json'']"

text \<open>What the application requests and waits for when only the mandatory file is
  there.\<close>

definition only_trace :: "io_event list" where
  "only_trace =
     [Fetch ''data/historical_events.json'',
      Fetch ''data/statistics.json'', Delay 1000, Fetch ''data/statistics.json'', Delay 2000,
      Fetch ''data/statistics.json'',
      Fetch ''data/companies.json'', Delay 1000, Fetch ''data/companies.json'', Delay 2000,
      Fetch ''data/companies.json'',
      Fetch ''data/social_media.json'', Delay 1000, Fetch ''data/social_media.json'', Delay 2000,
      Fetch ''data/social_media.json'',
      Fetch ''data/policies.json'', Delay 1000, Fetch ''data/policies.json'', Delay 2000,
      Fetch ''data/policies.json'',
      Fetch ''data/infrastructure.json'', Delay 1000, Fetch ''data/infrastructure.json'',
      Delay 2000, Fetch ''data/infrastructure.json'']"


section \<open>Properties of the validator\<close>

lemma emit_Nil: "emit [] [] s = s"
  by (simp add: emit_def)

lemma emit_emit: "emit es' ws' (emit es ws s) = emit (es @ es') (ws @ ws') s"
  by (simp add: emit_def)

lemma uniform_skip: "uniform skip"
  unfolding uniform_def skip_def
  by (rule exI[of _ None], rule exI[of _ "[]"], rule exI[of _ "[]"]) (simp add: emit_Nil)

lemma uniform_throw: "uniform (throw e)"
  unfolding uniform_def throw_def
  by (rule exI[of _ "Some e"], rule exI[of _ "[]"], rule exI[of _ "[]"]) (simp add: emit_Nil)

lemma uniform_addError: "uniform (addError m)"
  unfolding uniform_def addError_def
  by (rule exI[of _ None], rule exI[of _ "[m]"], rule exI[of _ "[]"]) (simp add: emit_def)

lemma uniform_console_warn: "uniform (console_warn m)"
  unfolding uniform_def console_warn_def
  by (rule exI[of _ None], rule exI[of _ "[]"], rule exI[of _ "[m]"]) (simp add: emit_def)

lemma uniform_seq: "uniform f \<Longrightarrow> uniform g \<Longrightarrow> uniform (seq f g)"
proof -
  assume "uniform f" "uniform g"
  then obtain r es ws r' es' ws' where
    f: "\<And>s. f s = (r, emit es ws s)" and g: "\<And>s. g s = (r', emit es' ws' s)"
    unfolding uniform_def by blast
  show ?thesis
  proof (cases r)
    case None
    then have "\<forall>s. seq f g s = (r', emit (es @ es') (ws @ ws') s)"
      by (simp add: seq_def f g emit_emit)
    then show ?thesis unfolding uniform_def by blast
  next
    case (Some e)
    then have "\<forall>s. seq f g s = (Some e, emit es ws s)"
      by (simp add: seq_def f)
    then show ?thesis unfolding uniform_def by blast
  qed
qed

lemma uniform_eval: "(\<And>x. uniform (f x)) \<Longrightarrow> uniform (eval r f)"
  by (cases r) (simp_all add: eval_def uniform_throw)

lemma uniform_forEach: "(\<And>x. uniform (f x)) \<Longrightarrow> uniform (forEach f xs)"
  by (induction xs) (simp_all add: uniform_skip uniform_seq)

lemma uniform_if: "uniform f \<Longrightarrow> uniform g \<Longrightarrow> uniform (if c then f else g)"
  by simp

lemmas uniform_intros = uniform_skip uniform_throw uniform_addError uniform_console_warn
  uniform_seq uniform_eval uniform_forEach uniform_if

lemma uniform_validateFieldType: "uniform (validateFieldType v t p)"
  unfolding validateFieldType_def Let_def
  by (intro uniform_intros) (cases t; simp add: uniform_intros)

lemma uniform_validateItemStructure: "uniform (validateItemStructure item ty p)"
  unfolding validateItemStructure_def
  by (auto intro!: uniform_intros uniform_validateFieldType split: option.splits)

lemma uniform_validateArrayItems: "uniform (validateArrayItems items ty)"
  unfolding validateArrayItems_def
  by (cases items) (auto intro!: uniform_intros uniform_validateItemStructure)

lemma uniform_array_section: "uniform (array_section d k m ty)"
  unfolding array_section_def
  by (intro uniform_intros uniform_validateArrayItems)

lemma uniform_array_only: "uniform (array_only d k m)"
  unfolding array_only_def
  by (intro uniform_intros)

lemma uniform_object_section: "(\<And>v. uniform (f v)) \<Longrightarrow> uniform (object_section d k m f)"
  unfolding object_section_def
  by (intro uniform_intros)


lemma dispatch_cases:
  "(\<exists>body. uniform body \<and> (\<forall>s. dispatch d k s = returning body s)) \<or>
   (\<exists>m. \<forall>s. dispatch d k s = (case validationFailed m s of (r, s') \<Rightarrow> (Inr r, s')))"
proof -
  have era: "\<And>v. uniform (validateFoundationEra v)" "\<And>v. uniform (validateMobileEra v)"
    "\<And>v. uniform (validateFintechEra v)"
    unfolding validateFoundationEra_def validateMobileEra_def validateFintechEra_def
    by (intro uniform_intros uniform_array_section uniform_array_only)+
  have "uniform (seq (array_section d ''heroStats'' ''heroStats must be an array'' ''heroStats'')
       (seq (object_section d ''foundationEra'' ''foundationEra must be an object''
               validateFoundationEra)
       (seq (object_section d ''mobileEra'' ''mobileEra must be an object'' validateMobileEra)
            (object_section d ''fintechEra'' ''fintechEra must be an object''
               validateFintechEra))))"
    by (intro uniform_seq uniform_array_section uniform_object_section era)
  then have h: "\<exists>body. uniform body \<and> (\<forall>s. validateHistoricalEvents d s = returning body s)"
    unfolding validateHistoricalEvents_def by blast
  have st: "\<exists>body. uniform body \<and> (\<forall>s. validateStatistics d s = returning body s)"
    unfolding validateStatistics_def using uniform_skip by blast
  have co: "\<exists>body. uniform body \<and> (\<forall>s. validateCompanies d s = returning body s)"
    unfolding validateCompanies_def using uniform_array_section by blast
  have so: "\<exists>body. uniform body \<and> (\<forall>s. validateSocialMedia d s = returning body s)"
    unfolding validateSocialMedia_def using uniform_array_section by blast
  have po: "\<exists>body. uniform body \<and> (\<forall>s. validatePolicies d s = returning body s)"
    unfolding validatePolicies_def using uniform_array_section by blast
  have inf: "\<exists>body. uniform body \<and> (\<forall>s. validateInfrastructure d s = returning body s)"
    unfolding validateInfrastructure_def using uniform_array_section by blast
  consider "k = ''historical_events''" | "k = ''statistics''" | "k = ''companies''"
    | "k = ''social_media''" | "k = ''policies''" | "k = ''infrastructure''"
    | "k \<noteq> ''historical_events''" "k \<noteq> ''statistics''" "k \<noteq> ''companies''"
      "k \<noteq> ''social_media''" "k \<noteq> ''policies''" "k \<noteq> ''infrastructure''"
    by blast
  then show ?thesis
  proof cases
    case 1 with h show ?thesis by (simp add: dispatch_def)
  next
    case 2 with st show ?thesis by (simp add: dispatch_def)
  next
    case 3 with co show ?thesis by (simp add: dispatch_def)
  next
    case 4 with so show ?thesis by (simp add: dispatch_def)
  next
    case 5 with po show ?thesis by (simp add: dispatch_def)
  next
    case 6 with inf show ?thesis by (simp add: dispatch_def)
  next
    case 7
    then have "\<forall>s. dispatch d k s =
        (case validationFailed (''Unknown data type: '' @ k) s of (r, s') \<Rightarrow> (Inr r, s'))"
      by (simp add: dispatch_def)
    then show ?thesis by blast
  qed
qed

lemma validateJSONData_char:
  "\<exists>c. \<forall>s. \<exists>r s'. validateJSONData d k s = (r, s') \<and> contents s' r = c \<and>
      nxt s \<le> errors r \<and> errors r < nxt s' \<and> (\<forall>a<nxt s. heap s' a = heap s a) \<and>
      validationErrors s' = nxt s"
proof (cases "\<not> truthy d \<or> typeof d \<noteq> ''object''")
  case True
  show ?thesis
  proof (cases "truthy d")
    case t: True
    show ?thesis
      apply (rule exI[of _ "(False, [''JSON data must be an object''], None)"])
      using True t by (simp add: validateJSONData_def Let_def validationFailed_def contents_def)
  next
    case f: False
    show ?thesis
      apply (rule exI[of _ "(False, [''JSON data is null or undefined''], None)"])
      using f by (simp add: validateJSONData_def Let_def validationFailed_def contents_def)
  qed
next
  case False
  from dispatch_cases [of d k] show ?thesis
  proof (elim disjE exE conjE)
    fix body assume u: "uniform body" and d: "\<forall>s. dispatch d k s = returning body s"
    from u obtain r0 es ws where b: "\<And>s. body s = (r0, emit es ws s)"
      unfolding uniform_def by blast
    show ?thesis
    proof (cases r0)
      case None
      show ?thesis
        apply (rule exI[of _ "(es = [], es, if es = [] then Some ''Valid'' else None)"])
        using False None
        by (simp add: validateJSONData_def Let_def d returning_def b emit_def
            getValidationResult_def contents_def)
    next
      case (Some e)
      show ?thesis
        apply (rule exI[of _ "(False, [''Validation error: '' @ message e], None)"])
        using False Some
        by (simp add: validateJSONData_def Let_def d returning_def b emit_def
            validationFailed_def contents_def)
    qed
  next
    fix m assume d: "\<forall>s. dispatch d k s = (case validationFailed m s of (r, s') \<Rightarrow> (Inr r, s'))"
    show ?thesis
      apply (rule exI[of _ "(False, [m], None)"])
      using False
      by (simp add: validateJSONData_def Let_def d validationFailed_def contents_def)
  qed
qed

text \<open>
  Claim C7. Validating the same document as the same kind twice in succession gives two
  results with the same contents (flag, ordered messages, data marker); the second call
  leaves what the first result refers to as it was, its result refers to another array,
  and each call starts on a new accumulator.
\<close>

theorem validateJSONData_idempotent:
  assumes "validateJSONData d k s = (r1, s1)" and "validateJSONData d k s1 = (r2, s2)"
  shows "contents s2 r2 = contents s1 r1 \<and> contents s2 r1 = contents s1 r1 \<and>
         errors r2 \<noteq> errors r1 \<and> validationErrors s2 \<noteq> validationErrors s1"
proof -
  from validateJSONData_char [of d k] obtain c where
    c: "\<And>s. \<exists>r s'. validateJSONData d k s = (r, s') \<and> contents s' r = c \<and>
      nxt s \<le> errors r \<and> errors r < nxt s' \<and> (\<forall>a<nxt s. heap s' a = heap s a) \<and>
      validationErrors s' = nxt s"
    by blast
  from c [of s] assms(1) have 1: "contents s1 r1 = c" "errors r1 < nxt s1" "nxt s \<le> errors r1"
    "validationErrors s1 = nxt s" by auto
  from c [of s1] assms(2) have 2: "contents s2 r2 = c" "nxt s1 \<le> errors r2"
    "\<forall>a<nxt s1. heap s2 a = heap s1 a" "validationErrors s2 = nxt s1" by auto
  from 1 2 show ?thesis by (auto simp: contents_def)
qed

lemma doc1_contents:
  "contents (snd (validateJSONData doc1 ''companies'' new_validator))
            (fst (validateJSONData doc1 ''companies'' new_validator)) =
     (False,
      [''companies[0].marketShare must be one of: string, number, got: boolean'',
       ''companies[0] missing required field: subscribers'',
       ''companies[0].marketShare must be one of: string, number, got: boolean''],
      None)"
  by code_simp

theorem validateJSONData_idempotent_witness:
  "contents (snd (validateJSONData doc1 ''companies''
                    (snd (validateJSONData doc1 ''companies'' new_validator))))
            (fst (validateJSONData doc1 ''companies''
                    (snd (validateJSONData doc1 ''companies'' new_validator)))) =
     (False,
      [''companies[0].marketShare must be one of: string, number, got: boolean'',
       ''companies[0] missing required field: subscribers'',
       ''companies[0].marketShare must be one of: string, number, got: boolean''],
      None) \<and>
   contents (snd (validateJSONData doc1 ''companies''
                    (snd (validateJSONData doc1 ''companies'' new_validator))))
            (fst (validateJSONData doc1 ''companies'' new_validator)) =
     (False,
      [''companies[0].marketShare must be one of: string, number, got: boolean'',
       ''companies[0] missing required field: subscribers'',
       ''companies[0].marketShare must be one of: string, number, got: boolean''],
      None)"
  using validateJSONData_idempotent [OF prod.collapse [symmetric] prod.collapse [symmetric],
      of doc1 "''companies''" new_validator] doc1_contents
  by simp

lemma uniform_outcome: "uniform f = (\<exists>r es. outcome f r es)"
  by (auto simp: uniform_def outcome_def)

lemma outcome_pushed:
  assumes "outcome f r es" and "f s = (r', s')"
  shows "r' = r \<and> pushed s s' = es"
  using assms by (auto simp: outcome_def pushed_def emit_def)

lemma quiet_uniform: "quiet P f \<Longrightarrow> uniform f"
  by (auto simp: quiet_def uniform_outcome)

lemma outcome_seq_None:
  "outcome f None es \<Longrightarrow> outcome g r es' \<Longrightarrow> outcome (seq f g) r (es @ es')"
  unfolding outcome_def
proof (elim exE)
  fix ws ws' assume "\<forall>s. f s = (None, emit es ws s)" "\<forall>s. g s = (r, emit es' ws' s)"
  then have "\<forall>s. seq f g s = (r, emit (es @ es') (ws @ ws') s)"
    by (simp add: seq_def emit_emit)
  then show "\<exists>ws. \<forall>s. seq f g s = (r, emit (es @ es') ws s)" by blast
qed

lemma outcome_seq_Some: "outcome f (Some e) es \<Longrightarrow> outcome (seq f g) (Some e) es"
  by (auto simp: outcome_def seq_def)

lemma quiet_skip: "quiet P skip"
  unfolding quiet_def outcome_def skip_def
  by (rule exI[of _ "[]"]) (auto simp: emit_Nil intro: exI[of _ "[]"])

lemma quiet_addError: "P m \<Longrightarrow> quiet P (addError m)"
  unfolding quiet_def outcome_def addError_def
  by (rule exI[of _ "[m]"]) (auto simp: emit_def intro: exI[of _ "[]"])

lemma quiet_console_warn: "quiet P (console_warn m)"
  unfolding quiet_def outcome_def console_warn_def
  by (rule exI[of _ "[]"]) (auto simp: emit_def intro: exI[of _ "[m]"])

lemma quiet_seq: "quiet P f \<Longrightarrow> quiet P g \<Longrightarrow> quiet P (seq f g)"
  unfolding quiet_def using outcome_seq_None by fastforce

lemma quiet_forEach: "(\<And>x. x \<in> set xs \<Longrightarrow> quiet P (f x)) \<Longrightarrow> quiet P (forEach f xs)"
  by (induction xs) (simp_all add: quiet_skip quiet_seq)

lemma quiet_eval: "quiet P (f x) \<Longrightarrow> quiet P (eval (Inr x) f)"
  by (simp add: eval_def)

lemma says_addError: "says m (addError m)"
  unfolding says_def outcome_def addError_def
  by (rule exI[of _ None], rule exI[of _ "[m]"]) (auto simp: emit_def intro: exI[of _ "[]"])

lemma says_seq1: "says m f \<Longrightarrow> uniform g \<Longrightarrow> says m (seq f g)"
proof -
  assume "says m f" and g: "uniform g"
  then obtain r es where f: "outcome f r es" "m \<in> set es" unfolding says_def by blast
  from g obtain r' es' where g': "outcome g r' es'" unfolding uniform_outcome by blast
  show ?thesis
  proof (cases r)
    case None
    with f g' have "outcome (seq f g) r' (es @ es')" by (simp add: outcome_seq_None)
    with f show ?thesis unfolding says_def by fastforce
  next
    case (Some e)
    with f have "outcome (seq f g) (Some e) es" by (simp add: outcome_seq_Some)
    with f show ?thesis unfolding says_def by fastforce
  qed
qed

lemma says_seq2: "quiet P f \<Longrightarrow> says m g \<Longrightarrow> says m (seq f g)"
  unfolding quiet_def says_def using outcome_seq_None by fastforce

lemma quiet_validateFieldType:
  "(\<And>m. prefix (path @ '' must be '') m \<Longrightarrow> P m) \<Longrightarrow> quiet P (validateFieldType v t path)"
  unfolding validateFieldType_def Let_def
  by (cases t) (auto intro!: quiet_seq quiet_skip quiet_addError quiet_console_warn)

lemma quiet_validateFieldType_Union:
  "actual v \<in> set ts \<Longrightarrow> quiet P (validateFieldType v (Union ts) path)"
  unfolding validateFieldType_def Let_def actual_def
  by (auto intro!: quiet_seq quiet_skip)

lemma says_validateFieldType_Union:
  "actual v \<notin> set ts \<Longrightarrow>
   says (path @ '' must be one of: '' @ join '', '' ts @ '', got: '' @ actual v)
     (validateFieldType v (Union ts) path)"
  unfolding validateFieldType_def Let_def actual_def
  by (auto intro!: says_seq1 says_addError uniform_skip)

lemma companies_requirements:
  "map_of getRequiredFields ''companies'' =
     Some \<lparr>required = [''name'', ''marketShare'', ''subscribers''],
           optional = [''founded'', ''keyMilestone''],
           types = [(''name'', Single ''string''), (''marketShare'', Union [''string'', ''number'']),
                    (''subscribers'', Single ''string''), (''founded'', Single ''string''),
                    (''keyMilestone'', Single ''string'')]\<rparr>"
  by (simp add: getRequiredFields_def)

lemma companies_known_field:
  assumes "types req = [(''name'', Single ''string''), (''marketShare'', Union [''string'', ''number'']),
                    (''subscribers'', Single ''string''), (''founded'', Single ''string''),
                    (''keyMilestone'', Single ''string'')]"
    and "truthy_expected (types_lookup req field)" and "field \<noteq> ''marketShare''"
  shows "field \<in> set companies_fields"
proof (rule ccontr)
  assume "field \<notin> set companies_fields"
  then have "types_lookup req field = Other ''undefined''"
    using assms(1,3)
    by (simp add: types_lookup_def companies_fields_def object_prototype_members_def)
  with assms(2) show False by simp
qed

lemma quiet_companies_item:
  assumes ms: "map_of kvs ''marketShare'' = Some v"
    and P1: "\<And>f. P (p @ '' missing required field: '' @ f)"
    and P2: "\<And>f m. f \<in> set companies_fields \<Longrightarrow> prefix (p @ ''.'' @ f @ '' must be '') m \<Longrightarrow> P m"
    and P3: "quiet P (validateFieldType v (Union [''string'', ''number'']) (p @ ''.marketShare''))"
  shows "quiet P (validateItemStructure (JObj kvs) ''companies'' p)"
proof -
  let ?req = "\<lparr>required = [''name'', ''marketShare'', ''subscribers''],
           optional = [''founded'', ''keyMilestone''],
           types = [(''name'', Single ''string''), (''marketShare'', Union [''string'', ''number'']),
                    (''subscribers'', Single ''string''), (''founded'', Single ''string''),
                    (''keyMilestone'', Single ''string'')]\<rparr>"
  have present: "''marketShare'' \<in> fst ` set kvs"
    using ms by (metis domI dom_map_of_conv_image_fst)
  have other: "quiet P (validateFieldType x (types_lookup ?req f) ((p @ ''.'' @ f)))"
    if "f \<in> set companies_fields" for f x
    using that P2 [of f] by (intro quiet_validateFieldType) simp
  have ms_type: "types_lookup ?req ''marketShare'' = Union [''string'', ''number'']"
    by (simp add: types_lookup_def)
  have F: "quiet P (eval (in_operator f (JObj kvs)) (\<lambda>present.
                    if \<not> present
                    then addError (p @ '' missing required field: '' @ f)
                    else eval (get_prop (JObj kvs) f) (\<lambda>v.
                           validateFieldType v (types_lookup ?req f)
                             (p @ ''.'' @ f))))"
    if "f \<in> set [''name'', ''marketShare'', ''subscribers'']" for f
  proof (cases "f = ''marketShare''")
    case True
    then show ?thesis using present ms P3 by (simp add: eval_def ms_type)
  next
    case False
    with that have "f \<in> set companies_fields" by (auto simp: companies_fields_def)
    then show ?thesis using other [of f] P1 [of f]
      by (auto simp: eval_def intro!: quiet_addError)
  qed
  have G: "quiet P (if truthy_expected (types_lookup ?req f)
                       then eval (get_prop (JObj kvs) f) (\<lambda>v.
                              validateFieldType v (types_lookup ?req f) (p @ ''.'' @ f))
                       else skip)" for f
  proof (cases "f = ''marketShare''")
    case True
    then show ?thesis using ms P3 by (simp add: eval_def ms_type)
  next
    case False
    show ?thesis
    proof (cases "truthy_expected (types_lookup ?req f)")
      case True
      with False have "f \<in> set companies_fields"
        by (intro companies_known_field [of ?req]) simp_all
      then show ?thesis using other [of f] True by (simp add: eval_def)
    next
      case False
      then show ?thesis by (simp add: quiet_skip)
    qed
  qed
  show ?thesis
    unfolding validateItemStructure_def
    apply (simp only: typeof.simps companies_requirements option.case if_False simp_thms
        requirements.simps object_keys.simps)
    apply (rule quiet_seq)
     apply (rule quiet_forEach)
     apply (rule F)
     apply simp
    apply (rule quiet_eval)
    apply (rule quiet_forEach)
    apply (rule G)
    done
qed

lemma says_companies_item:
  assumes ms: "map_of kvs ''marketShare'' = Some v"
    and bad: "actual v \<notin> set [''string'', ''number'']"
  shows "says (p @ ''.marketShare must be one of: string, number, got: '' @ actual v)
           (validateItemStructure (JObj kvs) ''companies'' p)"
proof -
  let ?req = "\<lparr>required = [''name'', ''marketShare'', ''subscribers''],
           optional = [''founded'', ''keyMilestone''],
           types = [(''name'', Single ''string''), (''marketShare'', Union [''string'', ''number'']),
                    (''subscribers'', Single ''string''), (''founded'', Single ''string''),
                    (''keyMilestone'', Single ''string'')]\<rparr>"
  have present: "''marketShare'' \<in> fst ` set kvs"
    using ms by (metis domI dom_map_of_conv_image_fst)
  have ms_type: "types_lookup ?req ''marketShare'' = Union [''string'', ''number'']"
    by (simp add: types_lookup_def)
  have name: "quiet (\<lambda>m. True) (eval (in_operator ''name'' (JObj kvs)) (\<lambda>present.
                    if \<not> present
                    then addError (p @ '' missing required field: '' @ ''name'')
                    else eval (get_prop (JObj kvs) ''name'') (\<lambda>v.
                           validateFieldType v (types_lookup ?req ''name'')
                             (p @ ''.'' @ ''name''))))"
    by (auto simp: eval_def intro!: quiet_addError quiet_validateFieldType)
  have share: "says (p @ ''.marketShare must be one of: string, number, got: '' @ actual v)
                 (eval (in_operator ''marketShare'' (JObj kvs)) (\<lambda>present.
                    if \<not> present
                    then addError (p @ '' missing required field: '' @ ''marketShare'')
                    else eval (get_prop (JObj kvs) ''marketShare'') (\<lambda>v.
                           validateFieldType v (types_lookup ?req ''marketShare'')
                             (p @ ''.'' @ ''marketShare''))))"
    using present ms says_validateFieldType_Union [OF bad, of "p @ ''.marketShare''"]
    by (simp add: eval_def ms_type)
  have rest: "uniform g" if "g = validateItemStructure x y z" for g x y z
    using that uniform_validateItemStructure by simp
  show ?thesis
    unfolding validateItemStructure_def
    apply (simp only: typeof.simps companies_requirements option.case if_False simp_thms
        requirements.simps object_keys.simps forEach.simps)
    apply (rule says_seq1)
     apply (rule says_seq2 [OF name])
     apply (rule says_seq1 [OF share])
     apply (intro uniform_intros uniform_validateFieldType)
    apply (intro uniform_intros uniform_validateFieldType)
    done
qed

text \<open>
  Claim C8. Under the schema of the \<^verbatim>\<open>companies\<close> kind, take any element (an object) that
  has a \<^verbatim>\<open>marketShare\<close> field, whatever its other fields and the path it is checked
  under. Checking it never throws. It pushes a message about its \<^verbatim>\<open>marketShare\<close> field
  exactly when the field's value is neither a string nor a number: a string passes and a
  number passes. For a boolean the message pushed lists the accepted types,
  \<^verbatim>\<open>string, number\<close>.
\<close>

theorem marketShare_type_union:
  assumes ms: "map_of kvs ''marketShare'' = Some v"
    and run: "validateItemStructure (JObj kvs) ''companies'' p s = (r, s')"
  shows "r = None \<and>
         ((\<exists>m\<in>set (pushed s s'). prefix (p @ ''.marketShare '') m) \<longleftrightarrow>
            typeof v \<noteq> ''string'' \<and> typeof v \<noteq> ''number'') \<and>
         (\<forall>b. v = JBool b \<longrightarrow>
            (p @ ''.marketShare must be one of: string, number, got: boolean'')
              \<in> set (pushed s s'))"
proof (cases "typeof v = ''string'' \<or> typeof v = ''number''")
  case True
  then have a: "actual v \<in> set [''string'', ''number'']"
    by (cases v) (auto simp: actual_def)
  have "quiet (\<lambda>m. \<not> prefix (p @ ''.marketShare '') m)
          (validateItemStructure (JObj kvs) ''companies'' p)"
  proof (rule quiet_companies_item [OF ms])
    show "\<not> prefix (p @ ''.marketShare '') (p @ '' missing required field: '' @ f)" for f
      by simp
    show "\<not> prefix (p @ ''.marketShare '') m"
      if "f \<in> set companies_fields" "prefix (p @ ''.'' @ f @ '' must be '') m" for f m
    proof
      assume "prefix (p @ ''.marketShare '') m"
      with that(2) have "prefix (p @ ''.marketShare '') (p @ ''.'' @ f @ '' must be '') \<or>
          prefix (p @ ''.'' @ f @ '' must be '') (p @ ''.marketShare '')"
        by (rule prefix_same_cases [THEN disjE]) auto
      with that(1) show False
        by (auto simp: companies_fields_def object_prototype_members_def)
    qed
    show "quiet (\<lambda>m. \<not> prefix (p @ ''.marketShare '') m)
            (validateFieldType v (Union [''string'', ''number'']) (p @ ''.marketShare''))"
      using a by (rule quiet_validateFieldType_Union)
  qed
  then obtain es where es: "outcome (validateItemStructure (JObj kvs) ''companies'' p) None es"
    "list_all (\<lambda>m. \<not> prefix (p @ ''.marketShare '') m) es"
    unfolding quiet_def by blast
  from outcome_pushed [OF es(1) run] es(2) True show ?thesis
    by (auto simp: list_all_iff)
next
  case False
  then have a: "actual v \<notin> set [''string'', ''number'']"
    by (cases v) (auto simp: actual_def)
  have "quiet (\<lambda>m. True) (validateItemStructure (JObj kvs) ''companies'' p)"
    by (rule quiet_companies_item [OF ms]) (simp_all add: quiet_validateFieldType)
  then obtain es where es: "outcome (validateItemStructure (JObj kvs) ''companies'' p) None es"
    unfolding quiet_def by blast
  from says_companies_item [OF ms a, of p] obtain r' es' where
    es': "outcome (validateItemStructure (JObj kvs) ''companies'' p) r' es'"
    "(p @ ''.marketShare must be one of: string, number, got: '' @ actual v) \<in> set es'"
    unfolding says_def by blast
  from outcome_pushed [OF es run] outcome_pushed [OF es'(1) run] es'(2)
  have r: "r = None" and m: "(p @ ''.marketShare must be one of: string, number, got: '' @ actual v)
      \<in> set (pushed s s')" by auto
  have "prefix (p @ ''.marketShare '')
          (p @ ''.marketShare must be one of: string, number, got: '' @ actual v)"
    by simp
  with m have "\<exists>m\<in>set (pushed s s'). prefix (p @ ''.marketShare '') m" by blast
  moreover have "actual (JBool b) = ''boolean''" for b by (simp add: actual_def)
  ultimately show ?thesis using r m False by auto
qed

theorem marketShare_type_union_witness:
  "fst (validateItemStructure (JObj kvs_num) ''companies'' ''companies[0]'' new_validator) = None \<and>
   \<not> (\<exists>m\<in>set (pushed new_validator
              (snd (validateItemStructure (JObj kvs_num) ''companies'' ''companies[0]'' new_validator))).
        prefix ''companies[0].marketShare '' m) \<and>
   ''companies[0].marketShare must be one of: string, number, got: boolean''
     \<in> set (pushed new_validator
              (snd (validateItemStructure (JObj kvs_bool) ''companies'' ''companies[0]'' new_validator)))"
  using marketShare_type_union [OF _ prod.collapse [symmetric], of kvs_num "JNum 35"
      "''companies[0]''" new_validator]
    marketShare_type_union [OF _ prod.collapse [symmetric], of kvs_bool "JBool True"
      "''companies[0]''" new_validator]
  by (auto simp add: kvs_num_def kvs_bool_def)

lemma quiet_nullish: "quiet P f \<Longrightarrow> nullish f"
  unfolding quiet_def nullish_def by blast

lemma nullthrow_nullish: "nullthrow f \<Longrightarrow> nullish f"
  unfolding nullthrow_def nullish_def by blast

lemma nullthrow_seq1: "nullthrow f \<Longrightarrow> nullthrow (seq f g)"
  unfolding nullthrow_def using outcome_seq_Some by blast

lemma nullthrow_seq2: "nullish f \<Longrightarrow> nullthrow g \<Longrightarrow> nullthrow (seq f g)"
  unfolding nullthrow_def nullish_def
  using outcome_seq_Some outcome_seq_None by blast

lemma nullish_seq: "nullish f \<Longrightarrow> nullish g \<Longrightarrow> nullish (seq f g)"
  unfolding nullish_def
  using outcome_seq_Some outcome_seq_None by metis

lemma nullish_forEach: "(\<And>x. nullish (f x)) \<Longrightarrow> nullish (forEach f xs)"
  by (induction xs) (simp_all add: nullish_seq quiet_nullish [OF quiet_skip])

lemma registry_required:
  "map_of getRequiredFields ty = Some req \<Longrightarrow> \<exists>fld rest. required req = fld # rest"
  by (auto simp: getRequiredFields_def split: if_splits)

lemma nullthrow_item_null:
  assumes "map_of getRequiredFields ty = Some req"
  shows "nullthrow (validateItemStructure JNull ty p)"
proof -
  from registry_required [OF assms] obtain fld rest where r: "required req = fld # rest" by blast
  have "\<forall>s. validateItemStructure JNull ty p s = (Some (in_message fld ''null''), emit [] [] s)"
    using assms r by (simp add: validateItemStructure_def eval_def seq_def throw_def emit_Nil)
  then show ?thesis unfolding nullthrow_def outcome_def by blast
qed

lemma quiet_item_nonnull:
  assumes "x \<noteq> JNull"
  shows "quiet (\<lambda>m. True) (validateItemStructure x ty p)"
  using assms unfolding validateItemStructure_def
  by (cases x)
     (auto simp: eval_def split: option.splits
           intro!: quiet_addError quiet_seq quiet_forEach quiet_validateFieldType quiet_skip)

lemma nullish_item:
  assumes "map_of getRequiredFields ty = Some req"
  shows "nullish (validateItemStructure x ty p)"
proof (cases "x = JNull")
  case True
  then show ?thesis using nullthrow_item_null [OF assms] by (simp add: nullthrow_nullish)
next
  case False
  then show ?thesis by (rule quiet_item_nonnull [THEN quiet_nullish])
qed

lemma nullthrow_forEach_zip:
  assumes "map_of getRequiredFields ty = Some req"
  shows "JNull \<in> set xs \<Longrightarrow> length ns = length xs \<Longrightarrow>
     nullthrow (forEach (\<lambda>(index, item). validateItemStructure item ty (path index)) (zip ns xs))"
proof (induction xs arbitrary: ns)
  case Nil
  then show ?case by simp
next
  case (Cons x xs)
  then obtain n ns' where ns: "ns = n # ns'" "length ns' = length xs"
    by (cases ns) auto
  show ?case
  proof (cases "x = JNull")
    case True
    then show ?thesis using ns nullthrow_item_null [OF assms]
      by (simp add: nullthrow_seq1)
  next
    case False
    with Cons.prems have "JNull \<in> set xs" by simp
    from Cons.IH [OF this ns(2)] show ?thesis using ns nullish_item [OF assms]
      by (simp add: nullthrow_seq2)
  qed
qed

lemma nullthrow_validateArrayItems:
  assumes "map_of getRequiredFields ty = Some req" and "JNull \<in> set xs"
  shows "nullthrow (validateArrayItems (JArr xs) ty)"
  unfolding validateArrayItems_def
  using nullthrow_forEach_zip [OF assms, of "[0..<length xs]"] by simp

lemma nullish_validateArrayItems:
  assumes "map_of getRequiredFields ty = Some req"
  shows "nullish (validateArrayItems v ty)"
  unfolding validateArrayItems_def
  by (cases v)
     (auto intro!: nullish_forEach nullish_item [OF assms] quiet_nullish [OF quiet_addError])

lemma registry_has:
  "ty \<in> set [''heroStats'', ''historicalEvents'', ''yearlyStats'', ''socialMediaPlatforms'',
              ''companies'', ''policies'', ''infrastructure''] \<Longrightarrow>
   \<exists>req. map_of getRequiredFields ty = Some req"
  by (auto simp: getRequiredFields_def)

lemma get_prop_truthy: "truthy d \<Longrightarrow> \<exists>v. get_prop d k = Inr v"
  by (cases d) auto

lemma nullish_array_section:
  assumes "map_of getRequiredFields ty = Some req" and "truthy d"
  shows "nullish (array_section d key msg ty)"
proof -
  from get_prop_truthy [OF assms(2)] obtain v where "get_prop d key = Inr v" by blast
  then show ?thesis
    unfolding array_section_def
    by (auto simp: eval_def intro: nullish_validateArrayItems [OF assms(1)]
        quiet_nullish [OF quiet_addError])
qed

lemma nullish_array_only:
  assumes "truthy d"
  shows "nullish (array_only d key msg)"
proof -
  from get_prop_truthy [OF assms] obtain v where "get_prop d key = Inr v" by blast
  then show ?thesis
    unfolding array_only_def
    by (auto simp: eval_def intro: quiet_nullish [OF quiet_addError] quiet_nullish [OF quiet_skip])
qed

lemma nullthrow_array_section:
  assumes "map_of getRequiredFields ty = Some req"
    and "map_of kvs key = Some (JArr xs)" and "JNull \<in> set xs"
  shows "nullthrow (array_section (JObj kvs) key msg ty)"
  unfolding array_section_def
  using assms(2) nullthrow_validateArrayItems [OF assms(1,3)]
  by (simp add: eval_def)

lemma nullish_object_section:
  assumes "truthy d" and "\<And>v. truthy v \<Longrightarrow> nullish (f v)"
  shows "nullish (object_section d key msg f)"
proof -
  from get_prop_truthy [OF assms(1)] obtain v where "get_prop d key = Inr v" by blast
  then show ?thesis
    unfolding object_section_def
    by (auto simp: eval_def intro: assms(2) quiet_nullish [OF quiet_addError])
qed

lemma nullthrow_object_section:
  assumes "map_of kvs key = Some (JObj ekvs)" and "nullthrow (f (JObj ekvs))"
  shows "nullthrow (object_section (JObj kvs) key msg f)"
  unfolding object_section_def using assms by (simp add: eval_def)

lemmas registry_events = registry_has [of "''historicalEvents''", simplified]

lemmas registry_yearly = registry_has [of "''yearlyStats''", simplified]

lemmas registry_social = registry_has [of "''socialMediaPlatforms''", simplified]

lemmas registry_hero = registry_has [of "''heroStats''", simplified]

lemma nullish_eras:
  assumes "truthy v"
  shows "nullish (validateFoundationEra v)" "nullish (validateMobileEra v)"
    "nullish (validateFintechEra v)"
  unfolding validateFoundationEra_def validateMobileEra_def validateFintechEra_def
  using registry_events registry_yearly registry_social assms
  by (auto intro!: nullish_seq nullish_array_section nullish_array_only)

lemma field_at_1:
  "field_at d [k] = Some v \<Longrightarrow> \<exists>kvs. d = JObj kvs \<and> map_of kvs k = Some v"
  by (cases d) (auto split: option.splits)

lemma field_at_2:
  "field_at d [k1, k2] = Some v \<Longrightarrow>
     \<exists>kvs ekvs. d = JObj kvs \<and> map_of kvs k1 = Some (JObj ekvs) \<and> map_of ekvs k2 = Some v"
proof -
  assume a: "field_at d [k1, k2] = Some v"
  then obtain kvs where d: "d = JObj kvs" by (cases d) auto
  with a obtain e where e: "map_of kvs k1 = Some e" "field_at e [k2] = Some v"
    by (auto split: option.splits)
  from field_at_1 [OF e(2)] d e(1) show ?thesis by blast
qed

lemma nullthrow_wrapped:
  assumes nt: "nullthrow body" and d: "\<And>s. dispatch (JObj kvs) k s = returning body s"
    and run: "validateJSONData (JObj kvs) k s = (r, s')"
  shows "\<exists>fld. contents s' r =
           (False, [''Validation error: '' @ message (in_message fld ''null'')], None) \<and>
         errors r \<noteq> validationErrors s'"
proof -
  from nt obtain fld es ws where
    b: "\<And>s. body s = (Some (in_message fld ''null''), emit es ws s)"
    unfolding nullthrow_def outcome_def by blast
  from run have "contents s' r =
      (False, [''Validation error: '' @ message (in_message fld ''null'')], None) \<and>
      errors r \<noteq> validationErrors s'"
    by (auto simp: validateJSONData_def Let_def d returning_def b emit_def
        validationFailed_def contents_def)
  then show ?thesis by blast
qed

lemma nullthrow_foundation:
  assumes "map_of ekvs key = Some (JArr xs)" and "JNull \<in> set xs"
    and "key = ''events'' \<or> key = ''yearlyStats''"
  shows "nullthrow (validateFoundationEra (JObj ekvs))"
proof -
  from registry_events obtain r1 where r1: "map_of getRequiredFields ''historicalEvents'' = Some r1"
    by blast
  from registry_yearly obtain r2 where r2: "map_of getRequiredFields ''yearlyStats'' = Some r2"
    by blast
  have t: "truthy (JObj ekvs)" by simp
  from assms(3) show ?thesis
  proof
    assume "key = ''events''"
    with assms(1) have "map_of ekvs ''events'' = Some (JArr xs)" by simp
    from nullthrow_array_section [OF r1 this assms(2)] show ?thesis
      unfolding validateFoundationEra_def by (rule nullthrow_seq1)
  next
    assume "key = ''yearlyStats''"
    with assms(1) have "map_of ekvs ''yearlyStats'' = Some (JArr xs)" by simp
    from nullthrow_array_section [OF r2 this assms(2)] show ?thesis
      unfolding validateFoundationEra_def
      by (rule nullthrow_seq2 [OF nullish_array_section [OF r1 t]])
  qed
qed

lemma nullthrow_mobile:
  assumes "map_of ekvs key = Some (JArr xs)" and "JNull \<in> set xs"
    and "key = ''events'' \<or> key = ''socialMediaGrowth''"
  shows "nullthrow (validateMobileEra (JObj ekvs))"
proof -
  from registry_events obtain r1 where r1: "map_of getRequiredFields ''historicalEvents'' = Some r1"
    by blast
  from registry_social obtain r2 where
    r2: "map_of getRequiredFields ''socialMediaPlatforms'' = Some r2"
    by blast
  have t: "truthy (JObj ekvs)" by simp
  from assms(3) show ?thesis
  proof
    assume "key = ''events''"
    with assms(1) have "map_of ekvs ''events'' = Some (JArr xs)" by simp
    from nullthrow_array_section [OF r1 this assms(2)] show ?thesis
      unfolding validateMobileEra_def by (rule nullthrow_seq1)
  next
    assume "key = ''socialMediaGrowth''"
    with assms(1) have "map_of ekvs ''socialMediaGrowth'' = Some (JArr xs)" by simp
    from nullthrow_array_section [OF r2 this assms(2)] show ?thesis
      unfolding validateMobileEra_def
      by (rule nullthrow_seq2 [OF nullish_array_section [OF r1 t]])
  qed
qed

lemma nullthrow_fintech:
  assumes "map_of ekvs ''events'' = Some (JArr xs)" and "JNull \<in> set xs"
  shows "nullthrow (validateFintechEra (JObj ekvs))"
  unfolding validateFintechEra_def
  using assms registry_events
  by (auto intro: nullthrow_seq1 nullthrow_array_section)

lemma entity_arrays_cases:
  assumes "(k, path) \<in> set entity_arrays"
  shows "(k = ''historical_events'' \<and>
      path \<in> set [[''heroStats''], [''foundationEra'', ''events''],
           [''foundationEra'', ''yearlyStats''], [''mobileEra'', ''events''],
           [''mobileEra'', ''socialMediaGrowth''], [''fintechEra'', ''events'']]) \<or>
    (k = ''companies'' \<and> path = [''companies'']) \<or>
    (k = ''social_media'' \<and> path = [''platforms'']) \<or>
    (k = ''policies'' \<and> path = [''policies'']) \<or>
    (k = ''infrastructure'' \<and> path = [''infrastructure''])"
proof -
  from assms have
    "k = ''historical_events'' \<and> path = [''heroStats''] \<or>
     k = ''historical_events'' \<and> path = [''foundationEra'', ''events''] \<or>
     k = ''historical_events'' \<and> path = [''foundationEra'', ''yearlyStats''] \<or>
     k = ''historical_events'' \<and> path = [''mobileEra'', ''events''] \<or>
     k = ''historical_events'' \<and> path = [''mobileEra'', ''socialMediaGrowth''] \<or>
     k = ''historical_events'' \<and> path = [''fintechEra'', ''events''] \<or>
     k = ''companies'' \<and> path = [''companies''] \<or>
     k = ''social_media'' \<and> path = [''platforms''] \<or>
     k = ''policies'' \<and> path = [''policies''] \<or>
     k = ''infrastructure'' \<and> path = [''infrastructure'']"
    by (simp add: entity_arrays_def)
  then show ?thesis
    by (elim disjE conjE) simp_all
qed

lemma nullthrow_historical:
  assumes "field_at (JObj kvs) path = Some (JArr xs)" and "JNull \<in> set xs"
    and "path \<in> set [[''heroStats''], [''foundationEra'', ''events''],
           [''foundationEra'', ''yearlyStats''], [''mobileEra'', ''events''],
           [''mobileEra'', ''socialMediaGrowth''], [''fintechEra'', ''events'']]"
  shows "nullthrow
       (seq (array_section (JObj kvs) ''heroStats'' ''heroStats must be an array'' ''heroStats'')
       (seq (object_section (JObj kvs) ''foundationEra'' ''foundationEra must be an object''
               validateFoundationEra)
       (seq (object_section (JObj kvs) ''mobileEra'' ''mobileEra must be an object''
               validateMobileEra)
            (object_section (JObj kvs) ''fintechEra'' ''fintechEra must be an object''
               validateFintechEra))))"
proof -
  have t: "truthy (JObj kvs)" by simp
  from registry_hero obtain hreq where hreq: "map_of getRequiredFields ''heroStats'' = Some hreq"
    by blast
  note n1 = nullish_array_section [OF hreq t]
  note n2 = nullish_object_section [OF t nullish_eras(1)]
  note n3 = nullish_object_section [OF t nullish_eras(2)]
  have found: ?thesis
    if e: "map_of kvs ''foundationEra'' = Some (JObj ekvs)" "map_of ekvs key = Some (JArr xs)"
      and k: "key = ''events'' \<or> key = ''yearlyStats''" for ekvs key
  proof -
    from nullthrow_foundation [OF e(2) assms(2) k] e(1)
    have "nullthrow (object_section (JObj kvs) ''foundationEra''
            ''foundationEra must be an object'' validateFoundationEra)"
      by (rule nullthrow_object_section [rotated])
    then show ?thesis
      by (intro nullthrow_seq2 [OF n1] nullthrow_seq1)
  qed
  have mob: ?thesis
    if e: "map_of kvs ''mobileEra'' = Some (JObj ekvs)" "map_of ekvs key = Some (JArr xs)"
      and k: "key = ''events'' \<or> key = ''socialMediaGrowth''" for ekvs key
  proof -
    from nullthrow_mobile [OF e(2) assms(2) k] e(1)
    have "nullthrow (object_section (JObj kvs) ''mobileEra''
            ''mobileEra must be an object'' validateMobileEra)"
      by (rule nullthrow_object_section [rotated])
    then show ?thesis
      by (intro nullthrow_seq2 [OF n1] nullthrow_seq2 [OF n2] nullthrow_seq1)
  qed
  have fin: ?thesis
    if e: "map_of kvs ''fintechEra'' = Some (JObj ekvs)" "map_of ekvs ''events'' = Some (JArr xs)"
    for ekvs
  proof -
    from nullthrow_fintech [OF e(2) assms(2)] e(1)
    have "nullthrow (object_section (JObj kvs) ''fintechEra''
            ''fintechEra must be an object'' validateFintechEra)"
      by (rule nullthrow_object_section [rotated])
    then show ?thesis
      by (intro nullthrow_seq2 [OF n1] nullthrow_seq2 [OF n2] nullthrow_seq2 [OF n3])
  qed
  from assms(3) have "path = [''heroStats''] \<or> path = [''foundationEra'', ''events''] \<or>
      path = [''foundationEra'', ''yearlyStats''] \<or> path = [''mobileEra'', ''events''] \<or>
      path = [''mobileEra'', ''socialMediaGrowth''] \<or> path = [''fintechEra'', ''events'']"
    by simp
  then show ?thesis
  proof (elim disjE)
    assume p: "path = [''heroStats'']"
    from field_at_1 [OF assms(1) [unfolded p]]
    have "map_of kvs ''heroStats'' = Some (JArr xs)" by simp
    from nullthrow_array_section [OF hreq this assms(2)] show ?thesis
      by (rule nullthrow_seq1)
  next
    assume p: "path = [''foundationEra'', ''events'']"
    from field_at_2 [OF assms(1) [unfolded p]] show ?thesis using found by auto
  next
    assume p: "path = [''foundationEra'', ''yearlyStats'']"
    from field_at_2 [OF assms(1) [unfolded p]] show ?thesis using found by auto
  next
    assume p: "path = [''mobileEra'', ''events'']"
    from field_at_2 [OF assms(1) [unfolded p]] show ?thesis using mob by auto
  next
    assume p: "path = [''mobileEra'', ''socialMediaGrowth'']"
    from field_at_2 [OF assms(1) [unfolded p]] show ?thesis using mob by auto
  next
    assume p: "path = [''fintechEra'', ''events'']"
    from field_at_2 [OF assms(1) [unfolded p]] show ?thesis using fin by auto
  qed
qed

lemma field_at_obj:
  "field_at d path = Some v \<Longrightarrow> path \<noteq> [] \<Longrightarrow> \<exists>kvs. d = JObj kvs"
  by (cases d; cases path) auto

lemma dispatch_kinds:
  "dispatch d ''historical_events'' s = validateHistoricalEvents d s"
  "dispatch d ''companies'' s = validateCompanies d s"
  "dispatch d ''social_media'' s = validateSocialMedia d s"
  "dispatch d ''policies'' s = validatePolicies d s"
  "dispatch d ''infrastructure'' s = validateInfrastructure d s"
  by (simp_all add: dispatch_def)

lemma wrapped_single:
  assumes req: "map_of getRequiredFields ty = Some req"
    and arr: "field_at d [key] = Some (JArr items)" and null: "JNull \<in> set items"
    and disp: "\<And>d s. dispatch d k s = returning (array_section d key msg ty) s"
    and run: "validateJSONData d k s = (r, s')"
  shows "\<exists>fld. contents s' r =
           (False, [''Validation error: '' @ message (in_message fld ''null'')], None) \<and>
         errors r \<noteq> validationErrors s'"
proof -
  from field_at_1 [OF arr] obtain kvs where d: "d = JObj kvs"
    "map_of kvs key = Some (JArr items)" by blast
  from nullthrow_array_section [OF req d(2) null] show ?thesis
    by (rule nullthrow_wrapped [OF _ disp run [unfolded d(1)]])
qed

lemma wrapped_historical:
  assumes arr: "field_at d path = Some (JArr items)" and null: "JNull \<in> set items"
    and path: "path \<in> set [[''heroStats''], [''foundationEra'', ''events''],
           [''foundationEra'', ''yearlyStats''], [''mobileEra'', ''events''],
           [''mobileEra'', ''socialMediaGrowth''], [''fintechEra'', ''events'']]"
    and run: "validateJSONData d ''historical_events'' s = (r, s')"
  shows "\<exists>fld. contents s' r =
           (False, [''Validation error: '' @ message (in_message fld ''null'')], None) \<and>
         errors r \<noteq> validationErrors s'"
proof -
  from path have "path \<noteq> []" by auto
  from field_at_obj [OF arr this] obtain kvs where d: "d = JObj kvs" by blast
  from nullthrow_historical [OF arr [unfolded d] null path] show ?thesis
    by (rule nullthrow_wrapped [OF _ _ run [unfolded d]])
       (simp add: dispatch_kinds validateHistoricalEvents_def)
qed

text \<open>
  Claim C10. \<open>entity_arrays\<close> lists, for each kind, where the validator checks an array
  of entities. When a document has an array with a \<^verbatim>\<open>null\<close> element at one of these
  places, \<open>validateJSONData\<close> returns the wrapped result: \<^verbatim>\<open>success\<close> false, one
  message \<^verbatim>\<open>Validation error: ...\<close> carrying the \<^verbatim>\<open>TypeError\<close> the \<^verbatim>\<open>in\<close> operator
  threw on \<^verbatim>\<open>null\<close>, and \<^verbatim>\<open>data\<close> null. The array of the result is not the
  accumulator, so what was accumulated for earlier elements is not in the result (the
  witness shows three such messages left in the accumulator).
\<close>

theorem null_element_wrapped:
  assumes kind: "(k, path) \<in> set entity_arrays"
    and arr: "field_at d path = Some (JArr items)" and null: "JNull \<in> set items"
    and run: "validateJSONData d k s = (r, s')"
  shows "\<exists>fld. contents s' r =
           (False, [''Validation error: '' @ message (in_message fld ''null'')], None) \<and>
         errors r \<noteq> validationErrors s'"
  using entity_arrays_cases [OF kind]
proof (elim disjE conjE)
  assume "k = ''historical_events''"
    "path \<in> set [[''heroStats''], [''foundationEra'', ''events''],
           [''foundationEra'', ''yearlyStats''], [''mobileEra'', ''events''],
           [''mobileEra'', ''socialMediaGrowth''], [''fintechEra'', ''events'']]"
  with arr null run show ?thesis using wrapped_historical by blast
next
  assume k: "k = ''companies''" "path = [''companies'']"
  from registry_has [of "''companies''"] obtain req where
    req: "map_of getRequiredFields ''companies'' = Some req" by auto
  show ?thesis
    by (rule wrapped_single [OF req arr [unfolded k] null _ run [unfolded k]])
       (simp add: dispatch_kinds validateCompanies_def)
next
  assume k: "k = ''social_media''" "path = [''platforms'']"
  from registry_social obtain req where
    req: "map_of getRequiredFields ''socialMediaPlatforms'' = Some req" by auto
  show ?thesis
    by (rule wrapped_single [OF req arr [unfolded k] null _ run [unfolded k]])
       (simp add: dispatch_kinds validateSocialMedia_def)
next
  assume k: "k = ''policies''" "path = [''policies'']"
  from registry_has [of "''policies''"] obtain req where
    req: "map_of getRequiredFields ''policies'' = Some req" by auto
  show ?thesis
    by (rule wrapped_single [OF req arr [unfolded k] null _ run [unfolded k]])
       (simp add: dispatch_kinds validatePolicies_def)
next
  assume k: "k = ''infrastructure''" "path = [''infrastructure'']"
  from registry_has [of "''infrastructure''"] obtain req where
    req: "map_of getRequiredFields ''infrastructure'' = Some req" by auto
  show ?thesis
    by (rule wrapped_single [OF req arr [unfolded k] null _ run [unfolded k]])
       (simp add: dispatch_kinds validateInfrastructure_def)
qed

lemma doc_null_result:
  "contents (snd (validateJSONData doc_null ''companies'' new_validator))
            (fst (validateJSONData doc_null ''companies'' new_validator)) =
     (False,
      [''Validation error: '' @ message (in_message ''name'' ''null'')],
      None) \<and>
   heap (snd (validateJSONData doc_null ''companies'' new_validator))
        (validationErrors (snd (validateJSONData doc_null ''companies'' new_validator))) =
     [''companies[0] missing required field: name'',
      ''companies[0] missing required field: marketShare'',
      ''companies[0] missing required field: subscribers'']"
  by code_simp

theorem null_element_wrapped_witness:
  "(\<exists>fld. contents (snd (validateJSONData doc_null ''companies'' new_validator))
            (fst (validateJSONData doc_null ''companies'' new_validator)) =
     (False, [''Validation error: '' @ message (in_message fld ''null'')], None)) \<and>
   errors (fst (validateJSONData doc_null ''companies'' new_validator)) \<noteq>
     validationErrors (snd (validateJSONData doc_null ''companies'' new_validator)) \<and>
   heap (snd (validateJSONData doc_null ''companies'' new_validator))
        (validationErrors (snd (validateJSONData doc_null ''companies'' new_validator))) =
     [''companies[0] missing required field: name'',
      ''companies[0] missing required field: marketShare'',
      ''companies[0] missing required field: subscribers'']"
  using null_element_wrapped [OF _ _ _ prod.collapse [symmetric],
      of "''companies''" "[''companies'']" doc_null "[JObj [], JNull]" new_validator]
    doc_null_result
  by (simp add: entity_arrays_def doc_null_def)


section \<open>Properties of the renderer\<close>

lemma handleRenderError_console:
  "handleRenderError n t e p = (r, p') \<Longrightarrow> console p' = console p"
  by (auto simp: handleRenderError_def Let_def split: target.splits selected.splits)

lemma caught_log:
  "caught n t e p = (Inr b, p') \<Longrightarrow> b = False \<and> console p' = console p @ [RenderError n e]"
  by (auto simp: caught_def console_log_def split: prod.splits option.splits
      dest!: handleRenderError_console)

lemma renderTemplate_log:
  assumes "renderTemplate r n d t p = (Inr b, p')"
  shows "\<exists>l. console p' = console p @ [l] \<and> is_rendered l = b"
  using assms
  by (auto simp: renderTemplate_def console_log_def
      split: option.splits if_splits sum.splits target.splits selected.splits
      dest!: caught_log)

lemma render_event_log:
  assumes "render_event r ev sel p = (Inr bs, p')"
  shows "\<exists>new. console p' = console p @ new \<and> map is_rendered new = bs"
proof (cases "truthy ev")
  case True
  with assms obtain b where b: "renderTemplate r ''historicalEvents'' (JObj [(''events'', JArr [ev])])
      (Selector sel) p = (Inr b, p')" "bs = [b]"
    by (auto simp: render_event_def bindR_def pure_def split: prod.splits sum.splits)
  from renderTemplate_log [OF b(1)] obtain l where "console p' = console p @ [l]" "is_rendered l = b"
    by blast
  with b(2) have "console p' = console p @ [l] \<and> map is_rendered [l] = bs" by simp
  then show ?thesis by blast
next
  case False
  with assms have "p' = p" "bs = []" by (auto simp: render_event_def pure_def)
  then show ?thesis by simp
qed

lemma bindR_Inr:
  "bindR m f p = (Inr y, p') \<Longrightarrow> \<exists>x p1. m p = (Inr x, p1) \<and> f x p1 = (Inr y, p')"
  by (auto simp: bindR_def split: prod.splits sum.splits)

lemma lift_Inr: "lift m p = (Inr x, p') \<Longrightarrow> m = Inr x \<and> p' = p"
  by (auto simp: lift_def)

lemma pure_Inr: "pure x p = (Inr y, p') \<Longrightarrow> y = x \<and> p' = p"
  by (auto simp: pure_def)

lemma every_true_logs:
  "map is_rendered new = bs \<Longrightarrow> every_true bs = JBool (list_all is_rendered new)"
  by (auto simp: every_true_def list_all_iff)

lemma renderFoundationEra_and:
  assumes "renderFoundationEra r d p = (Inr v, p')"
  shows "\<exists>new. console p' = console p @ new \<and> v = JBool (list_all is_rendered new)"
proof -
  from assms [unfolded renderFoundationEra_def]
  obtain events s1 b2 yearlyStats b3 b4 p1 p2 p3 where
    s1: "(if truthy events
            then bindR (lift (get_prop events ''length'')) (\<lambda>len.
                   if greater_than_zero len
                   then bindR (lift (array_find events (title_includes [''ptcl privatization''])))
                          (\<lambda>ptclEvent. render_event r ptclEvent ''#ptclPrivatization'')
                   else pure [])
            else pure []) p = (Inr s1, p1)"
    and b2: "renderTemplate r ''historicalEvents'' (JObj [(''events'', events)])
              (Selector ''#foundationMilestones'') p1 = (Inr b2, p2)"
    and b3: "renderTemplate r ''statistics'' (JObj [(''yearlyStats'', yearlyStats)])
              (Selector ''#foundationStats'') p2 = (Inr b3, p3)"
    and b4: "renderTemplate r ''historicalEvents'' (JObj [(''events'', events)])
              (Selector ''#foundationTimeline'') p3 = (Inr b4, p')"
    and v: "v = every_true (s1 @ [b2, b3, b4])"
    by (auto dest!: bindR_Inr lift_Inr pure_Inr)
  have "\<exists>new. console p1 = console p @ new \<and> map is_rendered new = s1"
    using s1
    by (auto dest!: bindR_Inr lift_Inr pure_Inr render_event_log split: if_splits)
  then obtain n1 where n1: "console p1 = console p @ n1" "map is_rendered n1 = s1" by blast
  from renderTemplate_log [OF b2] renderTemplate_log [OF b3] renderTemplate_log [OF b4]
  obtain l2 l3 l4 where l: "console p2 = console p1 @ [l2]" "is_rendered l2 = b2"
    "console p3 = console p2 @ [l3]" "is_rendered l3 = b3"
    "console p' = console p3 @ [l4]" "is_rendered l4 = b4" by blast
  have "console p' = console p @ (n1 @ [l2, l3, l4])" using n1 l by simp
  moreover have "map is_rendered (n1 @ [l2, l3, l4]) = s1 @ [b2, b3, b4]" using n1 l by simp
  ultimately show ?thesis using every_true_logs v by blast
qed

lemma renderMobileEra_and:
  assumes "renderMobileEra r d p = (Inr v, p')"
  shows "\<exists>new. console p' = console p @ new \<and> v = JBool (list_all is_rendered new)"
proof -
  from assms [unfolded renderMobileEra_def]
  obtain launch s1 platforms b2 policyEvent s3 p1 p2 where
    s1: "render_event r launch ''#mobile3G4G'' p = (Inr s1, p1)"
    and b2: "renderTemplate r ''socialMedia'' (JObj [(''platforms'', platforms)])
              (Selector ''#socialMediaGrowth'') p1 = (Inr b2, p2)"
    and s3: "render_event r policyEvent ''#digitalPakistanPolicy'' p2 = (Inr s3, p')"
    and v: "v = every_true (s1 @ [b2] @ s3)"
    by (auto dest!: bindR_Inr lift_Inr pure_Inr)
  from render_event_log [OF s1] obtain n1 where
    n1: "console p1 = console p @ n1" "map is_rendered n1 = s1" by blast
  from renderTemplate_log [OF b2] obtain l2 where
    l2: "console p2 = console p1 @ [l2]" "is_rendered l2 = b2" by blast
  from render_event_log [OF s3] obtain n3 where
    n3: "console p' = console p2 @ n3" "map is_rendered n3 = s3" by blast
  have "console p' = console p @ (n1 @ [l2] @ n3)" using n1 l2 n3 by simp
  moreover have "map is_rendered (n1 @ [l2] @ n3) = s1 @ [b2] @ s3" using n1 l2 n3 by simp
  ultimately show ?thesis using every_true_logs v by blast
qed

lemma renderFintechEra_and:
  assumes "renderFintechEra r d p = (Inr v, p')"
  shows "\<exists>new. console p' = console p @ new \<and> v = JBool (list_all is_rendered new)"
proof -
  from assms [unfolded renderFintechEra_def]
  obtain raastEvent s1 services b2 companies b3 p1 p2 where
    s1: "render_event r raastEvent ''#raastRevolution'' p = (Inr s1, p1)"
    and b2: "renderTemplate r ''companies'' (JObj [(''companies'', services)])
              (Selector ''#mobileBanking'') p1 = (Inr b2, p2)"
    and b3: "renderTemplate r ''companies'' (JObj [(''companies'', companies)])
              (Selector ''#investmentBoom'') p2 = (Inr b3, p')"
    and v: "v = every_true (s1 @ [b2, b3])"
    by (auto dest!: bindR_Inr lift_Inr pure_Inr)
  from render_event_log [OF s1] obtain n1 where
    n1: "console p1 = console p @ n1" "map is_rendered n1 = s1" by blast
  from renderTemplate_log [OF b2] renderTemplate_log [OF b3] obtain l2 l3 where
    l: "console p2 = console p1 @ [l2]" "is_rendered l2 = b2"
       "console p' = console p2 @ [l3]" "is_rendered l3 = b3" by blast
  have "console p' = console p @ (n1 @ [l2, l3])" using n1 l by simp
  moreover have "map is_rendered (n1 @ [l2, l3]) = s1 @ [b2, b3]" using n1 l by simp
  ultimately show ?thesis using every_true_logs v by blast
qed

lemma renderSidebarContent_undefined:
  assumes "renderSidebarContent r d p = (Inr v, p')"
  shows "v = JUndefined"
  using assms unfolding renderSidebarContent_def
  by (auto dest!: bindR_Inr pure_Inr)

text \<open>
  Claim C2, as amended. Each call of \<open>renderTemplate\<close> that returns prints one line, which
  says that it rendered exactly when the call returns \<^verbatim>\<open>true\<close>. Whenever
  \<open>renderFoundationEra\<close>, \<open>renderMobileEra\<close> or \<open>renderFintechEra\<close> returns, it returns
  the boolean that is true exactly when every \<open>renderTemplate\<close> call it issued returned
  \<^verbatim>\<open>true\<close>. \<open>renderSidebarContent\<close>, when it returns, returns \<^verbatim>\<open>undefined\<close>.
\<close>

theorem era_render_and:
  "(op = renderFoundationEra \<or> op = renderMobileEra \<or> op = renderFintechEra \<longrightarrow>
      op r d p = (Inr v, p') \<longrightarrow>
      (\<exists>new. console p' = console p @ new \<and> v = JBool (list_all is_rendered new))) \<and>
   (renderTemplate r n x t p = (Inr b, p') \<longrightarrow>
      (\<exists>l. console p' = console p @ [l] \<and> is_rendered l = b)) \<and>
   (renderSidebarContent r d p = (Inr v, p') \<longrightarrow> v = JUndefined)"
proof (intro conjI impI)
  assume "op = renderFoundationEra \<or> op = renderMobileEra \<or> op = renderFintechEra"
    and "op r d p = (Inr v, p')"
  then show "\<exists>new. console p' = console p @ new \<and> v = JBool (list_all is_rendered new)"
    using renderFoundationEra_and [of r d p v p'] renderMobileEra_and [of r d p v p']
      renderFintechEra_and [of r d p v p']
    by (elim disjE) simp_all
next
  assume "renderTemplate r n x t p = (Inr b, p')"
  then show "\<exists>l. console p' = console p @ [l] \<and> is_rendered l = b"
    by (rule renderTemplate_log)
next
  assume "renderSidebarContent r d p = (Inr v, p')"
  then show "v = JUndefined" by (rule renderSidebarContent_undefined)
qed

lemma foundation1_value:
  "fst (renderFoundationEra renderer5 foundation1 page1) = Inr (JBool False)"
  by code_simp

lemma foundation1_console:
  "console (snd (renderFoundationEra renderer5 foundation1 page1)) =
     [Rendered ''historicalEvents'' (Selector ''#ptclPrivatization''),
      Rendered ''historicalEvents'' (Selector ''#foundationMilestones''),
      TargetNotFound (Selector ''#foundationStats''),
      Rendered ''historicalEvents'' (Selector ''#foundationTimeline'')]"
  by code_simp

theorem era_render_and_witness:
  "fst (renderFoundationEra renderer5 foundation1 page1) = Inr (JBool False) \<and>
   console (snd (renderFoundationEra renderer5 foundation1 page1)) =
     [Rendered ''historicalEvents'' (Selector ''#ptclPrivatization''),
      Rendered ''historicalEvents'' (Selector ''#foundationMilestones''),
      TargetNotFound (Selector ''#foundationStats''),
      Rendered ''historicalEvents'' (Selector ''#foundationTimeline'')] \<and>
   (\<exists>new. console (snd (renderFoundationEra renderer5 foundation1 page1)) = console page1 @ new \<and>
          JBool False = JBool (list_all is_rendered new))"
proof -
  have run: "renderFoundationEra renderer5 foundation1 page1 =
      (Inr (JBool False), snd (renderFoundationEra renderer5 foundation1 page1))"
    using foundation1_value by (metis prod.collapse)
  from era_render_and [of renderFoundationEra renderer5 foundation1 page1 "JBool False"
      "snd (renderFoundationEra renderer5 foundation1 page1)"] run
  have "\<exists>new. console (snd (renderFoundationEra renderer5 foundation1 page1)) = console page1 @ new \<and>
          JBool False = JBool (list_all is_rendered new)"
    by simp
  with foundation1_value foundation1_console show ?thesis by simp
qed

text \<open>
  Claim C2 as stated fails for \<open>renderSidebarContent\<close>: with its one call rendered it
  returns \<^verbatim>\<open>undefined\<close>, not \<^verbatim>\<open>true\<close>, and with its one call failed it returns
  \<^verbatim>\<open>undefined\<close>, not \<^verbatim>\<open>false\<close>.
\<close>

theorem sidebar_returns_undefined:
  "fst (renderSidebarContent renderer7 sidebar1 page1) = Inr JUndefined \<and>
   console (snd (renderSidebarContent renderer7 sidebar1 page1)) =
     [Rendered ''infrastructure'' (Selector ''#fiveGFuture'')] \<and>
   fst (renderSidebarContent renderer7 sidebar1 page1) \<noteq> Inr (JBool True) \<and>
   fst (renderSidebarContent renderer5 sidebar1 page1) = Inr JUndefined \<and>
   console (snd (renderSidebarContent renderer5 sidebar1 page1)) =
     [TemplateNotFound ''infrastructure''] \<and>
   fst (renderSidebarContent renderer5 sidebar1 page1) \<noteq> Inr (JBool False)"
  by code_simp

lemma sublist_placeholder:
  "str_includes (placeholder n m) n \<and> str_includes (placeholder n m) m"
proof -
  have "placeholder n m =
      (newline @ spaces 16 @ ''<div class='' @ dq @ ''render-error'' @ dq @ ''>'' @
       newline @ spaces 20 @ ''<h4>'' @ warning_sign @ '' Content Loading Error</h4>'' @
       newline @ spaces 20 @ ''<p>Unable to load '') @ n @
      ('' content.</p>'' @ newline @ spaces 20 @ ''<small>Error: '' @ m @ ''</small>'' @
       newline @ spaces 16 @ ''</div>'' @ newline @ spaces 12)"
    by (simp add: placeholder_def)
  then have n: "sublist n (placeholder n m)" unfolding sublist_def by blast
  have "placeholder n m =
      (newline @ spaces 16 @ ''<div class='' @ dq @ ''render-error'' @ dq @ ''>'' @
       newline @ spaces 20 @ ''<h4>'' @ warning_sign @ '' Content Loading Error</h4>'' @
       newline @ spaces 20 @ ''<p>Unable to load '' @ n @
       '' content.</p>'' @ newline @ spaces 20 @ ''<small>Error: '') @ m @
      (''</small>'' @ newline @ spaces 16 @ ''</div>'' @ newline @ spaces 12)"
    by (simp add: placeholder_def)
  then have "sublist m (placeholder n m)" unfolding sublist_def by blast
  with n show ?thesis by (simp add: str_includes_def)
qed

lemma template_named_None:
  "template_named r n = None \<longleftrightarrow>
     compiledTemplates r n = None \<and> n \<notin> set (map fst object_prototype_members)"
  by (simp add: template_named_def split: option.splits)

text \<open>
  Claim C1, as amended. \<open>renderTemplate\<close> returns \<^verbatim>\<open>false\<close>, throws nothing and leaves the
  content of the page as it was (it only prints a line) when
  \<^verbatim>\<open>this.compiledTemplates[templateName]\<close> gives nothing, which is when the named template
  was never compiled and the name is not that of an inherited member; when the data is
  absent; and when the target is \<^verbatim>\<open>null\<close> or a selector that matches no element. When the
  lookup gives a template, the data is present and the target is a selector that matches
  an element, and rendering throws, it returns \<^verbatim>\<open>false\<close> and overwrites the content of
  that element with the placeholder, which names the template and carries the message of
  the error. In no other call is a placeholder written: a call changes the content of
  the page only in that case, and when it renders, where it returns \<^verbatim>\<open>true\<close> and the
  target holds what the template made of the data.
\<close>

theorem renderTemplate_fails_closed:
  "(template_named r n = None \<longleftrightarrow>
      compiledTemplates r n = None \<and> n \<notin> set (map fst object_prototype_members)) \<and>
   (template_named r n = None \<longrightarrow>
      renderTemplate r n d t p = (Inr False, console_log (TemplateNotFound n) p)) \<and>
   (template_named r n \<noteq> None \<and> \<not> truthy d \<longrightarrow>
      renderTemplate r n d t p = (Inr False, console_log (NoData n) p)) \<and>
   (template_named r n \<noteq> None \<and> truthy d \<and>
      (t = NullTarget \<or> (\<exists>s. t = Selector s \<and> querySelector p s = Missing)) \<longrightarrow>
      renderTemplate r n d t p = (Inr False, console_log (TargetNotFound t) p)) \<and>
   (template_named r n = Some template \<and> truthy d \<and> t = Selector s \<and>
      querySelector p s = Element el \<and> template d = Inl err \<longrightarrow>
      renderTemplate r n d t p =
        (Inr False,
         (console_log (RenderError n err) p)
           \<lparr>innerHTML := (innerHTML p)(el := placeholder n (message err))\<rparr>) \<and>
      str_includes (placeholder n (message err)) n \<and>
      str_includes (placeholder n (message err)) (message err)) \<and>
   (innerHTML (snd (renderTemplate r n d t p)) \<noteq> innerHTML p \<longrightarrow>
      (\<exists>tpl target.
         template_named r n = Some tpl \<and> truthy d \<and>
         ((\<exists>html. tpl d = Inr html \<and>
             (t = ElementRef target \<or> (\<exists>s. t = Selector s \<and> querySelector p s = Element target)) \<and>
             renderTemplate r n d t p =
               (Inr True,
                console_log (Rendered n t) (p\<lparr>innerHTML := (innerHTML p)(target := html)\<rparr>))) \<or>
          (\<exists>s e. tpl d = Inl e \<and> t = Selector s \<and> querySelector p s = Element target \<and>
             renderTemplate r n d t p =
               (Inr False,
                (console_log (RenderError n e) p)
                  \<lparr>innerHTML := (innerHTML p)(target := placeholder n (message e))\<rparr>)))))"
proof (intro conjI impI)
  show "template_named r n = None \<longleftrightarrow>
      compiledTemplates r n = None \<and> n \<notin> set (map fst object_prototype_members)"
    by (rule template_named_None)
next
  assume "template_named r n = None"
  then show "renderTemplate r n d t p = (Inr False, console_log (TemplateNotFound n) p)"
    by (simp add: renderTemplate_def)
next
  assume "template_named r n \<noteq> None \<and> \<not> truthy d"
  then show "renderTemplate r n d t p = (Inr False, console_log (NoData n) p)"
    by (auto simp: renderTemplate_def)
next
  assume "template_named r n \<noteq> None \<and> truthy d \<and>
      (t = NullTarget \<or> (\<exists>s. t = Selector s \<and> querySelector p s = Missing))"
  then show "renderTemplate r n d t p = (Inr False, console_log (TargetNotFound t) p)"
    by (auto simp: renderTemplate_def)
next
  assume a: "template_named r n = Some template \<and> truthy d \<and> t = Selector s \<and>
      querySelector p s = Element el \<and> template d = Inl err"
  then show "renderTemplate r n d t p =
        (Inr False,
         (console_log (RenderError n err) p)
           \<lparr>innerHTML := (innerHTML p)(el := placeholder n (message err))\<rparr>)"
    by (simp add: renderTemplate_def caught_def handleRenderError_def console_log_def)
  from sublist_placeholder [of n "message err"]
  show "str_includes (placeholder n (message err)) n"
    and "str_includes (placeholder n (message err)) (message err)" by simp_all
next
  assume changed: "innerHTML (snd (renderTemplate r n d t p)) \<noteq> innerHTML p"
  show "\<exists>tpl target.
         template_named r n = Some tpl \<and> truthy d \<and>
         ((\<exists>html. tpl d = Inr html \<and>
             (t = ElementRef target \<or> (\<exists>s. t = Selector s \<and> querySelector p s = Element target)) \<and>
             renderTemplate r n d t p =
               (Inr True,
                console_log (Rendered n t) (p\<lparr>innerHTML := (innerHTML p)(target := html)\<rparr>))) \<or>
          (\<exists>s e. tpl d = Inl e \<and> t = Selector s \<and> querySelector p s = Element target \<and>
             renderTemplate r n d t p =
               (Inr False,
                (console_log (RenderError n e) p)
                  \<lparr>innerHTML := (innerHTML p)(target := placeholder n (message e))\<rparr>)))"
    using changed
    by (auto simp: renderTemplate_def caught_def handleRenderError_def console_log_def
        split: option.splits if_splits target.splits selected.splits sum.splits)
qed

text \<open>
  Claim C1 as stated fails: a call that names a template never compiled, or passes no
  data, fails and leaves the content of a target that can be resolved as it was
  (\<^verbatim>\<open>Loading...\<close>): no placeholder is written there.
\<close>

theorem missing_template_no_placeholder:
  "compiledTemplates renderer5 ''policies'' = None \<and>
   querySelector page1 ''#heroStats'' = Element 0 \<and>
   fst (renderTemplate renderer5 ''policies'' (JObj []) (Selector ''#heroStats'') page1) = Inr False \<and>
   innerHTML (snd (renderTemplate renderer5 ''policies'' (JObj []) (Selector ''#heroStats'') page1)) 0 =
     ''Loading...'' \<and>
   \<not> str_includes
       (innerHTML (snd (renderTemplate renderer5 ''policies'' (JObj []) (Selector ''#heroStats'') page1)) 0)
       ''policies'' \<and>
   fst (renderTemplate renderer5 ''heroStats'' JNull (Selector ''#heroStats'') page1) = Inr False \<and>
   innerHTML (snd (renderTemplate renderer5 ''heroStats'' JNull (Selector ''#heroStats'') page1)) 0 =
     ''Loading...''"
  by code_simp

lemma examples_facts:
  "template_named renderer5 ''policies'' = None"
  "template_named renderer5 ''heroStats'' \<noteq> None"
  "querySelector page1 ''#nothing'' = Missing"
  "querySelector page1 ''#heroStats'' = Element 0"
  "template_named failing_renderer ''heroStats'' = Some (\<lambda>d. Inl (Error ''Missing helper: badge''))"
  by (code_simp, code_simp, code_simp, code_simp,
      simp add: template_named_def failing_renderer_def)

lemma heroStats_changed:
  "innerHTML (snd (renderTemplate renderer5 ''heroStats'' (JObj []) (Selector ''#heroStats'') page1)) \<noteq>
     innerHTML page1"
proof -
  have "innerHTML (snd (renderTemplate renderer5 ''heroStats'' (JObj []) (Selector ''#heroStats'') page1)) 0 \<noteq>
     innerHTML page1 0"
    by code_simp
  then show ?thesis by auto
qed

theorem renderTemplate_fails_closed_witness:
  "renderTemplate renderer5 ''policies'' (JObj []) (Selector ''#heroStats'') page1 =
     (Inr False, console_log (TemplateNotFound ''policies'') page1) \<and>
   renderTemplate renderer5 ''heroStats'' JNull (Selector ''#heroStats'') page1 =
     (Inr False, console_log (NoData ''heroStats'') page1) \<and>
   renderTemplate renderer5 ''heroStats'' (JObj []) (Selector ''#nothing'') page1 =
     (Inr False, console_log (TargetNotFound (Selector ''#nothing'')) page1) \<and>
   renderTemplate failing_renderer ''heroStats'' (JObj []) (Selector ''#heroStats'') page1 =
     (Inr False,
      (console_log (RenderError ''heroStats'' (Error ''Missing helper: badge'')) page1)
        \<lparr>innerHTML := (innerHTML page1)(0 := placeholder ''heroStats'' ''Missing helper: badge'')\<rparr>) \<and>
   fst (renderTemplate renderer5 ''heroStats'' (JObj []) (Selector ''#heroStats'') page1) = Inr True"
proof -
  note rest = renderTemplate_fails_closed [THEN conjunct2]
  have 1: "renderTemplate renderer5 ''policies'' (JObj []) (Selector ''#heroStats'') page1 =
     (Inr False, console_log (TemplateNotFound ''policies'') page1)"
    by (rule rest [THEN conjunct1, rule_format]) (rule examples_facts)
  have 2: "renderTemplate renderer5 ''heroStats'' JNull (Selector ''#heroStats'') page1 =
     (Inr False, console_log (NoData ''heroStats'') page1)"
    by (rule rest [THEN conjunct2, THEN conjunct1, rule_format]) (simp add: examples_facts)
  have 3: "renderTemplate renderer5 ''heroStats'' (JObj []) (Selector ''#nothing'') page1 =
     (Inr False, console_log (TargetNotFound (Selector ''#nothing'')) page1)"
    by (rule rest [THEN conjunct2, THEN conjunct2, THEN conjunct1, rule_format])
      (simp add: examples_facts)
  have 4: "renderTemplate failing_renderer ''heroStats'' (JObj []) (Selector ''#heroStats'') page1 =
     (Inr False,
      (console_log (RenderError ''heroStats'' (Error ''Missing helper: badge'')) page1)
        \<lparr>innerHTML := (innerHTML page1)(0 := placeholder ''heroStats'' ''Missing helper: badge'')\<rparr>)"
    using rest [THEN conjunct2, THEN conjunct2, THEN conjunct2, THEN conjunct1, rule_format,
        of failing_renderer "''heroStats''" "\<lambda>d. Inl (Error ''Missing helper: badge'')" "JObj []"
        "Selector ''#heroStats''" "''#heroStats''" page1 0 "Error ''Missing helper: badge''"]
    by (simp add: examples_facts)
  from rest [THEN conjunct2, THEN conjunct2, THEN conjunct2, THEN conjunct2, rule_format,
      OF heroStats_changed]
  have "\<exists>tpl target.
         template_named renderer5 ''heroStats'' = Some tpl \<and>
         ((\<exists>html. tpl (JObj []) = Inr html \<and>
             renderTemplate renderer5 ''heroStats'' (JObj []) (Selector ''#heroStats'') page1 =
               (Inr True,
                console_log (Rendered ''heroStats'' (Selector ''#heroStats''))
                  (page1\<lparr>innerHTML := (innerHTML page1)(target := html)\<rparr>))) \<or>
          (\<exists>e. tpl (JObj []) = Inl e \<and>
             renderTemplate renderer5 ''heroStats'' (JObj []) (Selector ''#heroStats'') page1 =
               (Inr False,
                (console_log (RenderError ''heroStats'' e) page1)
                  \<lparr>innerHTML := (innerHTML page1)(target := placeholder ''heroStats'' (message e))\<rparr>)))"
    by auto
  moreover have "fst (renderTemplate renderer5 ''heroStats'' (JObj []) (Selector ''#heroStats'') page1) \<noteq>
      Inr False"
    by code_simp
  ultimately have "fst (renderTemplate renderer5 ''heroStats'' (JObj []) (Selector ''#heroStats'') page1) =
      Inr True"
    by auto
  with 1 2 3 4 show ?thesis by simp
qed

text \<open>Two calls that throw: \<open>handleRenderError\<close> queries the document again, with a
  selector that does not parse, or with the element it was given. And a call that names
  an inherited member: it passes the first guard.\<close>

lemma renderTemplate_throws_examples:
  "fst (renderTemplate renderer5 ''heroStats'' (JObj []) (Selector []) page1) = Inl (selector_error [])"
  "fst (renderTemplate failing_renderer ''heroStats'' (JObj []) (ElementRef 0) page1) =
     Inl (selector_error ''[object HTMLElement]'')"
  "fst (renderTemplate renderer5 ''toString'' (JObj []) (Selector ''#heroStats'') page1) = Inr True"
  "innerHTML (snd (renderTemplate renderer5 ''toString'' (JObj []) (Selector ''#heroStats'') page1)) 0 =
     ''[object Object]''"
  by (code_simp, code_simp, code_simp, code_simp)

lemma isReady_iff:
  "isReady r = (\<forall>t\<in>set [''heroStats'', ''historicalEvents'', ''statistics'', ''companies'',
                          ''socialMedia'']. compiledTemplates r t \<noteq> None)"
  by (simp add: isReady_def template_named_def object_prototype_members_def
      split: option.splits)

text \<open>\<open>trim\<close> takes off white space outside ASCII too: a template source that is one
  no-break space is blank, so that template is not compiled.\<close>

lemma trim_examples:
  "trim [CHR 0xC2, CHR 0xA0] = []"
  "trim ([CHR 0x0A] @ ''  <li>{{this}}</li> '' @ [CHR 0xEF, CHR 0xBB, CHR 0xBF]) = ''<li>{{this}}</li>''"
  "compileTemplate handlebars1 (page1\<lparr>innerHTML := (\<lambda>el. [CHR 0xC2, CHR 0xA0])\<rparr>)
     ''heroStats'' ''hero-stats-template'' no_renderer = Inr no_renderer"
  by (code_simp, code_simp,
      simp add: compileTemplate_def page1_def template_elements1_def trim_def whitespace_def
        strip.simps)

lemma compileTemplate_compiled:
  assumes "compileTemplate h p key templateId r = Inr r'"
  shows "compiledTemplates r' n \<noteq> None \<longleftrightarrow>
           compiledTemplates r n \<noteq> None \<or>
           (n = key \<and> (\<exists>el. getElementById p templateId = Some el \<and> trim (innerHTML p el) \<noteq> []))"
  using assms
  by (auto simp: compileTemplate_def split: option.splits if_splits sum.splits)

lemma compileEach_compiled:
  "compileEach h p ms r = Inr r' \<Longrightarrow>
   compiledTemplates r' n \<noteq> None \<longleftrightarrow>
     compiledTemplates r n \<noteq> None \<or>
     (\<exists>templateId el. (n, templateId) \<in> set ms \<and> getElementById p templateId = Some el \<and>
        trim (innerHTML p el) \<noteq> [])"
proof (induction ms arbitrary: r)
  case Nil
  then show ?case by simp
next
  case (Cons m ms)
  obtain key templateId where m: "m = (key, templateId)" by (cases m)
  from Cons.prems m obtain r1 where
    1: "compileTemplate h p key templateId r = Inr r1" and 2: "compileEach h p ms r1 = Inr r'"
    by (auto split: sum.splits)
  from Cons.IH [OF 2] compileTemplate_compiled [OF 1, of n] m show ?case by auto
qed

lemma new_renderer_compiled:
  assumes "new_renderer h proto p = Inr r"
  shows "compiledTemplates r n \<noteq> None \<longleftrightarrow>
     (\<exists>templateId el. (n, templateId) \<in> set templateMappings \<and>
        getElementById p templateId = Some el \<and> trim (innerHTML p el) \<noteq> [])"
  using compileEach_compiled [OF assms [unfolded new_renderer_def compileAllTemplates_def], of n]
  by simp

lemma polling_ready: "isReady r \<Longrightarrow> polling r waited tr = tr"
  by (subst polling.simps) simp

lemma renderAllContent_ready:
  assumes "isReady (renderer a)" and "app_data a ''historical_events'' = Some historicalData"
    and "truthy historicalData"
  shows "renderAllContent a =
     (case render_sections (renderer a) historicalData (page a) of
        (Inl err, p') \<Rightarrow> (Some err, a\<lparr>page := p'\<rparr>)
      | (Inr u, p') \<Rightarrow> (None, a\<lparr>page := p'\<rparr>))"
  using assms
  by (simp add: renderAllContent_def waitForTemplatesReady_def polling_ready
      split: prod.splits sum.splits)

text \<open>
  Claim C9. \<open>isReady\<close> holds exactly when the five templates \<^verbatim>\<open>heroStats\<close>,
  \<^verbatim>\<open>historicalEvents\<close>, \<^verbatim>\<open>statistics\<close>, \<^verbatim>\<open>companies\<close> and \<^verbatim>\<open>socialMedia\<close> are
  compiled. Seven names are registered, these five and \<^verbatim>\<open>policies\<close> and
  \<^verbatim>\<open>infrastructure\<close>; the constructor, when it does not throw, compiles exactly the
  registered names whose template element is in the document with a source that is not
  blank; and whether \<^verbatim>\<open>policies\<close> and \<^verbatim>\<open>infrastructure\<close> are compiled does not change
  \<open>isReady\<close>. On a ready renderer \<open>waitForTemplatesReady\<close> returns at once, without
  waiting and without throwing (on one that is not ready it throws), and
  \<open>renderAllContent\<close>, given a document, goes on to render the sections: what it returns
  and the page it leaves are those of \<open>render_sections\<close>. A call of \<open>renderTemplate\<close>
  for \<^verbatim>\<open>policies\<close> or \<^verbatim>\<open>infrastructure\<close>, when that template is not compiled, returns
  \<^verbatim>\<open>false\<close> and does not throw.
\<close>

theorem isReady_five_templates:
  "(isReady r \<longleftrightarrow>
      (\<forall>t\<in>set [''heroStats'', ''historicalEvents'', ''statistics'', ''companies'',
                 ''socialMedia'']. compiledTemplates r t \<noteq> None)) \<and>
   map fst templateMappings =
     [''heroStats'', ''historicalEvents'', ''statistics'', ''companies'', ''socialMedia'',
      ''policies'', ''infrastructure''] \<and>
   isReady (r\<lparr>compiledTemplates :=
               (compiledTemplates r)(''policies'' := None, ''infrastructure'' := None)\<rparr>) =
     isReady r \<and>
   (new_renderer handlebars proto p = Inr r \<longrightarrow>
      (\<forall>name. compiledTemplates r name \<noteq> None \<longleftrightarrow>
         (\<exists>templateId el. (name, templateId) \<in> set templateMappings \<and>
            getElementById p templateId = Some el \<and> trim (innerHTML p el) \<noteq> []))) \<and>
   (isReady r \<longrightarrow> waitForTemplatesReady r tr = (None, tr)) \<and>
   (\<not> isReady r \<longrightarrow>
      fst (waitForTemplatesReady r tr) =
        Some (Error ''Templates failed to compile within timeout period'')) \<and>
   (isReady (renderer a) \<and> app_data a ''historical_events'' = Some historicalData \<and>
      truthy historicalData \<longrightarrow>
      renderAllContent a =
        (case render_sections (renderer a) historicalData (page a) of
           (Inl err, p') \<Rightarrow> (Some err, a\<lparr>page := p'\<rparr>)
         | (Inr u, p') \<Rightarrow> (None, a\<lparr>page := p'\<rparr>))) \<and>
   ((n = ''policies'' \<or> n = ''infrastructure'') \<and> compiledTemplates r n = None \<longrightarrow>
      renderTemplate r n d t p = (Inr False, console_log (TemplateNotFound n) p))"
proof (intro conjI impI allI)
  show "isReady r \<longleftrightarrow>
      (\<forall>t\<in>set [''heroStats'', ''historicalEvents'', ''statistics'', ''companies'',
                 ''socialMedia'']. compiledTemplates r t \<noteq> None)"
    by (rule isReady_iff)
  show "map fst templateMappings =
     [''heroStats'', ''historicalEvents'', ''statistics'', ''companies'', ''socialMedia'',
      ''policies'', ''infrastructure'']"
    by (simp add: templateMappings_def)
  show "isReady (r\<lparr>compiledTemplates :=
               (compiledTemplates r)(''policies'' := None, ''infrastructure'' := None)\<rparr>) =
     isReady r"
    by (simp add: isReady_iff)
next
  fix name
  assume "new_renderer handlebars proto p = Inr r"
  then show "compiledTemplates r name \<noteq> None \<longleftrightarrow>
         (\<exists>templateId el. (name, templateId) \<in> set templateMappings \<and>
            getElementById p templateId = Some el \<and> trim (innerHTML p el) \<noteq> [])"
    by (rule new_renderer_compiled)
next
  assume "isReady r"
  then show "waitForTemplatesReady r tr = (None, tr)"
    by (simp add: waitForTemplatesReady_def polling_ready)
next
  assume "\<not> isReady r"
  then show "fst (waitForTemplatesReady r tr) =
        Some (Error ''Templates failed to compile within timeout period'')"
    by (simp add: waitForTemplatesReady_def)
next
  assume "isReady (renderer a) \<and> app_data a ''historical_events'' = Some historicalData \<and>
      truthy historicalData"
  then show "renderAllContent a =
        (case render_sections (renderer a) historicalData (page a) of
           (Inl err, p') \<Rightarrow> (Some err, a\<lparr>page := p'\<rparr>)
         | (Inr u, p') \<Rightarrow> (None, a\<lparr>page := p'\<rparr>))"
    by (simp add: renderAllContent_ready)
next
  assume "(n = ''policies'' \<or> n = ''infrastructure'') \<and> compiledTemplates r n = None"
  then have "template_named r n = None"
    by (auto simp: template_named_def object_prototype_members_def)
  then show "renderTemplate r n d t p = (Inr False, console_log (TemplateNotFound n) p)"
    by (simp add: renderTemplate_def)
qed

lemma renderer5_facts:
  "isReady renderer5" "compiledTemplates renderer5 ''infrastructure'' = None"
  "compiledTemplates renderer5 ''policies'' = None"
  "new_renderer handlebars1 prototype1 page1 = Inr renderer5"
  "\<not> isReady no_renderer"
proof -
  show "isReady renderer5" "compiledTemplates renderer5 ''infrastructure'' = None"
    "compiledTemplates renderer5 ''policies'' = None" "\<not> isReady no_renderer"
    by (code_simp, code_simp, code_simp, code_simp)
  have "case new_renderer handlebars1 prototype1 page1 of Inr r \<Rightarrow> True | Inl e \<Rightarrow> False"
    by code_simp
  then show "new_renderer handlebars1 prototype1 page1 = Inr renderer5"
    by (simp add: renderer5_def split: sum.splits)
qed

lemma app5_renders:
  "fst (render_sections renderer5 sidebar1 page1) = Inr ()"
  "console (snd (render_sections renderer5 sidebar1 page1)) = [TemplateNotFound ''infrastructure'']"
  by (code_simp, code_simp)

theorem isReady_five_templates_witness:
  "new_renderer handlebars1 prototype1 page1 = Inr renderer5 \<and>
   isReady renderer5 \<and>
   compiledTemplates renderer5 ''heroStats'' \<noteq> None \<and>
   (\<exists>el. getElementById page1 ''hero-stats-template'' = Some el \<and> trim (innerHTML page1 el) \<noteq> []) \<and>
   compiledTemplates renderer5 ''policies'' = None \<and>
   compiledTemplates renderer5 ''infrastructure'' = None \<and>
   waitForTemplatesReady renderer5 [] = (None, []) \<and>
   fst (waitForTemplatesReady no_renderer []) =
     Some (Error ''Templates failed to compile within timeout period'') \<and>
   fst (renderAllContent app5) = None \<and>
   console (page (snd (renderAllContent app5))) = [TemplateNotFound ''infrastructure''] \<and>
   renderTemplate renderer5 ''infrastructure'' sidebar1 (Selector ''#fiveGFuture'') page1 =
     (Inr False, console_log (TemplateNotFound ''infrastructure'') page1)"
proof -
  note rest = isReady_five_templates [THEN conjunct2, THEN conjunct2, THEN conjunct2]
  from isReady_five_templates [THEN conjunct1, of renderer5] renderer5_facts(1)
  have hero: "compiledTemplates renderer5 ''heroStats'' \<noteq> None" by simp
  from rest [THEN conjunct1, rule_format, OF renderer5_facts(4), of "''heroStats''"] hero
  have el: "\<exists>el. getElementById page1 ''hero-stats-template'' = Some el \<and>
      trim (innerHTML page1 el) \<noteq> []"
    by (auto simp: templateMappings_def)
  have w: "waitForTemplatesReady renderer5 [] = (None, [])"
    by (rule rest [THEN conjunct2, THEN conjunct1, rule_format]) (rule renderer5_facts)
  have nw: "fst (waitForTemplatesReady no_renderer []) =
     Some (Error ''Templates failed to compile within timeout period'')"
    by (rule rest [THEN conjunct2, THEN conjunct2, THEN conjunct1, rule_format])
      (rule renderer5_facts)
  have "truthy sidebar1" by (simp add: sidebar1_def)
  with renderer5_facts(1)
  have "isReady (renderer app5) \<and> app_data app5 ''historical_events'' = Some sidebar1 \<and>
      truthy sidebar1"
    by (simp add: app5_def)
  from rest [THEN conjunct2, THEN conjunct2, THEN conjunct2, THEN conjunct1, rule_format, OF this]
  have "renderAllContent app5 =
        (case render_sections renderer5 sidebar1 page1 of
           (Inl err, p') \<Rightarrow> (Some err, app5\<lparr>page := p'\<rparr>)
         | (Inr u, p') \<Rightarrow> (None, app5\<lparr>page := p'\<rparr>))"
    by (simp add: app5_def)
  with app5_renders
  have r: "fst (renderAllContent app5) = None"
    "console (page (snd (renderAllContent app5))) = [TemplateNotFound ''infrastructure'']"
    by (simp_all split: prod.splits sum.splits)
  have t: "renderTemplate renderer5 ''infrastructure'' sidebar1 (Selector ''#fiveGFuture'') page1 =
     (Inr False, console_log (TemplateNotFound ''infrastructure'') page1)"
    by (rule rest [THEN conjunct2, THEN conjunct2, THEN conjunct2, THEN conjunct2, rule_format])
      (simp add: renderer5_facts)
  from hero el w nw r t renderer5_facts show ?thesis by simp
qed


section \<open>Properties of the application\<close>

lemma schedule_step:
  "k < retryAttempts cfg \<Longrightarrow>
   schedule cfg p k = [Fetch p, Delay (retryDelay cfg * k)] @ schedule cfg p (Suc k)"
  by (simp add: schedule_def upt_conv_Cons)

lemma schedule_last: "retryAttempts cfg \<le> k \<Longrightarrow> schedule cfg p k = [Fetch p]"
  by (simp add: schedule_def)

lemma schedule_not_Nil: "schedule cfg p k \<noteq> []"
  by (simp add: schedule_def)

lemma attempts_all_fail:
  "always_fails e p \<Longrightarrow> k \<le> retryAttempts cfg \<Longrightarrow>
     attempts e cfg p k lastError tr =
       (Exhausted (attempt_error e (tr @ butlast (schedule cfg p k)) p), tr @ schedule cfg p k)"
proof (induction e cfg p k lastError tr rule: attempts.induct)
  case (1 e cfg filePath attempt lastError tr)
  from "1.prems"(1) have "attempt_error e tr filePath \<noteq> None"
    by (simp add: always_fails_def)
  then obtain err where err: "attempt_body e (network e tr filePath) = Inl err"
    by (cases "attempt_body e (network e tr filePath)") (auto simp: attempt_error_def)
  show ?case
  proof (cases "attempt < retryAttempts cfg")
    case True
    have "attempts e cfg filePath attempt lastError tr =
        attempts e cfg filePath (attempt + 1) (Some err)
          (tr @ [Fetch filePath, Delay (retryDelay cfg * attempt)])"
      using True err by (subst attempts.simps) simp
    also have "\<dots> = (Exhausted (attempt_error e
          ((tr @ [Fetch filePath, Delay (retryDelay cfg * attempt)]) @
            butlast (schedule cfg filePath (attempt + 1))) filePath),
        (tr @ [Fetch filePath, Delay (retryDelay cfg * attempt)]) @
          schedule cfg filePath (attempt + 1))"
      using "1.IH" [OF "1.prems"(2) err "1.prems"(1)] True by simp
    finally show ?thesis
      using True by (simp add: schedule_step butlast_append schedule_not_Nil)
  next
    case False
    with "1.prems" have eq: "attempt = retryAttempts cfg" by simp
    have "attempts e cfg filePath attempt lastError tr =
        attempts e cfg filePath (attempt + 1) (Some err) (tr @ [Fetch filePath])"
      using eq err by (subst attempts.simps) simp
    also have "\<dots> = (Exhausted (Some err), tr @ [Fetch filePath])"
      using eq by (subst attempts.simps) simp
    finally show ?thesis
      using eq err by (simp add: schedule_last attempt_error_def)
  qed
qed

lemma delays_schedule:
  "delays (schedule cfg p k) = map (\<lambda>j. retryDelay cfg * j) [k..<retryAttempts cfg]"
proof (induction "retryAttempts cfg - k" arbitrary: k)
  case 0
  then show ?case by (simp add: schedule_last)
next
  case (Suc n)
  then have "k < retryAttempts cfg" "n = retryAttempts cfg - Suc k" by auto
  with Suc.hyps(1) [of "Suc k"] show ?case
    by (simp add: schedule_step upt_conv_Cons)
qed

lemma fetches_schedule:
  "length (filter (\<lambda>ev. ev = Fetch p) (schedule cfg p k)) = Suc (retryAttempts cfg - k)"
proof (induction "retryAttempts cfg - k" arbitrary: k)
  case 0
  then show ?case by (simp add: schedule_last)
next
  case (Suc n)
  then have "k < retryAttempts cfg" "n = retryAttempts cfg - Suc k" by auto
  with Suc.hyps(1) [of "Suc k"] show ?case
    by (simp add: schedule_step)
qed

lemma sorted_delays_schedule: "sorted (delays (schedule cfg p k))"
  by (simp add: delays_schedule sorted_map sorted_wrt_iff_nth_less)

lemma loadJSONFile_all_fail:
  assumes "always_fails e p" and "0 < retryAttempts cfg"
  shows "\<exists>err. attempt_error e (tr @ butlast (schedule cfg p 1)) p = Some err \<and>
     loadJSONFile e cfg p tr =
       (if str_includes p ''historical_events.json''
        then Inl (Error (''Failed to load critical data file: '' @ p @ ''. Last error: '' @
                         message err))
        else Inr JNull,
        tr @ schedule cfg p 1)"
proof -
  from assms(1) obtain err where err: "attempt_error e (tr @ butlast (schedule cfg p 1)) p = Some err"
    by (auto simp: always_fails_def)
  from assms(2) have "1 \<le> retryAttempts cfg" by simp
  from attempts_all_fail [OF assms(1) this, of None tr] err
  have "loadJSONFile e cfg p tr =
       (if str_includes p ''historical_events.json''
        then Inl (Error (''Failed to load critical data file: '' @ p @ ''. Last error: '' @
                         message err))
        else Inr JNull,
        tr @ schedule cfg p 1)"
    by (simp add: loadJSONFile_def last_message_def)
  with err show ?thesis by blast
qed

text \<open>
  Claim C4. Take the mandatory file (a path that contains \<^verbatim>\<open>historical_events.json\<close>), an
  environment in which every attempt to load it fails, whatever was requested before,
  and a configuration with at least one attempt. Then \<open>loadJSONFile\<close> throws the fatal
  error, whose message names the path and carries the message of the error of the last
  attempt, and what it has done by then is \<open>schedule\<close>: it has requested the file
  \<open>retryAttempts\<close> times, and between two requests it has waited \<open>retryDelay\<close> times the
  number of the failed attempt, so the delays are \<open>retryDelay\<close> times 1, 2, ..., in
  ascending order, with no delay after the last attempt.
\<close>

theorem loadJSONFile_retry_budget:
  assumes "always_fails e filePath" and "0 < retryAttempts cfg"
    and "str_includes filePath ''historical_events.json''"
  shows "(\<exists>err. attempt_error e (tr @ butlast (schedule cfg filePath 1)) filePath = Some err \<and>
           loadJSONFile e cfg filePath tr =
             (Inl (Error (''Failed to load critical data file: '' @ filePath @
                          ''. Last error: '' @ message err)),
              tr @ schedule cfg filePath 1)) \<and>
         length (filter (\<lambda>ev. ev = Fetch filePath) (schedule cfg filePath 1)) = retryAttempts cfg \<and>
         delays (schedule cfg filePath 1) =
           map (\<lambda>attempt. retryDelay cfg * attempt) [1..<retryAttempts cfg] \<and>
         sorted (delays (schedule cfg filePath 1))"
proof (intro conjI)
  from loadJSONFile_all_fail [OF assms(1,2), of tr] assms(3)
  show "\<exists>err. attempt_error e (tr @ butlast (schedule cfg filePath 1)) filePath = Some err \<and>
           loadJSONFile e cfg filePath tr =
             (Inl (Error (''Failed to load critical data file: '' @ filePath @
                          ''. Last error: '' @ message err)),
              tr @ schedule cfg filePath 1)"
    by simp
  from assms(2) show
    "length (filter (\<lambda>ev. ev = Fetch filePath) (schedule cfg filePath 1)) = retryAttempts cfg"
    by (simp add: fetches_schedule)
  show "delays (schedule cfg filePath 1) =
           map (\<lambda>attempt. retryDelay cfg * attempt) [1..<retryAttempts cfg]"
    by (rule delays_schedule)
  show "sorted (delays (schedule cfg filePath 1))"
    by (rule sorted_delays_schedule)
qed

lemma env_down_fails: "always_fails env_down filePath"
  by (simp add: always_fails_def attempt_error_def attempt_body_def env_down_def)

lemma default_schedule:
  "schedule default_config p (Suc 0) = [Fetch p, Delay 1000, Fetch p, Delay 2000, Fetch p]"
  by (simp add: schedule_def default_config_def upt_conv_Cons)

lemma mandatory_name: "str_includes ''data/historical_events.json'' ''historical_events.json''"
  by code_simp

theorem loadJSONFile_retry_budget_witness:
  "loadJSONFile env_down default_config ''data/historical_events.json'' [] =
     (Inl (Error ''Failed to load critical data file: data/historical_events.json. Last error: Failed to fetch''),
      [Fetch ''data/historical_events.json'', Delay 1000,
       Fetch ''data/historical_events.json'', Delay 2000,
       Fetch ''data/historical_events.json'']) \<and>
   length (filter (\<lambda>ev. ev = Fetch ''data/historical_events.json'')
             (schedule default_config ''data/historical_events.json'' 1)) = 3 \<and>
   delays (schedule default_config ''data/historical_events.json'' 1) = [1000, 2000]"
proof -
  have pos: "0 < retryAttempts default_config" by (simp add: default_config_def)
  have err: "attempt_error env_down h p = Some (TypeError ''Failed to fetch'')" for h p
    by (simp add: attempt_error_def attempt_body_def env_down_def)
  from loadJSONFile_retry_budget [OF env_down_fails pos mandatory_name, of "[]"]
  have "\<exists>err. attempt_error env_down
            ([] @ butlast (schedule default_config ''data/historical_events.json'' 1))
            ''data/historical_events.json'' = Some err \<and>
          loadJSONFile env_down default_config ''data/historical_events.json'' [] =
            (Inl (Error (''Failed to load critical data file: '' @ ''data/historical_events.json'' @
                         ''. Last error: '' @ message err)),
             [] @ schedule default_config ''data/historical_events.json'' 1)"
    by blast
  then have "loadJSONFile env_down default_config ''data/historical_events.json'' [] =
     (Inl (Error ''Failed to load critical data file: data/historical_events.json. Last error: Failed to fetch''),
      schedule default_config ''data/historical_events.json'' 1)"
    by (auto simp: err)
  then show ?thesis by (simp add: default_schedule)
qed

lemma load_optional_frame:
  "config (load_optional e g a) = config a"
  "validator (load_optional e g a) = validator a"
  "renderer (load_optional e g a) = renderer a"
  "page (load_optional e g a) = page a"
  by (auto simp: load_optional_def split: prod.splits sum.splits)

lemma load_optional_other_key:
  "fileName_of g \<noteq> Inr k \<Longrightarrow> app_data (load_optional e g a) k = app_data a k"
  by (auto simp: load_optional_def split: prod.splits sum.splits)

lemma load_optional_keeps:
  "app_data a k \<noteq> None \<Longrightarrow> app_data (load_optional e g a) k \<noteq> None"
  by (auto simp: load_optional_def split: prod.splits sum.splits)

lemma load_optional_fails:
  assumes "always_fails e g" and "0 < retryAttempts (config a)"
    and "\<not> str_includes g ''historical_events.json''"
  shows "app_data (load_optional e g a) = app_data a"
proof -
  from loadJSONFile_all_fail [OF assms(1,2), of "trace a"] assms(3)
  have "loadJSONFile e (config a) g (trace a) = (Inr JNull, trace a @ schedule (config a) g 1)"
    by auto
  then show ?thesis by (simp add: load_optional_def)
qed

lemma optional_names:
  "fileName_of ''data/statistics.json'' = Inr ''statistics''"
  "fileName_of ''data/companies.json'' = Inr ''companies''"
  "fileName_of ''data/social_media.json'' = Inr ''social_media''"
  "fileName_of ''data/policies.json'' = Inr ''policies''"
  "fileName_of ''data/infrastructure.json'' = Inr ''infrastructure''"
  by (code_simp, code_simp, code_simp, code_simp, code_simp)

lemma optional_not_mandatory:
  "g \<in> set optionalFiles \<Longrightarrow> \<not> str_includes g ''historical_events.json''"
proof -
  have "list_all (\<lambda>g. \<not> str_includes g ''historical_events.json'') optionalFiles"
    by code_simp
  then show "g \<in> set optionalFiles \<Longrightarrow> \<not> str_includes g ''historical_events.json''"
    by (simp add: list_all_iff)
qed

lemma optional_key_cases:
  assumes "g \<in> set optionalFiles"
  shows "(g = ''data/statistics.json'' \<and> fileName_of g = Inr ''statistics'') \<or>
         (g = ''data/companies.json'' \<and> fileName_of g = Inr ''companies'') \<or>
         (g = ''data/social_media.json'' \<and> fileName_of g = Inr ''social_media'') \<or>
         (g = ''data/policies.json'' \<and> fileName_of g = Inr ''policies'') \<or>
         (g = ''data/infrastructure.json'' \<and> fileName_of g = Inr ''infrastructure'')"
proof -
  from assms have "g = ''data/statistics.json'' \<or> g = ''data/companies.json'' \<or>
      g = ''data/social_media.json'' \<or> g = ''data/policies.json'' \<or>
      g = ''data/infrastructure.json''"
    by (simp add: optionalFiles_def)
  then show ?thesis
    by (elim disjE) (simp_all only: optional_names simp_thms)
qed

lemma optional_key_inj:
  assumes "f \<in> set optionalFiles" and "g \<in> set optionalFiles"
    and "fileName_of f = Inr k" and "fileName_of g = Inr k"
  shows "g = f"
  using optional_key_cases [OF assms(1)] optional_key_cases [OF assms(2)] assms(3,4)
  by (elim disjE conjE) simp_all

lemma optional_key_not_primary:
  assumes "f \<in> set optionalFiles" and "fileName_of f = Inr k"
  shows "k \<noteq> ''historical_events''"
  using optional_key_cases [OF assms(1)] assms(2)
  by (elim disjE conjE) simp_all

lemma foldl_load_optional_frame:
  "config (foldl (\<lambda>a g. load_optional e g a) a gs) = config a"
  by (induction gs arbitrary: a) (simp_all add: load_optional_frame)

lemma foldl_load_optional_key:
  assumes f: "f \<in> set optionalFiles" "always_fails e f" "fileName_of f = Inr k"
  shows "set gs \<subseteq> set optionalFiles \<Longrightarrow> 0 < retryAttempts (config a) \<Longrightarrow>
     app_data (foldl (\<lambda>a g. load_optional e g a) a gs) k = app_data a k"
proof (induction gs arbitrary: a)
  case Nil
  then show ?case by simp
next
  case (Cons g gs)
  have step: "app_data (load_optional e g a) k = app_data a k"
  proof (cases "g = f")
    case True
    with f Cons.prems optional_not_mandatory [of f] show ?thesis
      by (simp add: load_optional_fails)
  next
    case False
    with optional_key_inj [OF f(1) _ f(3), of g] Cons.prems have "fileName_of g \<noteq> Inr k"
      by auto
    then show ?thesis by (rule load_optional_other_key)
  qed
  from Cons.prems have "set gs \<subseteq> set optionalFiles"
    "0 < retryAttempts (config (load_optional e g a))"
    by (simp_all add: load_optional_frame)
  from Cons.IH [OF this] step show ?case by simp
qed

lemma foldl_load_optional_keeps:
  "app_data a k \<noteq> None \<Longrightarrow> app_data (foldl (\<lambda>a g. load_optional e g a) a gs) k \<noteq> None"
proof (induction gs arbitrary: a)
  case Nil
  then show ?case by simp
next
  case (Cons g gs)
  from Cons.prems have "app_data (load_optional e g a) k \<noteq> None"
    by (rule load_optional_keeps)
  from Cons.IH [OF this] show ?case by simp
qed

lemma loadOptionalDataFiles_key:
  assumes "f \<in> set optionalFiles" "always_fails e f" "fileName_of f = Inr k"
    and "0 < retryAttempts (config a)"
  shows "app_data (loadOptionalDataFiles e a) k = app_data a k"
  unfolding loadOptionalDataFiles_def
  by (rule foldl_load_optional_key [OF assms(1-3) _ assms(4)]) simp

lemma loadAllData_key:
  assumes "f \<in> set optionalFiles" "always_fails e f" "fileName_of f = Inr k"
    and "0 < retryAttempts (config a)"
  shows "app_data (snd (loadAllData e a)) k = app_data a k"
proof -
  note key = optional_key_not_primary [OF assms(1,3)]
  show ?thesis
    unfolding loadAllData_def
    using key assms(4)
    by (auto split: prod.splits sum.splits
        simp: loadOptionalDataFiles_key [OF assms(1-3)])
qed

lemma loadAllData_keeps:
  assumes "app_data a k \<noteq> None"
  shows "app_data (snd (loadAllData e a)) k \<noteq> None"
proof -
  have opt: "app_data (loadOptionalDataFiles e b) k \<noteq> None" if "app_data b k \<noteq> None" for b
    unfolding loadOptionalDataFiles_def using that by (rule foldl_load_optional_keeps)
  obtain res tr' where l: "loadJSONFile e (config a) ''data/historical_events.json'' (trace a) =
      (res, tr')" by (cases "loadJSONFile e (config a) ''data/historical_events.json'' (trace a)")
  show ?thesis
  proof (cases res)
    case (Inl err)
    with l assms show ?thesis by (simp add: loadAllData_def)
  next
    case (Inr d)
    obtain vr vs where v: "validateJSONData d ''historical_events'' (validator a) = (vr, vs)"
      by (cases "validateJSONData d ''historical_events'' (validator a)")
    have "app_data (if truthy d
              then a\<lparr>app_data := (app_data a)(''historical_events'' := Some d),
                     validator := vs, trace := tr'\<rparr>
              else a\<lparr>trace := tr'\<rparr>) k \<noteq> None"
      using assms by simp
    from opt [OF this] l Inr v show ?thesis
      by (cases "truthy d") (simp_all add: loadAllData_def)
  qed
qed

lemma ui_data [simp]:
  "app_data (showLoadingOverlay a) = app_data a"
  "app_data (hideLoadingOverlay a) = app_data a"
  "app_data (showErrorModal m a) = app_data a"
  "app_data (closeErrorModal a) = app_data a"
  "app_data (handleAppError err a) = app_data a"
  by (auto simp: showLoadingOverlay_def hideLoadingOverlay_def showErrorModal_def
      closeErrorModal_def handleAppError_def split: option.splits)

lemma ui_config [simp]:
  "config (showLoadingOverlay a) = config a"
  "config (closeErrorModal a) = config a"
  by (auto simp: showLoadingOverlay_def closeErrorModal_def split: option.splits)

lemma renderAllContent_data [simp]: "app_data (snd (renderAllContent a)) = app_data a"
  by (auto simp: renderAllContent_def split: prod.splits option.splits sum.splits)

lemma load_and_render_data:
  "app_data (load_and_render e a) = app_data (snd (loadAllData e a))"
proof -
  have r: "app_data a2 = app_data a1" if "renderAllContent a1 = (x, a2)" for x a1 a2
    using renderAllContent_data [of a1] that by simp
  show ?thesis
    by (auto simp: load_and_render_def split: prod.splits option.splits dest: r)
qed

lemma attempts_prefix: "prefix tr (snd (attempts e cfg p k lastError tr))"
proof (induction e cfg p k lastError tr rule: attempts.induct)
  case (1 e cfg filePath attempt lastError tr)
  show ?case
  proof (cases "attempt \<le> retryAttempts cfg")
    case False
    then show ?thesis by (subst attempts.simps) simp
  next
    case True
    show ?thesis
    proof (cases "attempt_body e (network e tr filePath)")
      case (Inr d)
      with True show ?thesis by (subst attempts.simps) simp
    next
      case (Inl err)
      let ?tr' = "if attempt < retryAttempts cfg
                   then tr @ [Fetch filePath, Delay (retryDelay cfg * attempt)]
                   else tr @ [Fetch filePath]"
      have "prefix tr ?tr'" by simp
      also have "prefix ?tr' (snd (attempts e cfg filePath (attempt + 1) (Some err) ?tr'))"
        by (rule "1.IH" [OF True Inl])
      also have "attempts e cfg filePath (attempt + 1) (Some err) ?tr' =
          attempts e cfg filePath attempt lastError tr"
        using True Inl by (subst (2) attempts.simps) simp
      finally show ?thesis .
    qed
  qed
qed

lemma attempts_first_fetch:
  assumes "0 < retryAttempts cfg"
  shows "prefix (tr @ [Fetch p]) (snd (attempts e cfg p 1 lastError tr))"
proof (cases "attempt_body e (network e tr p)")
  case (Inr d)
  with assms show ?thesis by (subst attempts.simps) simp
next
  case (Inl err)
  let ?tr' = "if 1 < retryAttempts cfg then tr @ [Fetch p, Delay (retryDelay cfg * 1)]
              else tr @ [Fetch p]"
  have "prefix (tr @ [Fetch p]) ?tr'" by simp
  also have "prefix ?tr' (snd (attempts e cfg p (1 + 1) (Some err) ?tr'))"
    by (rule attempts_prefix)
  also have "attempts e cfg p (1 + 1) (Some err) ?tr' = attempts e cfg p 1 lastError tr"
    using assms Inl by (subst (2) attempts.simps) simp
  finally show ?thesis .
qed

lemma loadJSONFile_trace:
  "snd (loadJSONFile e cfg p tr) = snd (attempts e cfg p 1 None tr)"
  by (auto simp: loadJSONFile_def split: prod.splits loop_end.splits sum.splits)

lemma load_optional_trace: "prefix (trace a) (trace (load_optional e g a))"
proof -
  have "trace (load_optional e g a) = snd (loadJSONFile e (config a) g (trace a))"
    by (auto simp: load_optional_def split: prod.splits sum.splits)
  then show ?thesis by (simp add: loadJSONFile_trace attempts_prefix)
qed

lemma foldl_load_optional_trace:
  "prefix (trace a) (trace (foldl (\<lambda>a g. load_optional e g a) a gs))"
proof (induction gs arbitrary: a)
  case Nil
  then show ?case by simp
next
  case (Cons g gs)
  have "prefix (trace a) (trace (load_optional e g a))" by (rule load_optional_trace)
  also have "prefix (trace (load_optional e g a))
      (trace (foldl (\<lambda>a g. load_optional e g a) (load_optional e g a) gs))"
    by (rule Cons.IH)
  finally show ?case by simp
qed

lemma loadAllData_trace:
  assumes "0 < retryAttempts (config a)"
  shows "prefix (trace a @ [Fetch ''data/historical_events.json''])
           (trace (snd (loadAllData e a)))"
proof -
  let ?l = "loadJSONFile e (config a) ''data/historical_events.json'' (trace a)"
  have first: "prefix (trace a @ [Fetch ''data/historical_events.json'']) (snd ?l)"
    unfolding loadJSONFile_trace by (rule attempts_first_fetch [OF assms])
  obtain res tr' where l: "?l = (res, tr')" by (cases ?l)
  show ?thesis
  proof (cases res)
    case (Inl err)
    with l first show ?thesis by (simp add: loadAllData_def)
  next
    case (Inr d)
    obtain vr vs where v: "validateJSONData d ''historical_events'' (validator a) = (vr, vs)"
      by (cases "validateJSONData d ''historical_events'' (validator a)")
    let ?b = "if truthy d
              then a\<lparr>app_data := (app_data a)(''historical_events'' := Some d),
                     validator := vs, trace := tr'\<rparr>
              else a\<lparr>trace := tr'\<rparr>"
    have "trace ?b = tr'" by simp
    with first l have "prefix (trace a @ [Fetch ''data/historical_events.json'']) (trace ?b)"
      by simp
    also have "prefix (trace ?b) (trace (loadOptionalDataFiles e ?b))"
      unfolding loadOptionalDataFiles_def by (rule foldl_load_optional_trace)
    finally show ?thesis using l Inr v
      by (cases "truthy d") (simp_all add: loadAllData_def)
  qed
qed

lemma polling_prefix: "prefix tr (polling r waited tr)"
proof (induction r waited tr rule: polling.induct)
  case (1 r waited tr)
  show ?case
  proof (cases "\<not> isReady r \<and> waited < 10000")
    case True
    have "prefix tr (tr @ [Delay 100])" by simp
    also have "prefix (tr @ [Delay 100]) (polling r (waited + 100) (tr @ [Delay 100]))"
      by (rule "1.IH" [OF True])
    also have "polling r (waited + 100) (tr @ [Delay 100]) = polling r waited tr"
      using True by (subst (2) polling.simps) simp
    finally show ?thesis .
  next
    case False
    then show ?thesis by (subst polling.simps) auto
  qed
qed

lemma renderAllContent_trace: "prefix (trace a) (trace (snd (renderAllContent a)))"
proof -
  have "trace (snd (renderAllContent a)) = polling (renderer a) 0 (trace a)"
    by (auto simp: renderAllContent_def waitForTemplatesReady_def
        split: prod.splits option.splits sum.splits if_splits)
  then show ?thesis by (simp add: polling_prefix)
qed

lemma ui_trace [simp]:
  "trace (showLoadingOverlay a) = trace a"
  "trace (hideLoadingOverlay a) = trace a"
  "trace (showErrorModal m a) = trace a"
  "trace (closeErrorModal a) = trace a"
  "trace (handleAppError err a) = trace a"
  by (auto simp: showLoadingOverlay_def hideLoadingOverlay_def showErrorModal_def
      closeErrorModal_def handleAppError_def split: option.splits)

lemma load_and_render_trace:
  assumes "0 < retryAttempts (config a)"
  shows "prefix (trace a @ [Fetch ''data/historical_events.json'']) (trace (load_and_render e a))"
proof -
  obtain x a1 where l: "loadAllData e a = (x, a1)" by (cases "loadAllData e a")
  from loadAllData_trace [OF assms, of e] l
  have 1: "prefix (trace a @ [Fetch ''data/historical_events.json'']) (trace a1)" by simp
  show ?thesis
  proof (cases x)
    case (Some err)
    with l 1 show ?thesis by (simp add: load_and_render_def)
  next
    case None
    obtain y a2 where r: "renderAllContent a1 = (y, a2)" by (cases "renderAllContent a1")
    from renderAllContent_trace [of a1] r have "prefix (trace a1) (trace a2)" by simp
    with 1 have "prefix (trace a @ [Fetch ''data/historical_events.json'']) (trace a2)"
      by (rule prefix_order.trans)
    with l None r show ?thesis by (cases y) (simp_all add: load_and_render_def)
  qed
qed

lemma ui_config2 [simp]:
  "config (hideLoadingOverlay a) = config a"
  "config (showErrorModal m a) = config a"
  "config (handleAppError err a) = config a"
  by (auto simp: hideLoadingOverlay_def showErrorModal_def handleAppError_def
      split: option.splits)

lemma loadOptionalDataFiles_config [simp]:
  "config (loadOptionalDataFiles e a) = config a"
  by (simp add: loadOptionalDataFiles_def foldl_load_optional_frame)

lemma loadAllData_config [simp]: "config (snd (loadAllData e a)) = config a"
  by (auto simp: loadAllData_def split: prod.splits sum.splits)

lemma renderAllContent_config [simp]: "config (snd (renderAllContent a)) = config a"
  by (auto simp: renderAllContent_def split: prod.splits option.splits sum.splits)

lemma load_and_render_config [simp]: "config (load_and_render e a) = config a"
proof -
  obtain x a1 where l: "loadAllData e a = (x, a1)" by (cases "loadAllData e a")
  obtain y a2 where r: "renderAllContent a1 = (y, a2)" by (cases "renderAllContent a1")
  from loadAllData_config [of e a] l have 1: "config a1 = config a" by simp
  from renderAllContent_config [of a1] r have 2: "config a2 = config a1" by simp
  from l r 1 2 show ?thesis
    by (cases x; cases y) (simp_all add: load_and_render_def)
qed

lemma startApp_config [simp]: "config (startApp e p) = default_config"
  by (cases "new_renderer (Handlebars_compile e) (Object_prototype e) p") (simp_all add: startApp_def)

lemma load_optional_first:
  assumes "0 < retryAttempts (config a)"
  shows "prefix (trace a @ [Fetch g]) (trace (load_optional e g a))"
proof -
  have "trace (load_optional e g a) = snd (loadJSONFile e (config a) g (trace a))"
    by (auto simp: load_optional_def split: prod.splits sum.splits)
  moreover have "prefix (trace a @ [Fetch g]) (snd (loadJSONFile e (config a) g (trace a)))"
    unfolding loadJSONFile_trace by (rule attempts_first_fetch [OF assms])
  ultimately show ?thesis by simp
qed

lemma foldl_load_optional_fetches:
  "0 < retryAttempts (config a) \<Longrightarrow>
   Fetch ` set gs \<subseteq> set (trace (foldl (\<lambda>a g. load_optional e g a) a gs))"
proof (induction gs arbitrary: a)
  case Nil
  then show ?case by simp
next
  case (Cons g gs)
  let ?b = "load_optional e g a"
  from Cons.prems have n: "0 < retryAttempts (config ?b)" by (simp add: load_optional_frame)
  have "prefix (trace ?b) (trace (foldl (\<lambda>a g. load_optional e g a) ?b gs))"
    by (rule foldl_load_optional_trace)
  then have sub: "set (trace ?b) \<subseteq> set (trace (foldl (\<lambda>a g. load_optional e g a) ?b gs))"
    by (rule set_mono_prefix)
  from load_optional_first [OF Cons.prems, of g e]
  have "set (trace a @ [Fetch g]) \<subseteq> set (trace ?b)" by (rule set_mono_prefix)
  then have "Fetch g \<in> set (trace ?b)" by simp
  with sub Cons.IH [OF n] show ?case by auto
qed

lemma loadOptionalDataFiles_fetches:
  "0 < retryAttempts (config a) \<Longrightarrow>
   Fetch ` set optionalFiles \<subseteq> set (trace (loadOptionalDataFiles e a))"
  unfolding loadOptionalDataFiles_def by (rule foldl_load_optional_fetches)

lemma parse1_values:
  "parse1 ''{}'' = Inr (JObj [])"
  "parse1 mobile_only_text = Inr (JObj [(''mobileEra'', JObj [])])"
  "parse1 stats_text = Inr (JObj [(''users'', JNum 5)])"
  "parse1 no_events_text = Inr no_events_doc"
  "parse1 foundation_no_events_text = Inr foundation_no_events_doc"
  "mobile_only_text \<noteq> []" "stats_text \<noteq> []" "no_events_text \<noteq> []"
  "foundation_no_events_text \<noteq> []"
  by (code_simp, code_simp, code_simp, code_simp, code_simp, code_simp, code_simp, code_simp, code_simp)

lemma includes_values:
  "str_includes ''data/historical_events.json'' ''historical_events.json''"
  "\<not> str_includes ''data/statistics.json'' ''historical_events.json''"
  "\<not> str_includes ''data/companies.json'' ''historical_events.json''"
  "\<not> str_includes ''data/social_media.json'' ''historical_events.json''"
  "\<not> str_includes ''data/policies.json'' ''historical_events.json''"
  "\<not> str_includes ''data/infrastructure.json'' ''historical_events.json''"
  by (code_simp, code_simp, code_simp, code_simp, code_simp, code_simp)

lemmas loader_defs = loadJSONFile_def attempts.simps attempt_body_def validateJSONString_def
  default_config_def parse1_values not_found_def last_message_def includes_values optional_names

lemma page1_fields:
  "loadingOverlay page1 = Some False" "errorModal page1 = Some ''none''"
  "errorMessage page1 = Some []"
  by (simp_all add: page1_def)

lemma flaky_mandatory:
  "loadJSONFile env_flaky default_config ''data/historical_events.json'' [] =
     (Inr (JObj [(''mobileEra'', JObj [])]), [Fetch ''data/historical_events.json''])"
  by (simp add: loader_defs env_flaky_def)

lemma flaky_optional:
  "loadOptionalDataFiles env_flaky
      \<lparr>app_data = m, isLoading = l, hasErrors = h, config = default_config,
         validator = vs, renderer = r, page = pg,
         trace = [Fetch ''data/historical_events.json'']\<rparr> =
      \<lparr>app_data = m(''statistics'' \<mapsto> JObj [(''users'', JNum 5)]),
         isLoading = l, hasErrors = h, config = default_config,
         validator = vs, renderer = r, page = pg, trace = flaky_trace\<rparr>"
  by (simp add: loadOptionalDataFiles_def optionalFiles_def load_optional_def loader_defs
      env_flaky_def flaky_trace_def)

lemma flaky_first_load:
  "loadAllData env_flaky
      \<lparr>app_data = (\<lambda>k. None), isLoading = l, hasErrors = h, config = default_config,
         validator = vs, renderer = r, page = pg, trace = []\<rparr> =
     (None,
      \<lparr>app_data = [''historical_events'' \<mapsto> JObj [(''mobileEra'', JObj [])],
                    ''statistics'' \<mapsto> JObj [(''users'', JNum 5)]],
         isLoading = l, hasErrors = h, config = default_config,
         validator = snd (validateJSONData (JObj [(''mobileEra'', JObj [])])
                            ''historical_events'' vs),
         renderer = r, page = pg, trace = flaky_trace\<rparr>)"
  by (simp add: loadAllData_def flaky_mandatory case_prod_beta flaky_optional)

lemma mobile_only_throws:
  "render_sections r (JObj [(''mobileEra'', JObj [])]) p =
     (Inl (no_method JUndefined ''find''), p)"
  by (simp add: render_sections_def render_section_def renderMobileEra_def bindR_def lift_def
      pure_def array_find_def)

lemma empty_renders:
  "render_sections r (JObj []) p = (Inr (), p)"
  by (simp add: render_sections_def render_section_def renderSidebarContent_def bindR_def
      lift_def pure_def)

lemma flaky_fields:
  "Handlebars_compile env_flaky = handlebars1" "Object_prototype env_flaky = prototype1"
  by (simp_all add: env_flaky_def)

lemma flaky_start:
  "startApp env_flaky page1 =
     \<lparr>app_data = [''historical_events'' \<mapsto> JObj [(''mobileEra'', JObj [])],
                   ''statistics'' \<mapsto> JObj [(''users'', JNum 5)]],
        isLoading = False, hasErrors = True, config = default_config,
        validator = snd (validateJSONData (JObj [(''mobileEra'', JObj [])])
                           ''historical_events'' new_validator),
        renderer = renderer5,
        page = page1\<lparr>loadingOverlay := Some True, errorModal := Some ''flex'',
                      errorMessage := Some (userMessage (no_method JUndefined ''find''))\<rparr>,
        trace = flaky_trace\<rparr>"
  by (simp add: startApp_def flaky_fields
      renderer5_facts showLoadingOverlay_def page1_fields load_and_render_def
      flaky_first_load renderAllContent_def waitForTemplatesReady_def
      polling_ready mobile_only_throws handleAppError_def hideLoadingOverlay_def
      showErrorModal_def)

lemma flaky_mandatory_again:
  "loadJSONFile env_flaky default_config ''data/historical_events.json'' flaky_trace =
     (Inr (JObj []), flaky_trace @ [Fetch ''data/historical_events.json''])"
  by (simp add: loader_defs env_flaky_def flaky_trace_def)

lemma flaky_statistics_again:
  "loadJSONFile env_flaky default_config ''data/statistics.json''
       (flaky_trace @ [Fetch ''data/historical_events.json'']) =
     (Inr JNull,
      flaky_trace @
      [Fetch ''data/historical_events.json'',
       Fetch ''data/statistics.json'', Delay 1000, Fetch ''data/statistics.json'', Delay 2000,
       Fetch ''data/statistics.json''])"
  by (simp add: loader_defs env_flaky_def flaky_trace_def)

lemma flaky_optional_again:
  "loadOptionalDataFiles env_flaky
      \<lparr>app_data = m, isLoading = l, hasErrors = h, config = default_config,
         validator = vs, renderer = r, page = pg,
         trace = flaky_trace @ [Fetch ''data/historical_events.json'']\<rparr> =
      \<lparr>app_data = m, isLoading = l, hasErrors = h, config = default_config,
         validator = vs, renderer = r, page = pg, trace = flaky_retry_trace\<rparr>"
  by (simp add: loadOptionalDataFiles_def optionalFiles_def load_optional_def loader_defs
      env_flaky_def flaky_trace_def flaky_retry_trace_def)

lemma flaky_second_load:
  "loadAllData env_flaky
      \<lparr>app_data = m, isLoading = l, hasErrors = h, config = default_config,
         validator = vs, renderer = r, page = pg, trace = flaky_trace\<rparr> =
     (None,
      \<lparr>app_data = m(''historical_events'' \<mapsto> JObj []),
         isLoading = l, hasErrors = h, config = default_config,
         validator = snd (validateJSONData (JObj []) ''historical_events'' vs),
         renderer = r, page = pg, trace = flaky_retry_trace\<rparr>)"
  by (simp add: loadAllData_def flaky_mandatory_again case_prod_beta flaky_optional_again)

lemma flaky_retry:
  "app_data (retryDataLoad env_flaky (startApp env_flaky page1)) =
     [''historical_events'' \<mapsto> JObj [], ''statistics'' \<mapsto> JObj [(''users'', JNum 5)]]"
  "hasErrors (retryDataLoad env_flaky (startApp env_flaky page1)) = False"
  "trace (retryDataLoad env_flaky (startApp env_flaky page1)) = flaky_retry_trace"
  by (simp_all add: retryDataLoad_def flaky_start closeErrorModal_def showLoadingOverlay_def
      page1_fields load_and_render_def flaky_second_load renderAllContent_def
      waitForTemplatesReady_def polling_ready renderer5_facts empty_renders
      hideLoadingOverlay_def fun_upd_twist)

lemma load_optional_source:
  assumes "app_data (load_optional e g a) k = Some v"
  shows "app_data a k = Some v \<or>
         (fileName_of g = Inr k \<and> truthy v \<and>
          (\<exists>h tr'. loadJSONFile e (config a) g h = (Inr v, tr')))"
proof -
  obtain res tr' where l: "loadJSONFile e (config a) g (trace a) = (res, tr')"
    by (cases "loadJSONFile e (config a) g (trace a)")
  show ?thesis
  proof (cases res)
    case (Inl err)
    with l assms show ?thesis by (simp add: load_optional_def)
  next
    case (Inr d)
    show ?thesis
    proof (cases "truthy d \<and> fileName_of g = Inr k")
      case True
      with l Inr assms have "v = d" by (simp add: load_optional_def)
      with True l Inr show ?thesis by blast
    next
      case False
      with l Inr assms have "app_data a k = Some v"
        by (auto simp: load_optional_def split: sum.splits if_splits)
      then show ?thesis by simp
    qed
  qed
qed

lemma foldl_load_optional_source:
  "app_data (foldl (\<lambda>a g. load_optional e g a) a gs) k = Some v \<Longrightarrow>
   app_data a k = Some v \<or>
   (\<exists>g\<in>set gs. fileName_of g = Inr k \<and> truthy v \<and>
      (\<exists>h tr'. loadJSONFile e (config a) g h = (Inr v, tr')))"
proof (induction gs arbitrary: a)
  case Nil
  then show ?case by simp
next
  case (Cons g gs)
  from Cons.IH [of "load_optional e g a"] Cons.prems
  have "app_data (load_optional e g a) k = Some v \<or>
   (\<exists>g\<in>set gs. fileName_of g = Inr k \<and> truthy v \<and>
      (\<exists>h tr'. loadJSONFile e (config a) g h = (Inr v, tr')))"
    by (simp add: load_optional_frame)
  then show ?case
  proof
    assume "app_data (load_optional e g a) k = Some v"
    from load_optional_source [OF this] show ?thesis by auto
  next
    assume "\<exists>g\<in>set gs. fileName_of g = Inr k \<and> truthy v \<and>
      (\<exists>h tr'. loadJSONFile e (config a) g h = (Inr v, tr'))"
    then show ?thesis by auto
  qed
qed

lemma loadAllData_source:
  assumes "app_data (snd (loadAllData e a)) k = Some v"
  shows "app_data a k = Some v \<or>
         (k = ''historical_events'' \<and> truthy v \<and>
          (\<exists>h tr'. loadJSONFile e (config a) ''data/historical_events.json'' h = (Inr v, tr'))) \<or>
         (\<exists>g\<in>set optionalFiles. fileName_of g = Inr k \<and> truthy v \<and>
            (\<exists>h tr'. loadJSONFile e (config a) g h = (Inr v, tr')))"
proof -
  obtain res tr' where l: "loadJSONFile e (config a) ''data/historical_events.json'' (trace a) =
      (res, tr')" by (cases "loadJSONFile e (config a) ''data/historical_events.json'' (trace a)")
  show ?thesis
  proof (cases res)
    case (Inl err)
    with l assms show ?thesis by (simp add: loadAllData_def)
  next
    case (Inr d)
    obtain vr vs where vd: "validateJSONData d ''historical_events'' (validator a) = (vr, vs)"
      by (cases "validateJSONData d ''historical_events'' (validator a)")
    let ?b = "if truthy d
              then a\<lparr>app_data := (app_data a)(''historical_events'' := Some d),
                     validator := vs, trace := tr'\<rparr>
              else a\<lparr>trace := tr'\<rparr>"
    from assms l Inr vd have "app_data (loadOptionalDataFiles e ?b) k = Some v"
      by (cases "truthy d") (simp_all add: loadAllData_def)
    from foldl_load_optional_source [OF this [unfolded loadOptionalDataFiles_def]]
    have "app_data ?b k = Some v \<or>
       (\<exists>g\<in>set optionalFiles. fileName_of g = Inr k \<and> truthy v \<and>
          (\<exists>h tr'. loadJSONFile e (config a) g h = (Inr v, tr')))"
      by (cases "truthy d") simp_all
    then show ?thesis
    proof
      assume b: "app_data ?b k = Some v"
      show ?thesis
      proof (cases "truthy d \<and> k = ''historical_events''")
        case True
        with b have "v = d" by simp
        with True l Inr show ?thesis by blast
      next
        case False
        with b have "app_data a k = Some v" by (auto split: if_splits)
        then show ?thesis by simp
      qed
    next
      assume "\<exists>g\<in>set optionalFiles. fileName_of g = Inr k \<and> truthy v \<and>
          (\<exists>h tr'. loadJSONFile e (config a) g h = (Inr v, tr'))"
      then show ?thesis by simp
    qed
  qed
qed

lemma prefix_drop_mono:
  assumes "prefix xs ys"
  shows "set (drop n xs) \<subseteq> set (drop n ys)"
proof -
  from assms obtain zs where "ys = xs @ zs" by (auto simp: prefix_def)
  then show ?thesis by auto
qed

lemma prefix_fetch_dropped:
  assumes "prefix (tr @ [ev]) ys"
  shows "ev \<in> set (drop (length tr) ys)"
proof -
  from assms obtain zs where "ys = (tr @ [ev]) @ zs" by (auto simp: prefix_def)
  then show ?thesis by simp
qed

lemma foldl_load_optional_refetches:
  "0 < retryAttempts (config a) \<Longrightarrow>
   Fetch ` set gs \<subseteq> set (drop (length (trace a)) (trace (foldl (\<lambda>a g. load_optional e g a) a gs)))"
proof (induction gs arbitrary: a)
  case Nil
  then show ?case by simp
next
  case (Cons g gs)
  let ?b = "load_optional e g a"
  let ?c = "foldl (\<lambda>a g. load_optional e g a) ?b gs"
  from Cons.prems have n: "0 < retryAttempts (config ?b)" by (simp add: load_optional_frame)
  have first: "prefix (trace a @ [Fetch g]) (trace ?b)"
    by (rule load_optional_first [OF Cons.prems])
  have rest: "prefix (trace ?b) (trace ?c)" by (rule foldl_load_optional_trace)
  from first rest have "prefix (trace a @ [Fetch g]) (trace ?c)" by (rule prefix_order.trans)
  then have g: "Fetch g \<in> set (drop (length (trace a)) (trace ?c))"
    by (rule prefix_fetch_dropped [where ev = "Fetch g"])
  from first have "length (trace a) \<le> length (trace ?b)"
    by (auto simp: prefix_def)
  then have "set (drop (length (trace ?b)) (trace ?c)) \<subseteq> set (drop (length (trace a)) (trace ?c))"
    by (rule set_drop_subset_set_drop)
  with Cons.IH [OF n] g show ?case by auto
qed

lemma loadAllData_refetches:
  assumes "0 < retryAttempts (config a)"
    and "fst (loadJSONFile e (config a) ''data/historical_events.json'' (trace a)) = Inr d"
  shows "Fetch ` set optionalFiles \<subseteq> set (drop (length (trace a)) (trace (snd (loadAllData e a))))"
proof -
  obtain tr' where l: "loadJSONFile e (config a) ''data/historical_events.json'' (trace a) =
      (Inr d, tr')"
    using assms(2)
    by (cases "loadJSONFile e (config a) ''data/historical_events.json'' (trace a)") simp
  let ?b = "if truthy d
            then a\<lparr>app_data := (app_data a)(''historical_events'' := Some d),
                   validator := snd (validateJSONData d ''historical_events'' (validator a)),
                   trace := tr'\<rparr>
            else a\<lparr>trace := tr'\<rparr>"
  have la: "snd (loadAllData e a) = loadOptionalDataFiles e ?b"
    using l by (simp add: loadAllData_def case_prod_beta)
  have b: "trace ?b = tr'" "0 < retryAttempts (config ?b)" using assms(1) by simp_all
  have "prefix (trace a) (snd (loadJSONFile e (config a) ''data/historical_events.json'' (trace a)))"
    unfolding loadJSONFile_trace by (rule attempts_prefix)
  with l have "length (trace a) \<le> length tr'" by (auto simp: prefix_def)
  then have "set (drop (length tr') (trace (loadOptionalDataFiles e ?b))) \<subseteq>
      set (drop (length (trace a)) (trace (loadOptionalDataFiles e ?b)))"
    by (rule set_drop_subset_set_drop)
  with foldl_load_optional_refetches [OF b(2), of optionalFiles e] b(1) la show ?thesis
    by (auto simp: loadOptionalDataFiles_def)
qed

lemma load_and_render_after_load:
  "prefix (trace (snd (loadAllData e a))) (trace (load_and_render e a))"
proof -
  obtain x a1 where l: "loadAllData e a = (x, a1)" by (cases "loadAllData e a")
  obtain y a2 where r: "renderAllContent a1 = (y, a2)" by (cases "renderAllContent a1")
  from renderAllContent_trace [of a1] r have "prefix (trace a1) (trace a2)" by simp
  with l r show ?thesis by (cases x; cases y) (simp_all add: load_and_render_def)
qed

lemma retry_refetches:
  assumes "0 < retryAttempts (config a)"
    and "fst (loadJSONFile e (config a) ''data/historical_events.json'' (trace a)) = Inr d"
  shows "Fetch ` set optionalFiles \<subseteq> set (drop (length (trace a)) (trace (retryDataLoad e a)))"
proof -
  let ?a = "showLoadingOverlay (closeErrorModal a)"
  have a: "config ?a = config a" "trace ?a = trace a" by simp_all
  from assms have "Fetch ` set optionalFiles \<subseteq>
      set (drop (length (trace ?a)) (trace (snd (loadAllData e ?a))))"
    by (intro loadAllData_refetches) (simp_all add: a)
  also have "\<dots> \<subseteq> set (drop (length (trace ?a)) (trace (load_and_render e ?a)))"
    by (rule prefix_drop_mono) (rule load_and_render_after_load)
  finally show ?thesis by (simp add: retryDataLoad_def)
qed

text \<open>
  Claim C5, as amended. \<open>retryDataLoad\<close> replays the load from the first request: the
  mandatory file is requested again and, when it loads, each optional file is requested
  again. It does not clear \<^verbatim>\<open>this.data\<close>: a key that is
  there before the retry is there after it, and when every attempt to load an optional
  file fails, the file's key is left as it was, with the value of the earlier pass if it
  had one. A key holds a value after the retry only if it held that value before, or a
  load of its file returned that value.
\<close>

theorem retry_keeps_data:
  "(app_data a k \<noteq> None \<longrightarrow> app_data (retryDataLoad e a) k \<noteq> None) \<and>
   (f \<in> set optionalFiles \<and> always_fails e f \<and> fileName_of f = Inr k \<and>
      0 < retryAttempts (config a) \<longrightarrow>
      app_data (retryDataLoad e a) k = app_data a k) \<and>
   (0 < retryAttempts (config a) \<longrightarrow>
      prefix (trace a @ [Fetch ''data/historical_events.json'']) (trace (retryDataLoad e a))) \<and>
   (app_data (retryDataLoad e a) k = Some v \<longrightarrow>
      app_data a k = Some v \<or>
      (k = ''historical_events'' \<and> truthy v \<and>
       (\<exists>h tr'. loadJSONFile e (config a) ''data/historical_events.json'' h = (Inr v, tr'))) \<or>
      (\<exists>g\<in>set optionalFiles. fileName_of g = Inr k \<and> truthy v \<and>
         (\<exists>h tr'. loadJSONFile e (config a) g h = (Inr v, tr')))) \<and>
   (0 < retryAttempts (config a) \<and>
      fst (loadJSONFile e (config a) ''data/historical_events.json'' (trace a)) = Inr d \<longrightarrow>
      Fetch ` set optionalFiles \<subseteq>
        set (drop (length (trace a)) (trace (retryDataLoad e a))))"
proof (intro conjI impI)
  assume "app_data a k \<noteq> None"
  then have "app_data (showLoadingOverlay (closeErrorModal a)) k \<noteq> None" by simp
  then show "app_data (retryDataLoad e a) k \<noteq> None"
    unfolding retryDataLoad_def load_and_render_data by (rule loadAllData_keeps)
next
  assume "f \<in> set optionalFiles \<and> always_fails e f \<and> fileName_of f = Inr k \<and>
      0 < retryAttempts (config a)"
  then have f: "f \<in> set optionalFiles" "always_fails e f" "fileName_of f = Inr k"
    and n: "0 < retryAttempts (config (showLoadingOverlay (closeErrorModal a)))" by simp_all
  from loadAllData_key [OF f n] show "app_data (retryDataLoad e a) k = app_data a k"
    by (simp add: retryDataLoad_def load_and_render_data)
next
  assume "0 < retryAttempts (config a)"
  then have "0 < retryAttempts (config (showLoadingOverlay (closeErrorModal a)))" by simp
  from load_and_render_trace [OF this, of e]
  show "prefix (trace a @ [Fetch ''data/historical_events.json'']) (trace (retryDataLoad e a))"
    by (simp add: retryDataLoad_def)
next
  assume "app_data (retryDataLoad e a) k = Some v"
  then have "app_data (snd (loadAllData e (showLoadingOverlay (closeErrorModal a)))) k = Some v"
    by (simp add: retryDataLoad_def load_and_render_data)
  from loadAllData_source [OF this]
  show "app_data a k = Some v \<or>
      (k = ''historical_events'' \<and> truthy v \<and>
       (\<exists>h tr'. loadJSONFile e (config a) ''data/historical_events.json'' h = (Inr v, tr'))) \<or>
      (\<exists>g\<in>set optionalFiles. fileName_of g = Inr k \<and> truthy v \<and>
         (\<exists>h tr'. loadJSONFile e (config a) g h = (Inr v, tr')))"
    by simp
next
  assume "0 < retryAttempts (config a) \<and>
      fst (loadJSONFile e (config a) ''data/historical_events.json'' (trace a)) = Inr d"
  then have "0 < retryAttempts (config a)"
    and "fst (loadJSONFile e (config a) ''data/historical_events.json'' (trace a)) = Inr d"
    by simp_all
  then show "Fetch ` set optionalFiles \<subseteq>
        set (drop (length (trace a)) (trace (retryDataLoad e a)))"
    by (rule retry_refetches)
qed

lemma env_only_optional_fails:
  "filePath \<noteq> ''data/historical_events.json'' \<Longrightarrow> always_fails (env_only text) filePath"
  by (simp add: always_fails_def attempt_error_def attempt_body_def env_only_def not_found_def)

lemma statistics_optional: "''data/statistics.json'' \<in> set optionalFiles"
  by (simp add: optionalFiles_def)

theorem retry_keeps_data_witness:
  "app_data (retryDataLoad (env_only ''{}'') (startApp env_flaky page1)) ''statistics'' =
     Some (JObj [(''users'', JNum 5)]) \<and>
   prefix (flaky_trace @ [Fetch ''data/historical_events.json''])
     (trace (retryDataLoad (env_only ''{}'') (startApp env_flaky page1))) \<and>
   app_data (retryDataLoad env_flaky (startApp env_flaky page1)) ''statistics'' \<noteq> None \<and>
   (\<exists>h tr'. loadJSONFile env_flaky default_config ''data/historical_events.json'' h =
      (Inr (JObj []), tr')) \<and>
   Fetch ` set optionalFiles \<subseteq>
     set (drop (length flaky_trace)
            (trace (retryDataLoad env_flaky (startApp env_flaky page1))))"
proof -
  let ?a = "startApp env_flaky page1"
  have stats: "app_data ?a ''statistics'' = Some (JObj [(''users'', JNum 5)])"
    and hist: "app_data ?a ''historical_events'' = Some (JObj [(''mobileEra'', JObj [])])"
    and tr: "trace ?a = flaky_trace"
    by (simp_all add: flaky_start)
  have n: "0 < retryAttempts (config ?a)" by (simp add: default_config_def)
  have "''data/statistics.json'' \<in> set optionalFiles \<and>
      always_fails (env_only ''{}'') ''data/statistics.json'' \<and>
      fileName_of ''data/statistics.json'' = Inr ''statistics'' \<and> 0 < retryAttempts (config ?a)"
    using n by (simp add: statistics_optional env_only_optional_fails optional_names)
  from retry_keeps_data [THEN conjunct2, THEN conjunct1, rule_format, OF this] stats
  have 1: "app_data (retryDataLoad (env_only ''{}'') ?a) ''statistics'' =
     Some (JObj [(''users'', JNum 5)])" by simp
  from retry_keeps_data [THEN conjunct2, THEN conjunct2, THEN conjunct1, rule_format, OF n,
      of "env_only ''{}''"] tr
  have 2: "prefix (flaky_trace @ [Fetch ''data/historical_events.json''])
     (trace (retryDataLoad (env_only ''{}'') ?a))" by simp
  from stats have "app_data ?a ''statistics'' \<noteq> None" by simp
  from retry_keeps_data [THEN conjunct1, rule_format, OF this]
  have 3: "app_data (retryDataLoad env_flaky ?a) ''statistics'' \<noteq> None" .
  have "app_data (retryDataLoad env_flaky ?a) ''historical_events'' = Some (JObj [])"
    by (simp add: flaky_retry)
  from retry_keeps_data [THEN conjunct2, THEN conjunct2, THEN conjunct2, THEN conjunct1,
      rule_format, OF this]
    hist optional_key_not_primary
  have 4: "\<exists>h tr'. loadJSONFile env_flaky default_config ''data/historical_events.json'' h =
      (Inr (JObj []), tr')"
    by auto
  have "0 < retryAttempts (config ?a) \<and>
      fst (loadJSONFile env_flaky (config ?a) ''data/historical_events.json'' (trace ?a)) =
        Inr (JObj [])"
    using n by (simp add: tr flaky_mandatory_again)
  from retry_keeps_data [THEN conjunct2, THEN conjunct2, THEN conjunct2, THEN conjunct2,
      rule_format, OF this] tr
  have 5: "Fetch ` set optionalFiles \<subseteq>
     set (drop (length flaky_trace)
            (trace (retryDataLoad env_flaky (startApp env_flaky page1))))"
    by simp
  from 1 2 3 4 5 show ?thesis by (intro conjI)
qed

text \<open>
  Claim C5 as stated fails. The statistics file is there for the first request only. The
  first pass loads it and then fails in rendering; in the retry the three attempts to
  load it again fail, and the key \<^verbatim>\<open>statistics\<close> is still there, with the value of the
  first pass, when the retry has rendered and ended without an error.
\<close>

theorem retry_keeps_stale_key:
  "hasErrors (startApp env_flaky page1) \<and>
   app_data (startApp env_flaky page1) ''statistics'' = Some (JObj [(''users'', JNum 5)]) \<and>
   trace (startApp env_flaky page1) = flaky_trace \<and>
   loadJSONFile env_flaky default_config ''data/statistics.json''
       (flaky_trace @ [Fetch ''data/historical_events.json'']) =
     (Inr JNull,
      flaky_trace @
      [Fetch ''data/historical_events.json'',
       Fetch ''data/statistics.json'', Delay 1000, Fetch ''data/statistics.json'', Delay 2000,
       Fetch ''data/statistics.json'']) \<and>
   trace (retryDataLoad env_flaky (startApp env_flaky page1)) = flaky_retry_trace \<and>
   app_data (retryDataLoad env_flaky (startApp env_flaky page1)) ''statistics'' =
     Some (JObj [(''users'', JNum 5)]) \<and>
   app_data (retryDataLoad env_flaky (startApp env_flaky page1)) ''historical_events'' =
     Some (JObj []) \<and>
   \<not> hasErrors (retryDataLoad env_flaky (startApp env_flaky page1))"
proof -
  have "app_data (retryDataLoad env_flaky (startApp env_flaky page1)) ''statistics'' =
      Some (JObj [(''users'', JNum 5)])"
    and "app_data (retryDataLoad env_flaky (startApp env_flaky page1)) ''historical_events'' =
      Some (JObj [])"
    and "\<not> hasErrors (retryDataLoad env_flaky (startApp env_flaky page1))"
    unfolding flaky_retry by simp_all
  moreover have "hasErrors (startApp env_flaky page1)"
    and "app_data (startApp env_flaky page1) ''statistics'' = Some (JObj [(''users'', JNum 5)])"
    and "trace (startApp env_flaky page1) = flaky_trace"
    unfolding flaky_start by simp_all
  ultimately show ?thesis
    using flaky_retry(3) flaky_statistics_again by (intro conjI)
qed

lemma load_optional_errors [simp]: "hasErrors (load_optional e g a) = hasErrors a"
  by (auto simp: load_optional_def split: prod.splits sum.splits)

lemma loadOptionalDataFiles_frame:
  "renderer (loadOptionalDataFiles e a) = renderer a"
  "page (loadOptionalDataFiles e a) = page a"
  "hasErrors (loadOptionalDataFiles e a) = hasErrors a"
proof -
  have "renderer (foldl (\<lambda>a g. load_optional e g a) a gs) = renderer a \<and>
        page (foldl (\<lambda>a g. load_optional e g a) a gs) = page a \<and>
        hasErrors (foldl (\<lambda>a g. load_optional e g a) a gs) = hasErrors a" for gs
    by (induction gs arbitrary: a) (simp_all add: load_optional_frame)
  then show "renderer (loadOptionalDataFiles e a) = renderer a"
    "page (loadOptionalDataFiles e a) = page a"
    "hasErrors (loadOptionalDataFiles e a) = hasErrors a"
    by (simp_all add: loadOptionalDataFiles_def)
qed

lemma loadOptionalDataFiles_primary:
  "app_data (loadOptionalDataFiles e a) ''historical_events'' = app_data a ''historical_events''"
proof -
  have "set gs \<subseteq> set optionalFiles \<Longrightarrow>
      app_data (foldl (\<lambda>a g. load_optional e g a) a gs) ''historical_events'' =
      app_data a ''historical_events''" for gs
  proof (induction gs arbitrary: a)
    case Nil
    then show ?case by simp
  next
    case (Cons g gs)
    then have "g \<in> set optionalFiles" by simp
    with optional_key_not_primary [of g "''historical_events''"]
    have "fileName_of g \<noteq> Inr ''historical_events''" by auto
    then have "app_data (load_optional e g a) ''historical_events'' =
        app_data a ''historical_events''"
      by (rule load_optional_other_key)
    with Cons show ?case by simp
  qed
  then show ?thesis by (simp add: loadOptionalDataFiles_def)
qed

lemma load_and_render_completes:
  assumes l: "fst (loadJSONFile e (config a) ''data/historical_events.json'' (trace a)) = Inr d"
    and d: "truthy d" and r: "isReady (renderer a)"
    and u: "fst (render_sections (renderer a) d (page a)) = Inr u"
  shows "load_and_render e a =
     hideLoadingOverlay
       ((snd (loadAllData e a))\<lparr>page := snd (render_sections (renderer a) d (page a))\<rparr>)"
    and "hasErrors (load_and_render e a) = hasErrors a"
proof -
  obtain tr' where l': "loadJSONFile e (config a) ''data/historical_events.json'' (trace a) =
      (Inr d, tr')"
    using l by (cases "loadJSONFile e (config a) ''data/historical_events.json'' (trace a)") simp
  let ?b = "a\<lparr>app_data := (app_data a)(''historical_events'' := Some d),
              validator := snd (validateJSONData d ''historical_events'' (validator a)),
              trace := tr'\<rparr>"
  have la: "loadAllData e a = (None, loadOptionalDataFiles e ?b)"
    using l' d by (simp add: loadAllData_def case_prod_beta)
  let ?a1 = "loadOptionalDataFiles e ?b"
  have f: "renderer ?a1 = renderer a" "page ?a1 = page a" "hasErrors ?a1 = hasErrors a"
    "app_data ?a1 ''historical_events'' = Some d"
    by (simp_all add: loadOptionalDataFiles_frame loadOptionalDataFiles_primary)
  obtain p' where rs: "render_sections (renderer a) d (page a) = (Inr u, p')"
    using u by (cases "render_sections (renderer a) d (page a)") simp
  from r f have "isReady (renderer ?a1)" by simp
  from renderAllContent_ready [OF this f(4) d] rs f
  have ra: "renderAllContent ?a1 = (None, ?a1\<lparr>page := p'\<rparr>)" by simp
  from la ra rs show "load_and_render e a =
     hideLoadingOverlay
       ((snd (loadAllData e a))\<lparr>page := snd (render_sections (renderer a) d (page a))\<rparr>)"
    by (simp add: load_and_render_def)
  then show "hasErrors (load_and_render e a) = hasErrors a"
    using la f by (simp add: hideLoadingOverlay_def split: option.splits)
qed

text \<open>
  Claim C6. Take an optional file for which every attempt fails, and let \<open>k\<close> be its key.
  \<open>loadJSONFile\<close> returns \<^verbatim>\<open>null\<close> for it, after the attempts and delays of the retry
  budget, and throws nothing. The loop over the optional files goes on: each of them is
  requested; a key \<open>k\<close> that is absent before the loop is absent after it (absent, not
  there with the value \<^verbatim>\<open>null\<close>), and \<open>loadAllData\<close> throws nothing when the mandatory
  file loads. When moreover the templates are ready and rendering the mandatory document
  throws nothing, loading and rendering end with hiding the loading overlay, and no
  error is shown. After \<open>startApp\<close>, and after a retry that follows it, the key \<open>k\<close> is
  absent from the data.
\<close>

theorem optional_degrades:
  assumes "f \<in> set optionalFiles" and "always_fails e f" and "fileName_of f = Inr k"
  shows "(0 < retryAttempts cfg \<longrightarrow>
            loadJSONFile e cfg f tr = (Inr JNull, tr @ schedule cfg f 1)) \<and>
         (0 < retryAttempts (config a) \<longrightarrow>
            Fetch ` set optionalFiles \<subseteq> set (trace (loadOptionalDataFiles e a))) \<and>
         (0 < retryAttempts (config a) \<and> app_data a k = None \<longrightarrow>
            app_data (loadOptionalDataFiles e a) k = None \<and>
            app_data (snd (loadAllData e a)) k = None \<and>
            (fst (loadJSONFile e (config a) ''data/historical_events.json'' (trace a)) = Inr d \<longrightarrow>
               fst (loadAllData e a) = None)) \<and>
         (fst (loadJSONFile e (config a) ''data/historical_events.json'' (trace a)) = Inr d \<and>
            truthy d \<and> isReady (renderer a) \<and>
            fst (render_sections (renderer a) d (page a)) = Inr u \<longrightarrow>
            load_and_render e a =
              hideLoadingOverlay
                ((snd (loadAllData e a))
                   \<lparr>page := snd (render_sections (renderer a) d (page a))\<rparr>) \<and>
            hasErrors (load_and_render e a) = hasErrors a) \<and>
         app_data (startApp e p) k = None \<and>
         app_data (retryDataLoad e (startApp e p)) k = None"
proof (intro conjI impI)
  assume "0 < retryAttempts cfg"
  from loadJSONFile_all_fail [OF assms(2) this, of tr] optional_not_mandatory [OF assms(1)]
  show "loadJSONFile e cfg f tr = (Inr JNull, tr @ schedule cfg f 1)" by auto
next
  assume "0 < retryAttempts (config a)"
  then show "Fetch ` set optionalFiles \<subseteq> set (trace (loadOptionalDataFiles e a))"
    by (rule loadOptionalDataFiles_fetches)
next
  assume a: "0 < retryAttempts (config a) \<and> app_data a k = None"
  then show "app_data (loadOptionalDataFiles e a) k = None"
    by (simp add: loadOptionalDataFiles_key [OF assms])
  from a show "app_data (snd (loadAllData e a)) k = None"
    by (simp add: loadAllData_key [OF assms])
  assume "fst (loadJSONFile e (config a) ''data/historical_events.json'' (trace a)) = Inr d"
  then show "fst (loadAllData e a) = None"
    by (auto simp: loadAllData_def split: prod.splits sum.splits)
next
  assume c: "fst (loadJSONFile e (config a) ''data/historical_events.json'' (trace a)) = Inr d \<and>
            truthy d \<and> isReady (renderer a) \<and>
            fst (render_sections (renderer a) d (page a)) = Inr u"
  then have c: "fst (loadJSONFile e (config a) ''data/historical_events.json'' (trace a)) = Inr d"
    "truthy d" "isReady (renderer a)" "fst (render_sections (renderer a) d (page a)) = Inr u"
    by simp_all
  show "load_and_render e a =
              hideLoadingOverlay
                ((snd (loadAllData e a))
                   \<lparr>page := snd (render_sections (renderer a) d (page a))\<rparr>)"
    by (rule load_and_render_completes(1) [OF c])
  show "hasErrors (load_and_render e a) = hasErrors a"
    by (rule load_and_render_completes(2) [OF c])
next
  let ?a0 = "\<lparr>app_data = (\<lambda>k. None), isLoading = False, hasErrors = False,
                config = default_config, validator = new_validator,
                renderer = \<lparr>compiledTemplates = (\<lambda>n. None), templateElements = (\<lambda>n. None),
                              inherited = Object_prototype e\<rparr>,
                page = p, trace = []\<rparr>"
  show start: "app_data (startApp e p) k = None"
  proof (cases "new_renderer (Handlebars_compile e) (Object_prototype e) p")
    case (Inl err)
    then show ?thesis by (simp add: startApp_def)
  next
    case (Inr r)
    have n: "0 < retryAttempts (config (showLoadingOverlay (?a0\<lparr>renderer := r\<rparr>)))"
      by (simp add: default_config_def)
    from loadAllData_key [OF assms n] Inr show ?thesis
      by (simp add: startApp_def load_and_render_data)
  qed
  have "0 < retryAttempts (config (showLoadingOverlay (closeErrorModal (startApp e p))))"
    by (simp add: default_config_def)
  from loadAllData_key [OF assms this] start
  show "app_data (retryDataLoad e (startApp e p)) k = None"
    by (simp add: retryDataLoad_def load_and_render_data)
qed

lemma only_mandatory:
  "fst (loadJSONFile (env_only ''{}'') (config app5) ''data/historical_events.json'' (trace app5)) =
     Inr (JObj [])"
  by (simp add: loader_defs env_only_def app5_def)

theorem optional_degrades_witness:
  "loadJSONFile (env_only ''{}'') default_config ''data/statistics.json'' [] =
     (Inr JNull,
      [Fetch ''data/statistics.json'', Delay 1000, Fetch ''data/statistics.json'', Delay 2000,
       Fetch ''data/statistics.json'']) \<and>
   Fetch ` set optionalFiles \<subseteq> set (trace (loadOptionalDataFiles (env_only ''{}'') app5)) \<and>
   app_data (loadOptionalDataFiles (env_only ''{}'') app5) ''statistics'' = None \<and>
   app_data (snd (loadAllData (env_only ''{}'') app5)) ''statistics'' = None \<and>
   fst (loadAllData (env_only ''{}'') app5) = None \<and>
   load_and_render (env_only ''{}'') app5 =
     hideLoadingOverlay
       ((snd (loadAllData (env_only ''{}'') app5))
          \<lparr>page := snd (render_sections renderer5 (JObj []) page1)\<rparr>) \<and>
   \<not> hasErrors (load_and_render (env_only ''{}'') app5) \<and>
   app_data (startApp (env_only ''{}'') page1) ''statistics'' = None \<and>
   app_data (retryDataLoad (env_only ''{}'') (startApp (env_only ''{}'') page1)) ''statistics'' = None"
proof -
  have fails: "always_fails (env_only ''{}'') ''data/statistics.json''"
    by (rule env_only_optional_fails) simp
  note c = optional_degrades [OF statistics_optional fails optional_names(1)]
  have n: "0 < retryAttempts default_config" "0 < retryAttempts (config app5)"
    by (simp_all add: default_config_def app5_def)
  from c [THEN conjunct1, rule_format, OF n(1), of "[]"]
  have 1: "loadJSONFile (env_only ''{}'') default_config ''data/statistics.json'' [] =
     (Inr JNull,
      [Fetch ''data/statistics.json'', Delay 1000, Fetch ''data/statistics.json'', Delay 2000,
       Fetch ''data/statistics.json''])"
    by (simp add: default_schedule)
  note 2 = c [THEN conjunct2, THEN conjunct1, rule_format, OF n(2)]
  have "0 < retryAttempts (config app5) \<and> app_data app5 ''statistics'' = None"
    using n by (simp add: app5_def)
  from c [THEN conjunct2, THEN conjunct2, THEN conjunct1, rule_format, OF this] only_mandatory
  have 3: "app_data (loadOptionalDataFiles (env_only ''{}'') app5) ''statistics'' = None"
    "app_data (snd (loadAllData (env_only ''{}'') app5)) ''statistics'' = None"
    "fst (loadAllData (env_only ''{}'') app5) = None"
    by simp_all
  have f: "renderer app5 = renderer5" "page app5 = page1" "hasErrors app5 = False"
    by (simp_all add: app5_def)
  have "fst (loadJSONFile (env_only ''{}'') (config app5) ''data/historical_events.json''
              (trace app5)) = Inr (JObj []) \<and>
        truthy (JObj []) \<and> isReady (renderer app5) \<and>
        fst (render_sections (renderer app5) (JObj []) (page app5)) = Inr ()"
    using only_mandatory renderer5_facts(1) by (simp add: empty_renders f)
  note completes = c [THEN conjunct2, THEN conjunct2, THEN conjunct2, THEN conjunct1, rule_format,
      OF this, unfolded f]
  from completes [THEN conjunct1]
  have 4: "load_and_render (env_only ''{}'') app5 =
     hideLoadingOverlay
       ((snd (loadAllData (env_only ''{}'') app5))
          \<lparr>page := snd (render_sections renderer5 (JObj []) page1)\<rparr>)" .
  from completes [THEN conjunct2]
  have 6: "\<not> hasErrors (load_and_render (env_only ''{}'') app5)" by simp
  note 5 = c [THEN conjunct2, THEN conjunct2, THEN conjunct2, THEN conjunct2, of page1]
  from 1 2 3 4 6 5 show ?thesis by (intro conjI) simp_all
qed

lemma renderMobileEra_no_events:
  "get_prop mobileData ''events'' = Inr JUndefined \<Longrightarrow>
   renderMobileEra r mobileData p = (Inl (no_method JUndefined ''find''), p)"
  by (simp add: renderMobileEra_def bindR_def lift_def array_find_def)

lemma renderFintechEra_no_events:
  "get_prop fintechData ''events'' = Inr JUndefined \<Longrightarrow>
   renderFintechEra r fintechData p = (Inl (no_method JUndefined ''find''), p)"
  by (simp add: renderFintechEra_def bindR_def lift_def array_find_def)

lemma bindR_throws:
  "(\<And>x p1. \<exists>err p'. f x p1 = (Inl err, p')) \<Longrightarrow> \<exists>err p'. bindR m f p = (Inl err, p')"
  by (cases "m p") (auto simp: bindR_def split: sum.splits)

lemma bindR_first_throws:
  "\<exists>err p'. m p = (Inl err, p') \<Longrightarrow> \<exists>err p'. bindR m f p = (Inl err, p')"
  by (auto simp: bindR_def)

lemma render_section_throws:
  assumes "get_prop d key = Inr era" and "truthy era"
    and "\<And>p. \<exists>err p'. render era p = (Inl err, p')"
  shows "\<exists>err p'. render_section d key render p = (Inl err, p')"
proof -
  from assms(3) [of p] obtain err p' where "render era p = (Inl err, p')" by blast
  with assms(1,2) show ?thesis
    by (simp add: render_section_def bindR_def lift_def)
qed

lemma no_events_aborts:
  assumes "key = ''mobileEra'' \<or> key = ''fintechEra''"
    and "get_prop d key = Inr era" and "truthy era"
    and "get_prop era ''events'' = Inr JUndefined"
  shows "\<exists>err p'. render_sections r d p = (Inl err, p')"
  using assms(1)
proof
  assume k: "key = ''mobileEra''"
  have "\<exists>err p'. render_section d ''mobileEra'' (renderMobileEra r) p1 = (Inl err, p')" for p1
    using assms(2,3) [unfolded k]
    by (rule render_section_throws) (simp add: renderMobileEra_no_events [OF assms(4)])
  then show ?thesis
    unfolding render_sections_def
    by (intro bindR_throws [where f = "\<lambda>u. bindR (render_section d ''foundationEra'' _) _"]
        bindR_throws [where f = "\<lambda>u. bindR (render_section d ''mobileEra'' _) _"]
        bindR_first_throws)
next
  assume k: "key = ''fintechEra''"
  have "\<exists>err p'. render_section d ''fintechEra'' (renderFintechEra r) p1 = (Inl err, p')" for p1
    using assms(2,3) [unfolded k]
    by (rule render_section_throws) (simp add: renderFintechEra_no_events [OF assms(4)])
  then show ?thesis
    unfolding render_sections_def
    by (intro bindR_throws [where f = "\<lambda>u. bindR (render_section d ''foundationEra'' _) _"]
        bindR_throws [where f = "\<lambda>u. bindR (render_section d ''mobileEra'' _) _"]
        bindR_throws [where f = "\<lambda>u. bindR (render_section d ''fintechEra'' _) _"]
        bindR_first_throws)
qed

lemma no_events_validation:
  "contents (snd (validateJSONData no_events_doc ''historical_events'' new_validator))
            (fst (validateJSONData no_events_doc ''historical_events'' new_validator)) =
     (False, [''mobileEra.events must be an array''], None)"
  by code_simp

lemma no_events_mandatory:
  "loadJSONFile (env_only no_events_text) default_config ''data/historical_events.json'' [] =
     (Inr no_events_doc, [Fetch ''data/historical_events.json''])"
  by (simp add: loader_defs env_only_def)

lemma only_optional:
  "loadOptionalDataFiles (env_only text)
      \<lparr>app_data = m, isLoading = l, hasErrors = h, config = default_config,
         validator = vs, renderer = r, page = pg,
         trace = [Fetch ''data/historical_events.json'']\<rparr> =
      \<lparr>app_data = m, isLoading = l, hasErrors = h, config = default_config,
         validator = vs, renderer = r, page = pg, trace = only_trace\<rparr>"
  by (simp add: loadOptionalDataFiles_def optionalFiles_def load_optional_def loader_defs
      env_only_def only_trace_def)

lemma no_events_load:
  "loadAllData (env_only no_events_text)
      \<lparr>app_data = (\<lambda>k. None), isLoading = l, hasErrors = h, config = default_config,
         validator = vs, renderer = r, page = pg, trace = []\<rparr> =
     (None,
      \<lparr>app_data = [''historical_events'' \<mapsto> no_events_doc],
         isLoading = l, hasErrors = h, config = default_config,
         validator = snd (validateJSONData no_events_doc ''historical_events'' vs),
         renderer = r, page = pg, trace = only_trace\<rparr>)"
proof -
  have "truthy no_events_doc" by (simp add: no_events_doc_def)
  then show ?thesis
    by (simp add: loadAllData_def no_events_mandatory case_prod_beta only_optional)
qed

lemma no_events_render:
  "fst (render_sections renderer5 no_events_doc page1) = Inl (no_method JUndefined ''find'')"
  "console (snd (render_sections renderer5 no_events_doc page1)) =
     [Rendered ''heroStats'' (Selector ''#heroStats''),
      Rendered ''historicalEvents'' (Selector ''#foundationMilestones''),
      TargetNotFound (Selector ''#foundationStats''),
      Rendered ''historicalEvents'' (Selector ''#foundationTimeline'')]"
  "loadingOverlay (snd (render_sections renderer5 no_events_doc page1)) = Some False"
  "errorModal (snd (render_sections renderer5 no_events_doc page1)) = Some ''none''"
  "errorMessage (snd (render_sections renderer5 no_events_doc page1)) = Some []"
  "innerHTML (snd (render_sections renderer5 no_events_doc page1)) 9 = ''Loading...''"
  by (code_simp, code_simp, code_simp, code_simp, code_simp, code_simp)

lemma find_message:
  "userMessage (no_method JUndefined ''find'') =
     ''An error occurred while loading the Pakistan Internet Timeline. Please try refreshing the page or contact support if the problem persists.''"
  "message (no_method JUndefined ''find'') =
     ''Cannot read properties of undefined (reading '' @ quoted ''find'' @ '')''"
  by (code_simp, code_simp)

lemma only_fields:
  "Handlebars_compile (env_only text) = handlebars1" "Object_prototype (env_only text) = prototype1"
  by (simp_all add: env_only_def)

lemma page1_shown: "page1\<lparr>loadingOverlay := Some False\<rparr> = page1"
  by (simp add: page1_def)

lemma no_events_start:
  "startApp (env_only no_events_text) page1 =
     \<lparr>app_data = [''historical_events'' \<mapsto> no_events_doc],
        isLoading = False, hasErrors = True, config = default_config,
        validator = snd (validateJSONData no_events_doc ''historical_events'' new_validator),
        renderer = renderer5,
        page = (snd (render_sections renderer5 no_events_doc page1))
                 \<lparr>loadingOverlay := Some True, errorModal := Some ''flex'',
                    errorMessage := Some (userMessage (no_method JUndefined ''find''))\<rparr>,
        trace = only_trace\<rparr>"
proof -
  have "truthy no_events_doc" by (simp add: no_events_doc_def)
  then show ?thesis
    by (simp add: startApp_def only_fields renderer5_facts showLoadingOverlay_def page1_fields
        page1_shown load_and_render_def no_events_load renderAllContent_def
        waitForTemplatesReady_def polling_ready case_prod_beta no_events_render
        handleAppError_def hideLoadingOverlay_def showErrorModal_def)
qed

lemma foundation_no_events_mandatory:
  "loadJSONFile (env_only foundation_no_events_text) default_config
       ''data/historical_events.json'' [] =
     (Inr foundation_no_events_doc, [Fetch ''data/historical_events.json''])"
  by (simp add: loader_defs env_only_def)

lemma foundation_no_events_render:
  "fst (render_sections renderer5 foundation_no_events_doc page1) = Inr ()"
  "console (snd (render_sections renderer5 foundation_no_events_doc page1)) =
     [Rendered ''heroStats'' (Selector ''#heroStats''),
      Rendered ''historicalEvents'' (Selector ''#foundationMilestones''),
      TargetNotFound (Selector ''#foundationStats''),
      Rendered ''historicalEvents'' (Selector ''#foundationTimeline''),
      Rendered ''socialMedia'' (Selector ''#socialMediaGrowth''),
      Rendered ''companies'' (Selector ''#mobileBanking''),
      Rendered ''companies'' (Selector ''#investmentBoom'')]"
  "loadingOverlay (snd (render_sections renderer5 foundation_no_events_doc page1)) = Some False"
  by (code_simp, code_simp, code_simp)

lemma foundation_no_events_validation:
  "contents (snd (validateJSONData foundation_no_events_doc ''historical_events'' new_validator))
            (fst (validateJSONData foundation_no_events_doc ''historical_events'' new_validator)) =
     (False, [''foundationEra.events must be an array''], None)"
  by code_simp

lemma foundation_no_events_start:
  "hasErrors (startApp (env_only foundation_no_events_text) page1) = False"
  "console (page (startApp (env_only foundation_no_events_text) page1)) =
     console (snd (render_sections renderer5 foundation_no_events_doc page1))"
proof -
  have t: "truthy foundation_no_events_doc" by (simp add: foundation_no_events_doc_def)
  have l: "loadAllData (env_only foundation_no_events_text)
      \<lparr>app_data = (\<lambda>k. None), isLoading = l, hasErrors = h, config = default_config,
         validator = vs, renderer = r, page = pg, trace = []\<rparr> =
     (None,
      \<lparr>app_data = [''historical_events'' \<mapsto> foundation_no_events_doc],
         isLoading = l, hasErrors = h, config = default_config,
         validator = snd (validateJSONData foundation_no_events_doc ''historical_events'' vs),
         renderer = r, page = pg, trace = only_trace\<rparr>)" for l h vs r pg
    using t by (simp add: loadAllData_def foundation_no_events_mandatory case_prod_beta
        only_optional)
  show "hasErrors (startApp (env_only foundation_no_events_text) page1) = False"
    "console (page (startApp (env_only foundation_no_events_text) page1)) =
     console (snd (render_sections renderer5 foundation_no_events_doc page1))"
    using t
    by (simp_all add: startApp_def only_fields renderer5_facts showLoadingOverlay_def
        page1_fields page1_shown load_and_render_def l renderAllContent_def
        waitForTemplatesReady_def polling_ready case_prod_beta foundation_no_events_render
        hideLoadingOverlay_def)
qed

text \<open>
  Claim C3. The document \<open>no_events_doc\<close> has a \<^verbatim>\<open>mobileEra\<close> without \<^verbatim>\<open>events\<close>. Its
  validation fails with the one message \<^verbatim>\<open>mobileEra.events must be an array\<close>, and
  \<open>loadAllData\<close> keeps the document all the same. \<open>renderFoundationEra\<close> reads
  \<^verbatim>\<open>events.find\<close> only when \<^verbatim>\<open>events\<close> is there; \<open>renderMobileEra\<close> and \<open>renderFintechEra\<close>
  read it without that guard, so here \<open>renderMobileEra\<close> throws a \<^verbatim>\<open>TypeError\<close>
  (lemma \<open>no_events_aborts\<close>: so it is for every document whose \<^verbatim>\<open>mobileEra\<close> or
  \<^verbatim>\<open>fintechEra\<close> is there without \<^verbatim>\<open>events\<close>). The error ends \<open>renderAllContent\<close> after the
  hero and foundation sections: the sections after them are not rendered (the target of
  the mobile banking list still says \<^verbatim>\<open>Loading...\<close>), and \<open>startApp\<close> shows the error
  modal. On \<open>foundation_no_events_doc\<close>, where it is \<^verbatim>\<open>foundationEra\<close> that has no
  \<^verbatim>\<open>events\<close>, validation fails likewise and every section is rendered.
\<close>

theorem missing_events_aborts_rendering:
  "contents (snd (validateJSONData no_events_doc ''historical_events'' new_validator))
            (fst (validateJSONData no_events_doc ''historical_events'' new_validator)) =
     (False, [''mobileEra.events must be an array''], None) \<and>
   app_data (startApp (env_only no_events_text) page1) ''historical_events'' = Some no_events_doc \<and>
   fst (render_sections renderer5 no_events_doc page1) = Inl (no_method JUndefined ''find'') \<and>
   message (no_method JUndefined ''find'') =
     ''Cannot read properties of undefined (reading '' @ quoted ''find'' @ '')'' \<and>
   hasErrors (startApp (env_only no_events_text) page1) \<and>
   errorModal (page (startApp (env_only no_events_text) page1)) = Some ''flex'' \<and>
   errorMessage (page (startApp (env_only no_events_text) page1)) =
     Some ''An error occurred while loading the Pakistan Internet Timeline. Please try refreshing the page or contact support if the problem persists.'' \<and>
   console (page (startApp (env_only no_events_text) page1)) =
     [Rendered ''heroStats'' (Selector ''#heroStats''),
      Rendered ''historicalEvents'' (Selector ''#foundationMilestones''),
      TargetNotFound (Selector ''#foundationStats''),
      Rendered ''historicalEvents'' (Selector ''#foundationTimeline'')] \<and>
   querySelector page1 ''#mobileBanking'' = Element 9 \<and>
   innerHTML (page (startApp (env_only no_events_text) page1)) 9 = ''Loading...'' \<and>
   contents (snd (validateJSONData foundation_no_events_doc ''historical_events'' new_validator))
            (fst (validateJSONData foundation_no_events_doc ''historical_events'' new_validator)) =
     (False, [''foundationEra.events must be an array''], None) \<and>
   \<not> hasErrors (startApp (env_only foundation_no_events_text) page1) \<and>
   console (page (startApp (env_only foundation_no_events_text) page1)) =
     [Rendered ''heroStats'' (Selector ''#heroStats''),
      Rendered ''historicalEvents'' (Selector ''#foundationMilestones''),
      TargetNotFound (Selector ''#foundationStats''),
      Rendered ''historicalEvents'' (Selector ''#foundationTimeline''),
      Rendered ''socialMedia'' (Selector ''#socialMediaGrowth''),
      Rendered ''companies'' (Selector ''#mobileBanking''),
      Rendered ''companies'' (Selector ''#investmentBoom'')]"
proof -
  have q: "querySelector page1 ''#mobileBanking'' = Element 9" by code_simp
  have "app_data (startApp (env_only no_events_text) page1) ''historical_events'' =
      Some no_events_doc"
    and "hasErrors (startApp (env_only no_events_text) page1)"
    and "errorModal (page (startApp (env_only no_events_text) page1)) = Some ''flex''"
    and "errorMessage (page (startApp (env_only no_events_text) page1)) =
     Some ''An error occurred while loading the Pakistan Internet Timeline. Please try refreshing the page or contact support if the problem persists.''"
    and "console (page (startApp (env_only no_events_text) page1)) =
     [Rendered ''heroStats'' (Selector ''#heroStats''),
      Rendered ''historicalEvents'' (Selector ''#foundationMilestones''),
      TargetNotFound (Selector ''#foundationStats''),
      Rendered ''historicalEvents'' (Selector ''#foundationTimeline'')]"
    and "innerHTML (page (startApp (env_only no_events_text) page1)) 9 = ''Loading...''"
    unfolding no_events_start by (simp_all add: no_events_render find_message(1))
  moreover have "\<not> hasErrors (startApp (env_only foundation_no_events_text) page1)"
    and "console (page (startApp (env_only foundation_no_events_text) page1)) =
     [Rendered ''heroStats'' (Selector ''#heroStats''),
      Rendered ''historicalEvents'' (Selector ''#foundationMilestones''),
      TargetNotFound (Selector ''#foundationStats''),
      Rendered ''historicalEvents'' (Selector ''#foundationTimeline''),
      Rendered ''socialMedia'' (Selector ''#socialMediaGrowth''),
      Rendered ''companies'' (Selector ''#mobileBanking''),
      Rendered ''companies'' (Selector ''#investmentBoom'')]"
    by (simp_all add: foundation_no_events_start foundation_no_events_render)
  ultimately show ?thesis
    using no_events_validation no_events_render(1) find_message(2) q
      foundation_no_events_validation
    by (intro conjI)
qed

end
